theory Spec2Isabelle
  imports Complex_Main
begin

section \<open>JavaScript values\<close>

text \<open>
  The agreement pipeline of the Navigator services (\<open>NavigatorAPIServiceImplicit\<close>,
  and \<open>NavigatorAPIServicePKCE\<close> where the two differ) works on JSON documents.
  A number is a finite value, an infinity or NaN; a finite double is taken as the
  rational it denotes, and minus zero is not told from zero. Strings are the UTF-8
  bytes of the text.
\<close>

datatype jsnum = Fin rat | PosInf | NegInf | NaN

datatype jsval =
    JUndefined
  | JNull
  | JBool bool
  | JNum jsnum
  | JStr string
  | JArr "jsval list"
  | JObj "(string \<times> jsval) list"

datatype error = TypeError | RangeError | SyntaxError | Error string

text \<open>\<open>a < b\<close> on numbers: false as soon as one side is NaN.\<close>

fun num_lt :: "jsnum \<Rightarrow> jsnum \<Rightarrow> bool" where
  "num_lt NaN _ = False"
| "num_lt _ NaN = False"
| "num_lt (Fin a) (Fin b) = (a < b)"
| "num_lt (Fin _) PosInf = True"
| "num_lt (Fin _) NegInf = False"
| "num_lt PosInf _ = False"
| "num_lt NegInf NegInf = False"
| "num_lt NegInf _ = True"

text \<open>\<open>a <= b\<close> and \<open>a > b\<close> on numbers.\<close>

fun num_le :: "jsnum \<Rightarrow> jsnum \<Rightarrow> bool" where
  "num_le NaN _ = False"
| "num_le _ NaN = False"
| "num_le a b = (\<not> num_lt b a)"

definition num_gt :: "jsnum \<Rightarrow> jsnum \<Rightarrow> bool" where
  "num_gt a b = num_lt b a"

text \<open>
  Rounding to binary64. The binade of a positive rational \<open>x\<close> is the exponent
  \<open>e\<close> with \<open>2^e \<le> x < 2^(e+1)\<close>, kept between -1022 (below it the doubles
  are subnormal and equally spaced) and 1024 (there the double is an infinity).
\<close>

definition pow2 :: "int \<Rightarrow> rat" where
  "pow2 e = (if 0 \<le> e then 2 ^ nat e else 1 / 2 ^ nat (- e))"

function binade_down :: "int \<Rightarrow> rat \<Rightarrow> int" where
  "binade_down e x = (if 2 \<le> x \<and> e < 1024 then binade_down (e + 1) (x / 2) else e)"
  by pat_completeness auto
termination
  by (relation "measure (\<lambda>(e, x). nat (1024 - e))") auto

function binade_up :: "int \<Rightarrow> rat \<Rightarrow> int" where
  "binade_up e x = (if x < 1 \<and> - 1022 < e then binade_up (e - 1) (2 * x) else e)"
  by pat_completeness auto
termination
  by (relation "measure (\<lambda>(e, x). nat (e + 1022))") auto

declare binade_down.simps [simp del] binade_up.simps [simp del]

definition binade :: "rat \<Rightarrow> int" where
  "binade x = (if 1 \<le> x then binade_down 0 x else binade_up 0 x)"

text \<open>The nearest integer, a tie going to the even one.\<close>

definition roundHalfEven :: "rat \<Rightarrow> int" where
  "roundHalfEven q =
     (let n = \<lfloor>q\<rfloor>; f = q - of_int n
      in if f < 1 / 2 then n
         else if 1 / 2 < f then n + 1
         else if even n then n else n + 1)"

text \<open>
  The double nearest to a rational: the significand is rounded to 53 bits, a tie going
  to the even one. The result is an infinity from \<open>2^1024 - 2^970\<close> on, which is
  when the binade is 1024, or 1023 with the significand rounded up to \<open>2^53\<close>. An
  integer up to \<open>2^53\<close> in magnitude is a double.
\<close>

definition fl :: "rat \<Rightarrow> jsnum" where
  "fl x =
     (if x = of_int \<lfloor>x\<rfloor> \<and> \<bar>x\<bar> \<le> 2 ^ 53 then Fin x
      else
        (let a = \<bar>x\<bar>;
             e = binade a;
             n = roundHalfEven (a / pow2 (e - 52))
         in if 1024 \<le> e \<or> (e = 1023 \<and> 2 ^ 53 \<le> n)
            then (if x < 0 then NegInf else PosInf)
            else Fin ((if x < 0 then - 1 else 1) * of_int n * pow2 (e - 52))))"

text \<open>\<open>a + b\<close> and \<open>a - b\<close> on numbers: the exact result, rounded.\<close>

fun num_neg :: "jsnum \<Rightarrow> jsnum" where
  "num_neg (Fin a) = Fin (- a)"
| "num_neg PosInf = NegInf"
| "num_neg NegInf = PosInf"
| "num_neg NaN = NaN"

fun num_add :: "jsnum \<Rightarrow> jsnum \<Rightarrow> jsnum" where
  "num_add NaN _ = NaN"
| "num_add _ NaN = NaN"
| "num_add (Fin a) (Fin b) = fl (a + b)"
| "num_add (Fin _) b = b"
| "num_add a (Fin _) = a"
| "num_add PosInf PosInf = PosInf"
| "num_add NegInf NegInf = NegInf"
| "num_add _ _ = NaN"

definition num_sub :: "jsnum \<Rightarrow> jsnum \<Rightarrow> jsnum" where
  "num_sub a b = num_add a (num_neg b)"

text \<open>Truthiness of a number (\<open>0\<close> and NaN are falsy) and of a value.\<close>

definition num_truthy :: "jsnum \<Rightarrow> bool" where
  "num_truthy n = (n \<noteq> Fin 0 \<and> n \<noteq> NaN)"

fun truthy :: "jsval \<Rightarrow> bool" where
  "truthy JUndefined = False"
| "truthy JNull = False"
| "truthy (JBool b) = b"
| "truthy (JNum n) = num_truthy n"
| "truthy (JStr s) = (s \<noteq> [])"
| "truthy (JArr _) = True"
| "truthy (JObj _) = True"

text \<open>\<open>a || b\<close>.\<close>

definition jor :: "jsval \<Rightarrow> jsval \<Rightarrow> jsval" where
  "jor a b = (if truthy a then a else b)"

text \<open>
  Property read \<open>v.k\<close> for a value that is neither null nor undefined (the callers
  guard that case): an object answers with the last member of that name, as
  \<open>JSON.parse\<close> keeps it; the keys the services read are no built-in properties of
  strings, numbers, booleans or arrays, which answer undefined.
\<close>

fun getProp :: "jsval \<Rightarrow> string \<Rightarrow> jsval" where
  "getProp (JObj kvs) k = (case map_of (rev kvs) k of None \<Rightarrow> JUndefined | Some v \<Rightarrow> v)"
| "getProp _ k = JUndefined"

definition nullish :: "jsval \<Rightarrow> bool" where
  "nullish v = (v = JUndefined \<or> v = JNull)"

fun isArray :: "jsval \<Rightarrow> bool" where
  "isArray (JArr _) = True"
| "isArray _ = False"

text \<open>
  \<open>Array.prototype.includes\<close> compares with SameValueZero: primitives by value
  (NaN equal to itself), objects and arrays by reference. Two records of a decoded
  payload never share a reference, so an object or array is found in no other list.
\<close>

fun sameValueZero :: "jsval \<Rightarrow> jsval \<Rightarrow> bool" where
  "sameValueZero (JArr _) _ = False"
| "sameValueZero (JObj _) _ = False"
| "sameValueZero a b = (a = b)"

definition array_includes :: "jsval list \<Rightarrow> jsval \<Rightarrow> bool" where
  "array_includes ys t = list_ex (\<lambda>y. sameValueZero y t) ys"

section \<open>Strings and the parsers of the runtime\<close>

definition is_digit :: "char \<Rightarrow> bool" where
  "is_digit c = (let n = (of_char c :: nat) in 48 \<le> n \<and> n \<le> 57)"

definition digit_val :: "char \<Rightarrow> nat" where
  "digit_val c = (of_char c :: nat) - 48"

definition digits_val :: "string \<Rightarrow> nat" where
  "digits_val ds = foldl (\<lambda>a c. 10 * a + digit_val c) 0 ds"

definition starts_with :: "string \<Rightarrow> string \<Rightarrow> bool" where
  "starts_with p s = (take (length p) s = p)"

text \<open>
  White space and line terminators of the language: TAB, LF, VT, FF, CR, SP, and in
  UTF-8 the code points U+00A0, U+1680, U+2000 to U+200A, U+2028, U+2029, U+202F,
  U+205F, U+3000 and U+FEFF. \<open>ws_len s\<close> is the number of bytes of such a character
  at the head of \<open>s\<close>, 0 when there is none.
\<close>

definition ws_len :: "string \<Rightarrow> nat" where
  "ws_len s =
     (let b = (\<lambda>i. if i < length s then (of_char (s ! i) :: nat) else 0)
      in if (9 \<le> b 0 \<and> b 0 \<le> 13) \<or> b 0 = 32 then 1
         else if b 0 = 194 \<and> b 1 = 160 then 2
         else if b 0 = 225 \<and> b 1 = 154 \<and> b 2 = 128 then 3
         else if b 0 = 226 \<and> b 1 = 128
                 \<and> ((128 \<le> b 2 \<and> b 2 \<le> 138) \<or> b 2 = 168 \<or> b 2 = 169 \<or> b 2 = 175) then 3
         else if b 0 = 226 \<and> b 1 = 129 \<and> b 2 = 159 then 3
         else if b 0 = 227 \<and> b 1 = 128 \<and> b 2 = 128 then 3
         else if b 0 = 239 \<and> b 1 = 187 \<and> b 2 = 191 then 3
         else 0)"

text \<open>White space dropped at the head and at the end of a string.\<close>

function drop_ws :: "string \<Rightarrow> string" where
  "drop_ws s = (if ws_len s = 0 then s else drop_ws (drop (ws_len s) s))"
  by pat_completeness auto
termination
  by (relation "measure length") (auto simp: ws_len_def Let_def split: if_splits)

function drop_ws_end :: "string \<Rightarrow> string" where
  "drop_ws_end s =
     (let n = length s
      in if 1 \<le> n \<and> ws_len (drop (n - 1) s) = 1 then drop_ws_end (take (n - 1) s)
         else if 2 \<le> n \<and> ws_len (drop (n - 2) s) = 2 then drop_ws_end (take (n - 2) s)
         else if 3 \<le> n \<and> ws_len (drop (n - 3) s) = 3 then drop_ws_end (take (n - 3) s)
         else s)"
  by pat_completeness auto
termination
  by (relation "measure length") auto

declare drop_ws.simps [simp del] drop_ws_end.simps [simp del]

text \<open>\<open>String.prototype.trim\<close>.\<close>

definition trim :: "string \<Rightarrow> string" where
  "trim s = drop_ws_end (drop_ws s)"

text \<open>
  \<open>s.split(/[...]/)\<close> for a class of single characters: the pieces between the
  delimiters, one more than there are delimiters.
\<close>

fun split_on :: "(char \<Rightarrow> bool) \<Rightarrow> string \<Rightarrow> string list" where
  "split_on d [] = [[]]"
| "split_on d (c # cs) =
     (if d c then [] # split_on d cs
      else (case split_on d cs of
              [] \<Rightarrow> [[c]]
            | p # ps \<Rightarrow> (c # p) # ps))"

text \<open>A decimal mantissa and exponent as a rational.\<close>

definition pow10 :: "int \<Rightarrow> rat" where
  "pow10 e = (if 0 \<le> e then 10 ^ nat e else 1 / 10 ^ nat (- e))"

definition decimal_value :: "bool \<Rightarrow> string \<Rightarrow> string \<Rightarrow> int \<Rightarrow> rat" where
  "decimal_value neg ds fs e =
     (let m = (of_nat (digits_val ds) + of_nat (digits_val fs) / 10 ^ length fs) * pow10 e
      in if neg then - m else m)"

text \<open>
  The exponent part \<open>[eE][+-]?digits\<close> at the head of a string, if there is one:
  its value and the rest.
\<close>

definition exponent_part :: "string \<Rightarrow> (int \<times> string) option" where
  "exponent_part s =
     (case s of
        [] \<Rightarrow> None
      | c # r \<Rightarrow>
          if c = CHR ''e'' \<or> c = CHR ''E'' then
            (let neg = (r \<noteq> [] \<and> hd r = CHR ''-'');
                 r1 = (if r \<noteq> [] \<and> (hd r = CHR ''-'' \<or> hd r = CHR ''+'') then tl r else r);
                 es = takeWhile is_digit r1
             in if es = [] then None
                else Some ((if neg then - int (digits_val es) else int (digits_val es)),
                           dropWhile is_digit r1))
          else None)"

subsection \<open>parseFloat\<close>

text \<open>
  \<open>parseFloat(string)\<close>: leading white space is dropped, then the longest prefix
  that is a decimal literal (or a signed \<open>Infinity\<close>) is the value, rounded to
  the nearest double; NaN when there is none.
\<close>

definition parseFloat :: "string \<Rightarrow> jsnum" where
  "parseFloat s =
     (let t = drop_ws s;
          neg = (t \<noteq> [] \<and> hd t = CHR ''-'');
          t1 = (if t \<noteq> [] \<and> (hd t = CHR ''-'' \<or> hd t = CHR ''+'') then tl t else t)
      in if starts_with ''Infinity'' t1 then (if neg then NegInf else PosInf)
         else
           (let ds = takeWhile is_digit t1;
                r1 = dropWhile is_digit t1;
                dot = (r1 \<noteq> [] \<and> hd r1 = CHR ''.'');
                fs = (if dot then takeWhile is_digit (tl r1) else []);
                r2 = (if dot then dropWhile is_digit (tl r1) else r1)
            in if ds = [] \<and> fs = [] then NaN
               else (case exponent_part r2 of
                       None \<Rightarrow> fl (decimal_value neg ds fs 0)
                     | Some (e, _) \<Rightarrow> fl (decimal_value neg ds fs e))))"

text \<open>
  \<open>parseFloat(value)\<close> for any value: the argument is converted to a string first.
  A number prints to a string that reads back as itself; \<open>true\<close>, \<open>false\<close> and
  \<open>[object Object]\<close> hold no number; an array prints its elements joined by
  commas (null and undefined as nothing), so only its first element can be read.
\<close>

fun parseFloatV :: "jsval \<Rightarrow> jsnum" where
  "parseFloatV (JStr s) = parseFloat s"
| "parseFloatV (JNum n) = n"
| "parseFloatV (JArr (x # xs)) = parseFloatV x"
| "parseFloatV _ = NaN"

subsection \<open>JSON.parse\<close>

definition is_json_ws :: "char \<Rightarrow> bool" where
  "is_json_ws c = (let n = (of_char c :: nat) in n = 9 \<or> n = 10 \<or> n = 13 \<or> n = 32)"

definition skip_ws :: "string \<Rightarrow> string" where
  "skip_ws s = dropWhile is_json_ws s"

definition hex_val :: "char \<Rightarrow> nat option" where
  "hex_val c =
     (let n = (of_char c :: nat)
      in if 48 \<le> n \<and> n \<le> 57 then Some (n - 48)
         else if 65 \<le> n \<and> n \<le> 70 then Some (n - 55)
         else if 97 \<le> n \<and> n \<le> 102 then Some (n - 87)
         else None)"

definition hex4 :: "char \<Rightarrow> char \<Rightarrow> char \<Rightarrow> char \<Rightarrow> nat option" where
  "hex4 a b c d =
     (case (hex_val a, hex_val b, hex_val c, hex_val d) of
        (Some w, Some x, Some y, Some z) \<Rightarrow> Some (((w * 16 + x) * 16 + y) * 16 + z)
      | _ \<Rightarrow> None)"

text \<open>A code point of an escape \<open>\uXXXX\<close> as the bytes of its UTF-8 form.\<close>

definition utf8 :: "nat \<Rightarrow> string" where
  "utf8 n =
     (if n < 128 then [char_of n]
      else if n < 2048 then [char_of (192 + n div 64), char_of (128 + n mod 64)]
      else if n < 65536 then
        [char_of (224 + n div 4096), char_of (128 + (n div 64) mod 64), char_of (128 + n mod 64)]
      else
        [char_of (240 + n div 262144), char_of (128 + (n div 4096) mod 64),
         char_of (128 + (n div 64) mod 64), char_of (128 + n mod 64)])"

text \<open>
  The characters of a JSON string after its opening quote, up to the closing one.
  A high surrogate escape followed by a low one is one code point.
\<close>

fun json_chars :: "string \<Rightarrow> (string \<times> string) option" where
  "json_chars [] = None"
| "json_chars (c # r) =
     (if c = CHR 0x22 then Some ([], r)
      else if c = CHR 0x5C then
        (case r of
           [] \<Rightarrow> None
         | e # r2 \<Rightarrow>
             if e = CHR ''u'' then
               (case r2 of
                  h1 # h2 # h3 # h4 # r3 \<Rightarrow>
                    (case hex4 h1 h2 h3 h4 of
                       None \<Rightarrow> None
                     | Some n \<Rightarrow>
                         (case r3 of
                            b # u # l1 # l2 # l3 # l4 # r4 \<Rightarrow>
                              (case hex4 l1 l2 l3 l4 of
                                 None \<Rightarrow> map_option (\<lambda>(s, t). (utf8 n @ s, t)) (json_chars r3)
                               | Some m \<Rightarrow>
                                   if b = CHR 0x5C \<and> u = CHR ''u'' \<and> 55296 \<le> n \<and> n < 56320
                                      \<and> 56320 \<le> m \<and> m < 57344
                                   then map_option
                                          (\<lambda>(s, t). (utf8 (65536 + (n - 55296) * 1024 + (m - 56320)) @ s, t))
                                          (json_chars r4)
                                   else map_option (\<lambda>(s, t). (utf8 n @ s, t)) (json_chars r3))
                          | _ \<Rightarrow> map_option (\<lambda>(s, t). (utf8 n @ s, t)) (json_chars r3)))
                | _ \<Rightarrow> None)
             else
               (let d = (if e = CHR 0x22 then Some (CHR 0x22)
                         else if e = CHR 0x5C then Some (CHR 0x5C)
                         else if e = CHR ''/'' then Some (CHR ''/'')
                         else if e = CHR ''b'' then Some (CHR 0x08)
                         else if e = CHR ''f'' then Some (CHR 0x0C)
                         else if e = CHR ''n'' then Some (CHR 0x0A)
                         else if e = CHR ''r'' then Some (CHR 0x0D)
                         else if e = CHR ''t'' then Some (CHR 0x09)
                         else None)
                in case d of
                     None \<Rightarrow> None
                   | Some x \<Rightarrow> map_option (\<lambda>(s, t). (x # s, t)) (json_chars r2)))
      else if (of_char c :: nat) < 32 then None
      else map_option (\<lambda>(s, t). (c # s, t)) (json_chars r))"

text \<open>
  A JSON number at the head of a string: \<open>-?(0|[1-9][0-9]*)(.[0-9]+)?([eE][+-]?[0-9]+)?\<close>,
  rounded to the nearest double.
\<close>

definition json_number :: "string \<Rightarrow> (jsnum \<times> string) option" where
  "json_number s =
     (let neg = (s \<noteq> [] \<and> hd s = CHR ''-'');
          s1 = (if neg then tl s else s);
          ds = (if s1 \<noteq> [] \<and> hd s1 = CHR ''0'' then ''0'' else takeWhile is_digit s1);
          r1 = drop (length ds) s1
      in if ds = [] then None
         else
           (let dot = (r1 \<noteq> [] \<and> hd r1 = CHR ''.'');
                fs = (if dot then takeWhile is_digit (tl r1) else []);
                r2 = (if dot then dropWhile is_digit (tl r1) else r1)
            in if dot \<and> fs = [] then None
               else if r2 \<noteq> [] \<and> (hd r2 = CHR ''e'' \<or> hd r2 = CHR ''E'') then
                 (case exponent_part r2 of
                    None \<Rightarrow> None
                  | Some (e, r3) \<Rightarrow> Some (fl (decimal_value neg ds fs e), r3))
               else Some (fl (decimal_value neg ds fs 0), r2)))"

text \<open>
  The recursive descent over values, array elements and object members. The first
  argument bounds the nesting; \<open>JSON_parse\<close> starts it above what its input can use
  (a value takes a character before it descends, an element or member list two before
  it continues).
\<close>

fun json_value :: "nat \<Rightarrow> string \<Rightarrow> (jsval \<times> string) option"
  and json_elements :: "nat \<Rightarrow> string \<Rightarrow> (jsval list \<times> string) option"
  and json_members :: "nat \<Rightarrow> string \<Rightarrow> ((string \<times> jsval) list \<times> string) option"
where
  "json_value 0 s = None"
| "json_value (Suc n) s =
     (let t = skip_ws s
      in if starts_with ''null'' t then Some (JNull, drop 4 t)
         else if starts_with ''true'' t then Some (JBool True, drop 4 t)
         else if starts_with ''false'' t then Some (JBool False, drop 5 t)
         else (case t of
                 [] \<Rightarrow> None
               | c # r \<Rightarrow>
                   if c = CHR 0x22 then
                     map_option (\<lambda>(str, r'). (JStr str, r')) (json_chars r)
                   else if c = CHR ''['' then
                     (if starts_with '']'' (skip_ws r) then Some (JArr [], drop 1 (skip_ws r))
                      else map_option (\<lambda>(vs, r'). (JArr vs, r')) (json_elements n r))
                   else if c = CHR ''{'' then
                     (if starts_with ''}'' (skip_ws r) then Some (JObj [], drop 1 (skip_ws r))
                      else map_option (\<lambda>(kvs, r'). (JObj kvs, r')) (json_members n r))
                   else map_option (\<lambda>(x, r'). (JNum x, r')) (json_number t)))"
| "json_elements 0 s = None"
| "json_elements (Suc n) s =
     (case json_value n s of
        None \<Rightarrow> None
      | Some (v, r) \<Rightarrow>
          (case skip_ws r of
             [] \<Rightarrow> None
           | c # r2 \<Rightarrow>
               if c = CHR '','' then map_option (\<lambda>(vs, r'). (v # vs, r')) (json_elements n r2)
               else if c = CHR '']'' then Some ([v], r2)
               else None))"
| "json_members 0 s = None"
| "json_members (Suc n) s =
     (case skip_ws s of
        [] \<Rightarrow> None
      | q # r \<Rightarrow>
          if q \<noteq> CHR 0x22 then None
          else
            (case json_chars r of
               None \<Rightarrow> None
             | Some (k, r1) \<Rightarrow>
                 (case skip_ws r1 of
                    [] \<Rightarrow> None
                  | c # r2 \<Rightarrow>
                      if c \<noteq> CHR '':'' then None
                      else
                        (case json_value n r2 of
                           None \<Rightarrow> None
                         | Some (v, r3) \<Rightarrow>
                             (case skip_ws r3 of
                                [] \<Rightarrow> None
                              | d # r4 \<Rightarrow>
                                  if d = CHR '','' then
                                    map_option (\<lambda>(kvs, r'). ((k, v) # kvs, r')) (json_members n r4)
                                  else if d = CHR ''}'' then Some ([(k, v)], r4)
                                  else None)))))"

text \<open>\<open>JSON.parse(text)\<close>: the decoded value, or \<open>None\<close> where it throws SyntaxError.\<close>

definition JSON_parse :: "string \<Rightarrow> jsval option" where
  "JSON_parse s =
     (case json_value (2 * length s + 2) s of
        None \<Rightarrow> None
      | Some (v, r) \<Rightarrow> if skip_ws r = [] then Some v else None)"

subsection \<open>parseInt\<close>

text \<open>
  \<open>parseInt(string)\<close> without a radix: white space, a sign, then hexadecimal digits
  after \<open>0x\<close> or decimal digits otherwise, rounded to the nearest double; NaN when
  there is no digit.
\<close>

definition hex_digits_val :: "string \<Rightarrow> nat" where
  "hex_digits_val ds = foldl (\<lambda>a c. 16 * a + (case hex_val c of None \<Rightarrow> 0 | Some v \<Rightarrow> v)) 0 ds"

definition parseInt :: "string \<Rightarrow> jsnum" where
  "parseInt s =
     (let t = drop_ws s;
          neg = (t \<noteq> [] \<and> hd t = CHR ''-'');
          t1 = (if t \<noteq> [] \<and> (hd t = CHR ''-'' \<or> hd t = CHR ''+'') then tl t else t)
      in if starts_with ''0x'' t1 \<or> starts_with ''0X'' t1 then
           (let hs = takeWhile (\<lambda>c. hex_val c \<noteq> None) (drop 2 t1)
            in if hs = [] then NaN
               else fl (of_int (if neg then - int (hex_digits_val hs) else int (hex_digits_val hs))))
         else
           (let ds = takeWhile is_digit t1
            in if ds = [] then NaN
               else fl (of_int (if neg then - int (digits_val ds) else int (digits_val ds)))))"

section \<open>Dates\<close>

text \<open>
  What a run depends on outside the program: the clock, the local time zone (the
  offset from UTC in milliseconds, asked for a UTC instant and for a local one), and
  the two conversions the language leaves to the implementation, the date parser for
  strings outside the standard format and the printing of numbers that are no
  integers below \<open>10^21\<close>.
\<close>

record env =
  now :: int
  tzaUTC :: "int \<Rightarrow> int"
  tzaLocal :: "int \<Rightarrow> int"
  legacyDateParse :: "string \<Rightarrow> int option"
  numberToString :: "rat \<Rightarrow> string"

text \<open>The time value of a Date: milliseconds since the epoch, \<open>None\<close> for NaN.\<close>

type_synonym timevalue = "int option"

definition msPerDay :: int where
  "msPerDay = 86400000"

definition Day :: "int \<Rightarrow> int" where
  "Day t = t div msPerDay"

definition TimeWithinDay :: "int \<Rightarrow> int" where
  "TimeWithinDay t = t mod msPerDay"

definition DayFromYear :: "int \<Rightarrow> int" where
  "DayFromYear y =
     365 * (y - 1970) + (y - 1969) div 4 - (y - 1901) div 100 + (y - 1601) div 400"

definition InLeapYear :: "int \<Rightarrow> bool" where
  "InLeapYear y = ((y mod 4 = 0 \<and> y mod 100 \<noteq> 0) \<or> y mod 400 = 0)"

text \<open>The year of a day number: the largest \<open>y\<close> with \<open>DayFromYear y \<le> d\<close>.\<close>

definition YearFromDay :: "int \<Rightarrow> int" where
  "YearFromDay d =
     (let est = 1970 + (d * 400) div 146097
      in if DayFromYear (est + 1) \<le> d then est + 1
         else if DayFromYear est \<le> d then est
         else est - 1)"

text \<open>Days of the year before month \<open>m\<close> (0 is January).\<close>

definition daysBeforeMonth :: "bool \<Rightarrow> int \<Rightarrow> int" where
  "daysBeforeMonth leap m =
     (let l = (if leap then 1 else 0)
      in if m = 0 then 0 else if m = 1 then 31 else if m = 2 then 59 + l
         else if m = 3 then 90 + l else if m = 4 then 120 + l else if m = 5 then 151 + l
         else if m = 6 then 181 + l else if m = 7 then 212 + l else if m = 8 then 243 + l
         else if m = 9 then 273 + l else if m = 10 then 304 + l else 334 + l)"

definition DayWithinYear :: "int \<Rightarrow> int" where
  "DayWithinYear d = d - DayFromYear (YearFromDay d)"

definition MonthFromDay :: "int \<Rightarrow> int" where
  "MonthFromDay d =
     (let w = DayWithinYear d; leap = InLeapYear (YearFromDay d)
      in if w < daysBeforeMonth leap 1 then 0 else if w < daysBeforeMonth leap 2 then 1
         else if w < daysBeforeMonth leap 3 then 2 else if w < daysBeforeMonth leap 4 then 3
         else if w < daysBeforeMonth leap 5 then 4 else if w < daysBeforeMonth leap 6 then 5
         else if w < daysBeforeMonth leap 7 then 6 else if w < daysBeforeMonth leap 8 then 7
         else if w < daysBeforeMonth leap 9 then 8 else if w < daysBeforeMonth leap 10 then 9
         else if w < daysBeforeMonth leap 11 then 10 else 11)"

definition DateFromDay :: "int \<Rightarrow> int" where
  "DateFromDay d =
     DayWithinYear d - daysBeforeMonth (InLeapYear (YearFromDay d)) (MonthFromDay d) + 1"

definition YearFromTime :: "int \<Rightarrow> int" where
  "YearFromTime t = YearFromDay (Day t)"

definition MonthFromTime :: "int \<Rightarrow> int" where
  "MonthFromTime t = MonthFromDay (Day t)"

definition DateFromTime :: "int \<Rightarrow> int" where
  "DateFromTime t = DateFromDay (Day t)"

text \<open>
  \<open>MakeDay(year, month, date)\<close> for finite integers: the day number of the first of
  the month, plus \<open>date - 1\<close>. A month outside 0 to 11 carries into the year.
\<close>

definition MakeDay :: "int \<Rightarrow> int \<Rightarrow> int \<Rightarrow> int" where
  "MakeDay year month date =
     (let ym = year + month div 12; mn = month mod 12
      in DayFromYear ym + daysBeforeMonth (InLeapYear ym) mn + date - 1)"

definition MakeTime :: "int \<Rightarrow> int \<Rightarrow> int \<Rightarrow> int \<Rightarrow> int" where
  "MakeTime h m s ms = h * 3600000 + m * 60000 + s * 1000 + ms"

definition MakeDate :: "int \<Rightarrow> int \<Rightarrow> int" where
  "MakeDate day time = day * msPerDay + time"

definition TimeClip :: "int \<Rightarrow> timevalue" where
  "TimeClip t = (if \<bar>t\<bar> > 8640000000000000 then None else Some t)"

definition LocalTime :: "env \<Rightarrow> int \<Rightarrow> int" where
  "LocalTime env t = t + tzaUTC env t"

definition UTC :: "env \<Rightarrow> int \<Rightarrow> int" where
  "UTC env t = t - tzaLocal env t"

text \<open>\<open>ToIntegerOrInfinity\<close> of a finite number: towards zero.\<close>

definition trunc :: "rat \<Rightarrow> int" where
  "trunc q = (if 0 \<le> q then \<lfloor>q\<rfloor> else \<lceil>q\<rceil>)"

text \<open>\<open>getDate()\<close> and \<open>getFullYear()\<close>: in local time, NaN for an invalid date.\<close>

definition getDate :: "env \<Rightarrow> timevalue \<Rightarrow> jsnum" where
  "getDate env tv =
     (case tv of None \<Rightarrow> NaN | Some t \<Rightarrow> Fin (of_int (DateFromTime (LocalTime env t))))"

definition getFullYear :: "env \<Rightarrow> timevalue \<Rightarrow> jsnum" where
  "getFullYear env tv =
     (case tv of None \<Rightarrow> NaN | Some t \<Rightarrow> Fin (of_int (YearFromTime (LocalTime env t))))"

text \<open>
  \<open>setDate(dt)\<close>: the day of the month is replaced in local time, the time within
  the day is kept, and the result is taken back to UTC. An invalid date stays
  invalid; a \<open>dt\<close> that is not finite makes it invalid.
\<close>

definition setDate :: "env \<Rightarrow> timevalue \<Rightarrow> jsnum \<Rightarrow> timevalue" where
  "setDate env tv dt =
     (case tv of
        None \<Rightarrow> None
      | Some t0 \<Rightarrow>
          (case dt of
             Fin q \<Rightarrow>
               (let t = LocalTime env t0;
                    newDate = MakeDate (MakeDay (YearFromTime t) (MonthFromTime t) (trunc q))
                                (TimeWithinDay t)
                in TimeClip (UTC env newDate))
           | _ \<Rightarrow> None))"

text \<open>
  \<open>setFullYear(y)\<close>: the year is replaced in local time; an invalid date is taken
  as local time 0 first.
\<close>

definition setFullYear :: "env \<Rightarrow> timevalue \<Rightarrow> jsnum \<Rightarrow> timevalue" where
  "setFullYear env tv y =
     (case y of
        Fin q \<Rightarrow>
          (let t = (case tv of None \<Rightarrow> 0 | Some t0 \<Rightarrow> LocalTime env t0);
               newDate = MakeDate (MakeDay (trunc q) (MonthFromTime t) (DateFromTime t))
                           (TimeWithinDay t)
           in TimeClip (UTC env newDate))
      | _ \<Rightarrow> None)"

subsection \<open>Printing\<close>

definition digit_char :: "nat \<Rightarrow> char" where
  "digit_char n = char_of (48 + n mod 10)"

text \<open>The last \<open>k\<close> decimal digits of \<open>n\<close>, zero filled.\<close>

fun pad_digits :: "nat \<Rightarrow> nat \<Rightarrow> string" where
  "pad_digits 0 n = []"
| "pad_digits (Suc k) n = pad_digits k (n div 10) @ [digit_char n]"

text \<open>A natural number and an integer in decimal.\<close>

function nat_digits :: "nat \<Rightarrow> string" where
  "nat_digits n = (if n < 10 then [digit_char n] else nat_digits (n div 10) @ [digit_char n])"
  by pat_completeness auto
termination
  by (relation "measure (\<lambda>n. n)") auto

declare nat_digits.simps [simp del]

definition show_int :: "int \<Rightarrow> string" where
  "show_int i = (if i < 0 then CHR ''-'' # nat_digits (nat (- i)) else nat_digits (nat i))"

text \<open>
  \<open>toISOString()\<close> of a valid time value: \<open>YYYY-MM-DDTHH:mm:ss.sssZ\<close> in UTC, the
  year with a sign and six digits outside 0 to 9999.
\<close>

definition iso_string :: "int \<Rightarrow> string" where
  "iso_string t =
     (let y = YearFromTime t; w = TimeWithinDay t;
          ys = (if 0 \<le> y \<and> y \<le> 9999 then pad_digits 4 (nat y)
                else (if y < 0 then CHR ''-'' else CHR ''+'') # pad_digits 6 (nat \<bar>y\<bar>))
      in ys @ ''-'' @ pad_digits 2 (nat (MonthFromTime t + 1))
            @ ''-'' @ pad_digits 2 (nat (DateFromTime t))
            @ ''T'' @ pad_digits 2 (nat (w div 3600000))
            @ '':'' @ pad_digits 2 (nat ((w div 60000) mod 60))
            @ '':'' @ pad_digits 2 (nat ((w div 1000) mod 60))
            @ ''.'' @ pad_digits 3 (nat (w mod 1000)) @ ''Z'')"

text \<open>\<open>toISOString()\<close> throws RangeError on an invalid date.\<close>

definition toISOString :: "timevalue \<Rightarrow> error + string" where
  "toISOString tv = (case tv of None \<Rightarrow> Inl RangeError | Some t \<Rightarrow> Inr (iso_string t))"

text \<open>\<open>s.split('T')[0]\<close> on such a string: the date part.\<close>

definition date_part :: "string \<Rightarrow> string" where
  "date_part s = takeWhile (\<lambda>c. c \<noteq> CHR ''T'') s"

text \<open>Conversion of a value to a string, as \<open>parseInt\<close> and \<open>new Date\<close> apply it.\<close>

definition numToString :: "env \<Rightarrow> jsnum \<Rightarrow> string" where
  "numToString env n =
     (case n of
        NaN \<Rightarrow> ''NaN''
      | PosInf \<Rightarrow> ''Infinity''
      | NegInf \<Rightarrow> ''-Infinity''
      | Fin q \<Rightarrow>
          if q = of_int \<lfloor>q\<rfloor> \<and> \<bar>q\<bar> < 10 ^ 21 then show_int \<lfloor>q\<rfloor> else numberToString env q)"

fun join_comma :: "string list \<Rightarrow> string" where
  "join_comma [] = []"
| "join_comma [x] = x"
| "join_comma (x # xs) = x @ '','' @ join_comma xs"

fun toStringV :: "env \<Rightarrow> jsval \<Rightarrow> string" where
  "toStringV env JUndefined = ''undefined''"
| "toStringV env JNull = ''null''"
| "toStringV env (JBool b) = (if b then ''true'' else ''false'')"
| "toStringV env (JNum n) = numToString env n"
| "toStringV env (JStr s) = s"
| "toStringV env (JArr xs) =
     join_comma (map (\<lambda>x. if x = JUndefined \<or> x = JNull then [] else toStringV env x) xs)"
| "toStringV env (JObj kvs) = ''[object Object]''"

subsection \<open>Date.parse and the Date constructor\<close>

definition read_digits :: "nat \<Rightarrow> string \<Rightarrow> (nat \<times> string) option" where
  "read_digits n s =
     (if n \<le> length s \<and> list_all is_digit (take n s)
      then Some (digits_val (take n s), drop n s) else None)"

text \<open>The year of the standard format: four digits, or a sign and six (not \<open>-000000\<close>).\<close>

definition iso_year :: "string \<Rightarrow> (int \<times> string) option" where
  "iso_year s =
     (case s of
        [] \<Rightarrow> None
      | c # r \<Rightarrow>
          if c = CHR ''+'' \<or> c = CHR ''-'' then
            (case read_digits 6 r of
               None \<Rightarrow> None
             | Some (y, r1) \<Rightarrow>
                 if c = CHR ''-'' then (if y = 0 then None else Some (- int y, r1))
                 else Some (int y, r1))
          else map_option (\<lambda>(y, r1). (int y, r1)) (read_digits 4 s))"

text \<open>An optional \<open>-MM\<close> or \<open>-DD\<close>: absent, it counts as 1.\<close>

definition iso_dash2 :: "string \<Rightarrow> (nat \<times> bool \<times> string) option" where
  "iso_dash2 s =
     (if starts_with ''-'' s
      then map_option (\<lambda>(v, r). (v, True, r)) (read_digits 2 (tl s))
      else Some (1, False, s))"

text \<open>The time forms \<open>HH:mm\<close>, \<open>HH:mm:ss\<close> and \<open>HH:mm:ss.sss\<close> after the \<open>T\<close>.\<close>

definition iso_time :: "string \<Rightarrow> ((nat \<times> nat \<times> nat \<times> nat) \<times> string) option" where
  "iso_time s =
     (case read_digits 2 s of
        None \<Rightarrow> None
      | Some (h, r1) \<Rightarrow>
          if \<not> starts_with '':'' r1 then None
          else
            (case read_digits 2 (tl r1) of
               None \<Rightarrow> None
             | Some (mi, r2) \<Rightarrow>
                 if \<not> starts_with '':'' r2 then Some ((h, mi, 0, 0), r2)
                 else
                   (case read_digits 2 (tl r2) of
                      None \<Rightarrow> None
                    | Some (sec, r3) \<Rightarrow>
                        if \<not> starts_with ''.'' r3 then Some ((h, mi, sec, 0), r3)
                        else map_option (\<lambda>(ms, r4). ((h, mi, sec, ms), r4))
                               (read_digits 3 (tl r3)))))"

text \<open>
  The UTC offset that ends a date-time form: nothing (local time, inner \<open>None\<close>),
  \<open>Z\<close>, or \<open>+HH:mm\<close> and \<open>-HH:mm\<close> (the sign, the hours and the minutes).
\<close>

definition iso_zone :: "string \<Rightarrow> (int \<times> nat \<times> nat) option option" where
  "iso_zone s =
     (case s of
        [] \<Rightarrow> Some None
      | c # r \<Rightarrow>
          if c = CHR ''Z'' then (if r = [] then Some (Some (1, 0, 0)) else None)
          else if c = CHR ''+'' \<or> c = CHR ''-'' then
            (case read_digits 2 r of
               None \<Rightarrow> None
             | Some (h, r1) \<Rightarrow>
                 if \<not> starts_with '':'' r1 then None
                 else
                   (case read_digits 2 (tl r1) of
                      None \<Rightarrow> None
                    | Some (mi, r2) \<Rightarrow>
                        if r2 \<noteq> [] then None
                        else Some (Some (if c = CHR ''-'' then - 1 else 1, h, mi))))
          else None)"

text \<open>
  \<open>Date.parse(s)\<close>. A string in the standard format gives its time value, NaN when
  an element is out of range; a date-only form is UTC, a date-time form without
  offset is local time. A day up to 31 that its month does not have carries into the
  next month, as V8 reads it. Any other string is left to the implementation.
\<close>

definition Date_parse :: "env \<Rightarrow> string \<Rightarrow> timevalue" where
  "Date_parse env s =
     (case iso_year s of
        None \<Rightarrow> legacyDateParse env s
      | Some (y, r1) \<Rightarrow>
          (case iso_dash2 r1 of
             None \<Rightarrow> legacyDateParse env s
           | Some (m, hasMonth, r2) \<Rightarrow>
               (case (if hasMonth then iso_dash2 r2 else Some (1, False, r2)) of
                  None \<Rightarrow> legacyDateParse env s
                | Some (d, _, r3) \<Rightarrow>
                    if m < 1 \<or> 12 < m \<or> d < 1 \<or> 31 < d then
                      (if r3 = [] \<or> starts_with ''T'' r3 then None else legacyDateParse env s)
                    else if r3 = [] then
                      TimeClip (MakeDate (MakeDay y (int m - 1) (int d)) 0)
                    else if \<not> starts_with ''T'' r3 then legacyDateParse env s
                    else
                      (case iso_time (tl r3) of
                         None \<Rightarrow> legacyDateParse env s
                       | Some ((h, mi, sec, ms), r4) \<Rightarrow>
                           (case iso_zone r4 of
                              None \<Rightarrow> legacyDateParse env s
                            | Some z \<Rightarrow>
                                if 24 < h \<or> 59 < mi \<or> 59 < sec
                                   \<or> (h = 24 \<and> (mi \<noteq> 0 \<or> sec \<noteq> 0 \<or> ms \<noteq> 0))
                                then None
                                else
                                  (let t = MakeDate (MakeDay y (int m - 1) (int d))
                                             (MakeTime (int h) (int mi) (int sec) (int ms))
                                   in case z of
                                        None \<Rightarrow> TimeClip (UTC env t)
                                      | Some (sign, zh, zmi) \<Rightarrow>
                                          if 23 < zh \<or> 59 < zmi then None
                                          else TimeClip
                                                 (t - sign * (int zh * 3600000
                                                              + int zmi * 60000))))))))"

text \<open>
  \<open>new Date(value)\<close>: a string is parsed, a number is the time value itself (null
  counts as 0, a boolean as 0 or 1, undefined as NaN), an array or object is printed
  and then parsed.
\<close>

fun newDate :: "env \<Rightarrow> jsval \<Rightarrow> timevalue" where
  "newDate env (JStr s) = Date_parse env s"
| "newDate env JUndefined = None"
| "newDate env JNull = Some 0"
| "newDate env (JBool b) = Some (if b then 1 else 0)"
| "newDate env (JNum n) = (case n of Fin q \<Rightarrow> TimeClip (trunc q) | _ \<Rightarrow> None)"
| "newDate env v = Date_parse env (toStringV env v)"

text \<open>
  \<open>Math.ceil((a - b) / (1000 * 60 * 60 * 24))\<close> for two dates: NaN when one of them
  is invalid. The difference and the quotient are taken exactly: for two dates less
  than \<open>2^53\<close> milliseconds apart (some 285000 years) the difference is not
  rounded, and the rounded quotient has the same ceiling, a fraction of a day being
  more than half the distance of two doubles of that size.
\<close>

definition ceilDays :: "timevalue \<Rightarrow> timevalue \<Rightarrow> jsnum" where
  "ceilDays a b =
     (case (a, b) of
        (Some x, Some y) \<Rightarrow> Fin (of_int \<lceil>(of_int (x - y) :: rat) / (1000 * 60 * 60 * 24)\<rceil>)
      | _ \<Rightarrow> NaN)"

section \<open>Field parsers\<close>

text \<open>
  \<open>parseMultiValue\<close> of \<open>NavigatorAPIServiceImplicit\<close>. Every branch returns an
  array, so the result is the list of its elements.
\<close>

definition parseMultiValue :: "jsval \<Rightarrow> jsval list" where
  "parseMultiValue v =
     (case v of
        JArr xs \<Rightarrow> xs
      | JStr s \<Rightarrow>
          if s \<noteq> [] then
            (case JSON_parse s of
               Some parsed \<Rightarrow> (case parsed of JArr ys \<Rightarrow> ys | _ \<Rightarrow> [v])
             | None \<Rightarrow>
                 map JStr
                   (filter (\<lambda>t. t \<noteq> [])
                      (map trim
                         (split_on (\<lambda>c. c = CHR '','' \<or> c = CHR '';'' \<or> c = CHR ''|'') s))))
          else []
      | _ \<Rightarrow> [])"

text \<open>
  \<open>parseMultiValue\<close> of \<open>NavigatorAPIServicePKCE\<close>: no test for the empty string,
  and the pattern of the split is \<open>/[,;]/\<close>.
\<close>

definition parseMultiValue_pkce :: "jsval \<Rightarrow> jsval list" where
  "parseMultiValue_pkce v =
     (case v of
        JArr xs \<Rightarrow> xs
      | JStr s \<Rightarrow>
          (case JSON_parse s of
             Some parsed \<Rightarrow> (case parsed of JArr ys \<Rightarrow> ys | _ \<Rightarrow> [v])
           | None \<Rightarrow>
               map JStr
                 (filter (\<lambda>t. t \<noteq> [])
                    (map trim (split_on (\<lambda>c. c = CHR '','' \<or> c = CHR '';'') s))))
      | _ \<Rightarrow> [])"

text \<open>\<open>parseNumber\<close>: null (\<open>None\<close>) or a number that is not NaN.\<close>

definition parseNumber :: "jsval \<Rightarrow> jsnum option" where
  "parseNumber v =
     (if v = JNull \<or> v = JUndefined \<or> v = JStr [] then None
      else (let num = parseFloatV v in if num = NaN then None else Some num))"

text \<open>\<open>parseNumber(...) || d\<close>.\<close>

definition num_or :: "jsnum option \<Rightarrow> jsnum \<Rightarrow> jsnum" where
  "num_or r d = (case r of None \<Rightarrow> d | Some n \<Rightarrow> if num_truthy n then n else d)"

text \<open>A result of \<open>parseNumber\<close> as the value stored in the object.\<close>

definition num_field :: "jsnum option \<Rightarrow> jsval" where
  "num_field r = (case r of None \<Rightarrow> JNull | Some n \<Rightarrow> JNum n)"

text \<open>
  \<open>parseAnnualMinimums\<close> of \<open>NavigatorAPIServiceImplicit\<close>: the decoded value is
  returned as it is.
\<close>

definition parseAnnualMinimums :: "jsval \<Rightarrow> jsval" where
  "parseAnnualMinimums v =
     (case v of
        JArr xs \<Rightarrow> v
      | JStr s \<Rightarrow>
          if s \<noteq> [] then
            (case JSON_parse s of Some parsed \<Rightarrow> parsed | None \<Rightarrow> JArr [])
          else JArr []
      | _ \<Rightarrow> JArr [])"

text \<open>\<open>parseAnnualMinimums\<close> of \<open>NavigatorAPIServicePKCE\<close>: no test for the empty string.\<close>

definition parseAnnualMinimums_pkce :: "jsval \<Rightarrow> jsval" where
  "parseAnnualMinimums_pkce v =
     (case v of
        JArr xs \<Rightarrow> v
      | JStr s \<Rightarrow> (case JSON_parse s of Some parsed \<Rightarrow> parsed | None \<Rightarrow> JArr [])
      | _ \<Rightarrow> JArr [])"

section \<open>Agreements\<close>

text \<open>
  The object literal \<open>processed\<close> of \<open>processAgreement\<close> and the records of
  \<open>getSampleAgreements\<close>: the fields the services fill before
  \<open>calculateDerivedFields\<close> runs. \<open>parseMultiValue\<close> returns an array in every
  branch and \<open>parseNumber(...) || d\<close> a number, so these fields are typed.
\<close>

record processed =
  agr_id :: jsval
  navigatorId :: jsval
  navigatorUrl :: jsval
  title :: jsval
  executionDate :: jsval
  effectiveDate :: jsval
  expirationDate :: jsval
  status :: jsval
  distributorLegalName :: jsval
  lineOfBusiness :: jsval
  initialTermLength :: jsval
  territoryCountries :: "jsval list"
  productCategories :: "jsval list"
  customerSegmentRestrictions :: jsval
  exclusivityStatus :: jsval
  performanceBasedExclusivity :: jsval
  exclusivityConversionTrigger :: jsval
  commitmentCurrency :: jsval
  discountMRI_CT :: jsval
  discountUltrasound :: jsval
  discountPatientMonitoring :: jsval
  softwareRevenueShare :: jsval
  priceCapIncrease :: jsval
  annualMinimums :: jsval
  minimumPerformanceThreshold :: jsnum
  currentPerformance :: jsnum
  nonRenewalNoticeDays :: jsnum
  departmentsImpacted :: jsval

text \<open>The same object once \<open>calculateDerivedFields\<close> has added its fields.\<close>

record agreement = processed +
  nonRenewalDeadline :: string
  daysUntilExpiration :: jsnum
  daysUntilDeadline :: jsnum
  renewalUrgency :: string
  currentYearCommitment :: jsval
  aiRiskScore :: string
  lastSyncedFromNavigator :: string

section \<open>Risk score\<close>

text \<open>
  \<open>calculateRiskScore\<close>: the local \<open>riskPoints\<close> is accumulated by three
  statements, then mapped to a tier. The function reads \<open>currentPerformance\<close>,
  \<open>minimumPerformanceThreshold\<close>, \<open>daysUntilDeadline\<close> and \<open>exclusivityStatus\<close>.
\<close>

definition riskPoints :: "agreement \<Rightarrow> nat" where
  "riskPoints a =
     (let riskPoints = 0;
          riskPoints =
            (if num_lt (currentPerformance a) (minimumPerformanceThreshold a)
             then riskPoints + 3
             else if num_lt (currentPerformance a)
                       (num_add (minimumPerformanceThreshold a) (Fin 5))
             then riskPoints + 1
             else riskPoints);
          riskPoints =
            (if num_le (daysUntilDeadline a) (Fin 30) \<and> num_gt (daysUntilDeadline a) (Fin 0)
             then riskPoints + 3
             else if num_le (daysUntilDeadline a) (Fin 90) \<and> num_gt (daysUntilDeadline a) (Fin 0)
             then riskPoints + 1
             else riskPoints);
          riskPoints =
            (if exclusivityStatus a = JStr ''Conditional Exclusive''
                \<and> num_lt (currentPerformance a) (Fin 90)
             then riskPoints + 2
             else riskPoints)
      in riskPoints)"

definition calculateRiskScore :: "agreement \<Rightarrow> string" where
  "calculateRiskScore a =
     (if riskPoints a \<ge> 5 then ''High''
      else if riskPoints a \<ge> 2 then ''Medium''
      else ''Low'')"

section \<open>Derived fields\<close>

text \<open>
  \<open>agreement.annualMinimums.find(m => m.year === currentYear)\<close>: TypeError when
  the value is no array or an element is null or undefined; undefined when no
  element matches.
\<close>

fun find_year :: "jsval list \<Rightarrow> int \<Rightarrow> error + jsval" where
  "find_year [] y = Inr JUndefined"
| "find_year (m # ms) y =
     (if nullish m then Inl TypeError
      else if getProp m ''year'' = JNum (Fin (of_int y)) then Inr m
      else find_year ms y)"

definition annualMinimums_find :: "jsval \<Rightarrow> int \<Rightarrow> error + jsval" where
  "annualMinimums_find v y = (case v of JArr ms \<Rightarrow> find_year ms y | _ \<Rightarrow> Inl TypeError)"

text \<open>
  \<open>calculateDerivedFields\<close> of \<open>NavigatorAPIServiceImplicit\<close>. The clock is read
  once for a record. \<open>aiRiskScore\<close> is not yet set when \<open>calculateRiskScore\<close> reads
  the object (\<open>NavigatorAPIServicePKCE\<close> has the same body without the last
  assignment, its \<open>processAgreement\<close> making the time stamp).
\<close>

definition calculateDerivedFields :: "env \<Rightarrow> processed \<Rightarrow> error + agreement" where
  "calculateDerivedFields env a =
     (let now = Some (now env);
          expirationDate = newDate env (expirationDate a);
          nonRenewalDeadline = expirationDate;
          nonRenewalDeadline =
            setDate env nonRenewalDeadline
              (num_sub (getDate env nonRenewalDeadline) (nonRenewalNoticeDays a))
      in case toISOString nonRenewalDeadline of
           Inl e \<Rightarrow> Inl e
         | Inr isoString \<Rightarrow>
             (let daysUntilExpiration = ceilDays expirationDate now;
                  daysUntilDeadline = ceilDays nonRenewalDeadline now;
                  renewalUrgency =
                    (if num_le daysUntilDeadline (Fin 30) \<and> num_gt daysUntilDeadline (Fin 0)
                     then ''Urgent''
                     else if num_le daysUntilDeadline (Fin 90) \<and> num_gt daysUntilDeadline (Fin 0)
                     then ''Warning''
                     else ''On Track'');
                  currentYear = YearFromTime (LocalTime env (env.now env))
              in case annualMinimums_find (annualMinimums a) currentYear of
                   Inl e \<Rightarrow> Inl e
                 | Inr yearCommitment \<Rightarrow>
                     (let currentYearCommitment =
                            jor (if nullish yearCommitment then JUndefined
                                 else getProp yearCommitment ''amount'')
                                (JNum (Fin 0));
                          agreement =
                            processed.extend a
                              (agreement.fields (date_part isoString) daysUntilExpiration
                                 daysUntilDeadline renewalUrgency currentYearCommitment [] [])
                      in Inr (agreement
                                \<lparr>aiRiskScore := calculateRiskScore agreement,
                                 lastSyncedFromNavigator := iso_string (env.now env)\<rparr>))))"

section \<open>Normalisation\<close>

text \<open>\<open>calculateExpirationDate\<close>: the estimate when no expiration date is given.\<close>

definition calculateExpirationDate :: "env \<Rightarrow> jsval \<Rightarrow> error + string" where
  "calculateExpirationDate env agreement =
     (if truthy (getProp agreement ''effectiveDate'') \<and> truthy (getProp agreement ''termLength'')
      then
        (let effective = newDate env (getProp agreement ''effectiveDate'');
             years = (let n = parseInt (toStringV env (getProp agreement ''termLength''))
                      in if num_truthy n then n else Fin 1);
             effective = setFullYear env effective (num_add (getFullYear env effective) years)
         in map_sum (\<lambda>e. e) date_part (toISOString effective))
      else
        (let future = Some (now env);
             future = setFullYear env future (num_add (getFullYear env future) (Fin 1))
         in map_sum (\<lambda>e. e) date_part (toISOString future)))"

text \<open>
  The object literal \<open>processed\<close> of \<open>processAgreement\<close> in
  \<open>NavigatorAPIServiceImplicit\<close>, for an agreement that is neither null nor
  undefined and the value its expiration date has been resolved to.
\<close>

definition processed_object :: "env \<Rightarrow> jsval \<Rightarrow> jsval \<Rightarrow> processed" where
  "processed_object env agreement expDate =
     (let customFields = jor (getProp agreement ''customFields'') (JObj []);
          cf = getProp customFields;
          ag = getProp agreement
      in
        \<lparr>agr_id = jor (jor (ag ''id'') (ag ''agreementId''))
                    (JStr (''agr-'' @ show_int (now env))),
         navigatorId = ag ''id'',
         navigatorUrl = jor (jor (ag ''documentUrl'') (ag ''viewUrl'')) (ag ''url''),
         title = jor (jor (jor (cf ''agreementTitle'') (cf ''title'')) (ag ''name''))
                   (JStr ''Untitled Agreement''),
         executionDate = jor (jor (cf ''executionDate'') (ag ''executionDate''))
                           (ag ''createdDate''),
         effectiveDate = jor (jor (cf ''effectiveDate'') (ag ''effectiveDate''))
                           (ag ''executionDate''),
         expirationDate = expDate,
         status = jor (ag ''status'') (JStr ''Active''),
         distributorLegalName =
           jor (jor (cf ''distributorLegalName'') (cf ''distributorName''))
             (JStr ''Unknown Distributor''),
         lineOfBusiness = jor (jor (cf ''lineOfBusiness'') (cf ''businessLine'')) (JStr []),
         initialTermLength =
           jor (jor (cf ''initialTermLength'') (cf ''termLength'')) (JStr []),
         territoryCountries =
           parseMultiValue
             (jor (jor (cf ''territoryCountries'') (cf ''territories'')) (cf ''territory'')),
         productCategories =
           parseMultiValue
             (jor (jor (cf ''productCategories'') (cf ''products'')) (cf ''product'')),
         customerSegmentRestrictions =
           jor (jor (cf ''customerSegmentRestrictions'') (cf ''customerSegments''))
             (JStr []),
         exclusivityStatus =
           jor (jor (cf ''exclusivityStatus'') (cf ''exclusivity'')) (JStr ''Non-Exclusive''),
         performanceBasedExclusivity =
           jor (cf ''performanceBasedExclusivity'') (JStr ''No''),
         exclusivityConversionTrigger =
           jor (cf ''exclusivityConversionTrigger'') (JStr []),
         commitmentCurrency =
           jor (jor (cf ''commitmentCurrency'') (cf ''currency'')) (JStr ''USD''),
         discountMRI_CT =
           num_field (parseNumber (jor (cf ''discountMRI_CT'') (cf ''discount-mri-ct''))),
         discountUltrasound =
           num_field
             (parseNumber (jor (cf ''discountUltrasound'') (cf ''discount-ultrasound''))),
         discountPatientMonitoring =
           num_field
             (parseNumber
                (jor (cf ''discountPatientMonitoring'') (cf ''discount-patient-monitoring''))),
         softwareRevenueShare =
           num_field (parseNumber (jor (cf ''softwareRevenueShare'') (cf ''softwareShare''))),
         priceCapIncrease =
           num_field (parseNumber (jor (cf ''priceCapIncrease'') (cf ''priceCap''))),
         annualMinimums =
           parseAnnualMinimums (jor (cf ''annualMinimums'') (cf ''minimums'')),
         minimumPerformanceThreshold =
           num_or
             (parseNumber
                (jor (cf ''minimumPerformanceThreshold'') (cf ''performanceThreshold'')))
             (Fin 85),
         currentPerformance =
           num_or (parseNumber (jor (cf ''currentPerformance'') (cf ''performance'')))
             (Fin 0),
         nonRenewalNoticeDays =
           num_or (parseNumber (jor (cf ''nonRenewalNoticeDays'') (cf ''noticeDays'')))
             (Fin 90),
         departmentsImpacted =
           jor (jor (cf ''departmentsImpacted'') (cf ''departments'')) (JStr [])\<rparr>)"

text \<open>
  \<open>processAgreement\<close> of \<open>NavigatorAPIServiceImplicit\<close>. Reading
  \<open>agreement.customFields\<close> throws TypeError on null and undefined; the fallback
  of the expiration date is evaluated only when both candidates are falsy and may throw.
\<close>

definition processAgreement :: "env \<Rightarrow> jsval \<Rightarrow> error + agreement" where
  "processAgreement env agreement =
     (if nullish agreement then Inl TypeError
      else
        (let customFields = jor (getProp agreement ''customFields'') (JObj []);
             e = jor (getProp customFields ''expirationDate'') (getProp agreement ''expirationDate'')
         in case (if truthy e then Inr e
                  else map_sum (\<lambda>e. e) JStr (calculateExpirationDate env agreement)) of
              Inl e \<Rightarrow> Inl e
            | Inr expDate \<Rightarrow>
                calculateDerivedFields env (processed_object env agreement expDate)))"

text \<open>
  The same in \<open>NavigatorAPIServicePKCE\<close>: one candidate for each field of the
  custom fields, no default for the title or the distributor, and no fallback for the
  expiration date. Its literal makes the time stamp that \<open>calculateDerivedFields\<close>
  adds here.
\<close>

definition processed_object_pkce :: "jsval \<Rightarrow> processed" where
  "processed_object_pkce agreement =
     (let customFields = jor (getProp agreement ''customFields'') (JObj []);
          cf = getProp customFields;
          ag = getProp agreement
      in
        \<lparr>agr_id = jor (ag ''id'') (ag ''agreementId''),
         navigatorId = ag ''id'',
         navigatorUrl = jor (ag ''documentUrl'') (ag ''viewUrl''),
         title = jor (cf ''title'') (ag ''name''),
         executionDate = jor (cf ''executionDate'') (ag ''executionDate''),
         effectiveDate = jor (cf ''effectiveDate'') (ag ''effectiveDate''),
         expirationDate = jor (cf ''expirationDate'') (ag ''expirationDate''),
         status = jor (ag ''status'') (JStr ''Active''),
         distributorLegalName = jor (cf ''distributorLegalName'') (JStr []),
         lineOfBusiness = jor (cf ''lineOfBusiness'') (JStr []),
         initialTermLength = jor (cf ''initialTermLength'') (JStr []),
         territoryCountries = parseMultiValue_pkce (cf ''territoryCountries''),
         productCategories = parseMultiValue_pkce (cf ''productCategories''),
         customerSegmentRestrictions = jor (cf ''customerSegmentRestrictions'') (JStr []),
         exclusivityStatus = jor (cf ''exclusivityStatus'') (JStr ''Non-Exclusive''),
         performanceBasedExclusivity = jor (cf ''performanceBasedExclusivity'') (JStr ''No''),
         exclusivityConversionTrigger = jor (cf ''exclusivityConversionTrigger'') (JStr []),
         commitmentCurrency = jor (cf ''commitmentCurrency'') (JStr ''USD''),
         discountMRI_CT = num_field (parseNumber (cf ''discountMRI_CT'')),
         discountUltrasound = num_field (parseNumber (cf ''discountUltrasound'')),
         discountPatientMonitoring = num_field (parseNumber (cf ''discountPatientMonitoring'')),
         softwareRevenueShare = num_field (parseNumber (cf ''softwareRevenueShare'')),
         priceCapIncrease = num_field (parseNumber (cf ''priceCapIncrease'')),
         annualMinimums = parseAnnualMinimums_pkce (cf ''annualMinimums''),
         minimumPerformanceThreshold =
           num_or (parseNumber (cf ''minimumPerformanceThreshold'')) (Fin 85),
         currentPerformance = num_or (parseNumber (cf ''currentPerformance'')) (Fin 0),
         nonRenewalNoticeDays = num_or (parseNumber (cf ''nonRenewalNoticeDays'')) (Fin 90),
         departmentsImpacted = jor (cf ''departmentsImpacted'') (JStr [])\<rparr>)"

definition processAgreement_pkce :: "env \<Rightarrow> jsval \<Rightarrow> error + agreement" where
  "processAgreement_pkce env agreement =
     (if nullish agreement then Inl TypeError
      else calculateDerivedFields env (processed_object_pkce agreement))"

text \<open>\<open>xs.map(f)\<close> for an \<open>f\<close> that may throw: it stops at the first exception.\<close>

fun mapE :: "('a \<Rightarrow> error + 'b) \<Rightarrow> 'a list \<Rightarrow> error + 'b list" where
  "mapE f [] = Inr []"
| "mapE f (x # xs) =
     (case f x of
        Inl e \<Rightarrow> Inl e
      | Inr y \<Rightarrow> (case mapE f xs of Inl e \<Rightarrow> Inl e | Inr ys \<Rightarrow> Inr (y # ys)))"

definition processAgreements :: "env \<Rightarrow> jsval list \<Rightarrow> error + agreement list" where
  "processAgreements env agreements = mapE (processAgreement env) agreements"

section \<open>The demo data set\<close>

text \<open>The five records of \<open>getSampleAgreements\<close>; none has an \<open>exclusivityConversionTrigger\<close>.\<close>

definition sample1 :: processed where
  "sample1 =
     \<lparr>agr_id = JStr ''AGR-001'',
      navigatorId = JStr ''nav_001'',
      navigatorUrl = JStr ''https://navigator-d.docusign.com/agreements/nav_001'',
      title = JStr ''[SAMPLE] Germany & Austria - Imaging Systems'',
      executionDate = JStr ''2024-01-15'',
      effectiveDate = JStr ''2024-02-01'',
      expirationDate = JStr ''2027-01-31'',
      status = JStr ''Active'',
      distributorLegalName = JStr ''MedizinTechnik Deutschland GmbH [SAMPLE]'',
      lineOfBusiness = JStr ''Medical Imaging'',
      initialTermLength = JStr ''3 years'',
      territoryCountries = [JStr ''Germany'', JStr ''Austria''],
      productCategories =
        [JStr ''MRI Systems'', JStr ''CT Scanners'', JStr ''Ultrasound Systems''],
      customerSegmentRestrictions = JStr ''All healthcare facilities'',
      exclusivityStatus = JStr ''Exclusive'',
      performanceBasedExclusivity = JStr ''Yes'',
      exclusivityConversionTrigger = JUndefined,
      commitmentCurrency = JStr ''EUR'',
      discountMRI_CT = (JNum (Fin 38)),
      discountUltrasound = (JNum (Fin 42)),
      discountPatientMonitoring = JNull,
      softwareRevenueShare = (JNum (Fin 40)),
      priceCapIncrease = (JNum (Fin 3)),
      annualMinimums =
        JArr [JObj [(''year'', JNum (Fin 2024)), (''amount'', JNum (Fin 2000000))],
         JObj [(''year'', JNum (Fin 2025)), (''amount'', JNum (Fin 2500000))],
         JObj [(''year'', JNum (Fin 2026)), (''amount'', JNum (Fin 3000000))]],
      minimumPerformanceThreshold = Fin 85,
      currentPerformance = Fin 92,
      nonRenewalNoticeDays = Fin 90,
      departmentsImpacted = JStr ''Legal; Sales; Finance''\<rparr>"

definition sample2 :: processed where
  "sample2 =
     \<lparr>agr_id = JStr ''AGR-002'',
      navigatorId = JStr ''nav_002'',
      navigatorUrl = JStr ''https://navigator-d.docusign.com/agreements/nav_002'',
      title = JStr ''[SAMPLE] UK & Ireland - Patient Monitoring'',
      executionDate = JStr ''2023-06-10'',
      effectiveDate = JStr ''2023-07-01'',
      expirationDate = JStr ''2025-06-30'',
      status = JStr ''Active'',
      distributorLegalName = JStr ''BritMed Solutions Ltd. [SAMPLE]'',
      lineOfBusiness = JStr ''Patient Monitoring'',
      initialTermLength = JStr ''2 years'',
      territoryCountries = [JStr ''United Kingdom'', JStr ''Ireland''],
      productCategories =
        [JStr ''Patient Monitoring Systems'', JStr ''AI Software''],
      customerSegmentRestrictions = JStr ''Hospitals and clinics only'',
      exclusivityStatus = JStr ''Conditional Exclusive'',
      performanceBasedExclusivity = JStr ''Yes'',
      exclusivityConversionTrigger = JUndefined,
      commitmentCurrency = JStr ''GBP'',
      discountMRI_CT = JNull,
      discountUltrasound = JNull,
      discountPatientMonitoring = (JNum (Fin 35)),
      softwareRevenueShare = (JNum (Fin 45)),
      priceCapIncrease = (JNum (Fin (5 / 2))),
      annualMinimums =
        JArr [JObj [(''year'', JNum (Fin 2023)), (''amount'', JNum (Fin 800000))],
         JObj [(''year'', JNum (Fin 2024)), (''amount'', JNum (Fin 1000000))],
         JObj [(''year'', JNum (Fin 2025)), (''amount'', JNum (Fin 1200000))]],
      minimumPerformanceThreshold = Fin 85,
      currentPerformance = Fin 78,
      nonRenewalNoticeDays = Fin 90,
      departmentsImpacted = JStr ''Legal; Sales''\<rparr>"

definition sample3 :: processed where
  "sample3 =
     \<lparr>agr_id = JStr ''AGR-003'',
      navigatorId = JStr ''nav_003'',
      navigatorUrl = JStr ''https://navigator-d.docusign.com/agreements/nav_003'',
      title = JStr ''[SAMPLE] Japan - Advanced Imaging & AI'',
      executionDate = JStr ''2024-09-20'',
      effectiveDate = JStr ''2024-10-01'',
      expirationDate = JStr ''2028-09-30'',
      status = JStr ''Active'',
      distributorLegalName = JStr ''NipponMed Technologies K.K. [SAMPLE]'',
      lineOfBusiness = JStr ''Medical Imaging'',
      initialTermLength = JStr ''4 years'',
      territoryCountries = [JStr ''Japan''],
      productCategories =
        [JStr ''MRI Systems'', JStr ''CT Scanners'', JStr ''AI Software''],
      customerSegmentRestrictions = JStr ''All healthcare facilities'',
      exclusivityStatus = JStr ''Exclusive'',
      performanceBasedExclusivity = JStr ''No'',
      exclusivityConversionTrigger = JUndefined,
      commitmentCurrency = JStr ''JPY'',
      discountMRI_CT = (JNum (Fin 40)),
      discountUltrasound = (JNum (Fin 38)),
      discountPatientMonitoring = JNull,
      softwareRevenueShare = (JNum (Fin 35)),
      priceCapIncrease = (JNum (Fin 4)),
      annualMinimums =
        JArr [JObj [(''year'', JNum (Fin 2024)), (''amount'', JNum (Fin 500000000))],
         JObj [(''year'', JNum (Fin 2025)), (''amount'', JNum (Fin 600000000))],
         JObj [(''year'', JNum (Fin 2026)), (''amount'', JNum (Fin 700000000))],
         JObj [(''year'', JNum (Fin 2027)), (''amount'', JNum (Fin 800000000))]],
      minimumPerformanceThreshold = Fin 90,
      currentPerformance = Fin 95,
      nonRenewalNoticeDays = Fin 120,
      departmentsImpacted = JStr ''Legal; Sales; Finance; R&D''\<rparr>"

definition sample4 :: processed where
  "sample4 =
     \<lparr>agr_id = JStr ''AGR-004'',
      navigatorId = JStr ''nav_004'',
      navigatorUrl = JStr ''https://navigator-d.docusign.com/agreements/nav_004'',
      title = JStr ''[SAMPLE] Brazil - Ultrasound Systems'',
      executionDate = JStr ''2023-03-05'',
      effectiveDate = JStr ''2023-04-01'',
      expirationDate = JStr ''2025-03-31'',
      status = JStr ''Active'',
      distributorLegalName = JStr ''MedSul Distribuidora Ltda. [SAMPLE]'',
      lineOfBusiness = JStr ''Medical Imaging'',
      initialTermLength = JStr ''2 years'',
      territoryCountries = [JStr ''Brazil''],
      productCategories =
        [JStr ''Ultrasound Systems''],
      customerSegmentRestrictions = JStr ''Private healthcare only'',
      exclusivityStatus = JStr ''Non-Exclusive'',
      performanceBasedExclusivity = JStr ''No'',
      exclusivityConversionTrigger = JUndefined,
      commitmentCurrency = JStr ''BRL'',
      discountMRI_CT = JNull,
      discountUltrasound = (JNum (Fin 45)),
      discountPatientMonitoring = JNull,
      softwareRevenueShare = JNull,
      priceCapIncrease = (JNum (Fin 5)),
      annualMinimums =
        JArr [JObj [(''year'', JNum (Fin 2023)), (''amount'', JNum (Fin 3000000))],
         JObj [(''year'', JNum (Fin 2024)), (''amount'', JNum (Fin 3500000))],
         JObj [(''year'', JNum (Fin 2025)), (''amount'', JNum (Fin 4000000))]],
      minimumPerformanceThreshold = Fin 80,
      currentPerformance = Fin 65,
      nonRenewalNoticeDays = Fin 60,
      departmentsImpacted = JStr ''Sales; Finance''\<rparr>"

definition sample5 :: processed where
  "sample5 =
     \<lparr>agr_id = JStr ''AGR-005'',
      navigatorId = JStr ''nav_005'',
      navigatorUrl = JStr ''https://navigator-d.docusign.com/agreements/nav_005'',
      title = JStr ''[SAMPLE] Australia & New Zealand - Full Portfolio'',
      executionDate = JStr ''2024-11-12'',
      effectiveDate = JStr ''2024-12-01'',
      expirationDate = JStr ''2027-11-30'',
      status = JStr ''Active'',
      distributorLegalName = JStr ''AusMed Healthcare Solutions Pty Ltd [SAMPLE]'',
      lineOfBusiness = JStr ''Medical Equipment'',
      initialTermLength = JStr ''3 years'',
      territoryCountries = [JStr ''Australia'', JStr ''New Zealand''],
      productCategories =
        [JStr ''MRI Systems'', JStr ''CT Scanners'', JStr ''Ultrasound Systems'', JStr ''Patient Monitoring Systems'', JStr ''AI Software''],
      customerSegmentRestrictions = JStr ''All healthcare facilities'',
      exclusivityStatus = JStr ''Exclusive'',
      performanceBasedExclusivity = JStr ''Yes'',
      exclusivityConversionTrigger = JUndefined,
      commitmentCurrency = JStr ''AUD'',
      discountMRI_CT = (JNum (Fin 36)),
      discountUltrasound = (JNum (Fin 40)),
      discountPatientMonitoring = (JNum (Fin 38)),
      softwareRevenueShare = (JNum (Fin 42)),
      priceCapIncrease = (JNum (Fin (7 / 2))),
      annualMinimums =
        JArr [JObj [(''year'', JNum (Fin 2024)), (''amount'', JNum (Fin 3000000))],
         JObj [(''year'', JNum (Fin 2025)), (''amount'', JNum (Fin 4000000))],
         JObj [(''year'', JNum (Fin 2026)), (''amount'', JNum (Fin 5000000))]],
      minimumPerformanceThreshold = Fin 85,
      currentPerformance = Fin 88,
      nonRenewalNoticeDays = Fin 90,
      departmentsImpacted = JStr ''Legal; Sales; Finance; Operations''\<rparr>"

definition sampleData :: "processed list" where
  "sampleData = [sample1, sample2, sample3, sample4, sample5]"

definition getSampleAgreements :: "env \<Rightarrow> error + agreement list" where
  "getSampleAgreements env = mapE (calculateDerivedFields env) sampleData"

section \<open>Conflict detection\<close>

record party =
  party_id :: jsval
  party_title :: jsval
  exclusivity :: jsval

record conflict =
  conflict_type :: string
  severity :: string
  agreement1 :: party
  agreement2 :: party
  overlappingTerritories :: "jsval list"
  overlappingProducts :: "jsval list"

text \<open>
  \<open>detectConflicts\<close>: the inner loop over \<open>j\<close> from a given index, for a fixed \<open>i\<close>,
  and the outer loop over \<open>i\<close>. \<open>conflicts\<close> is the array being filled.
\<close>

function conflicts_inner ::
  "agreement list \<Rightarrow> nat \<Rightarrow> nat \<Rightarrow> conflict list \<Rightarrow> conflict list" where
  "conflicts_inner agreements i j conflicts =
     (if j < length agreements then
        (let a = agreements ! i;
             b = agreements ! j;
             territoryOverlap =
               list_ex (\<lambda>t. array_includes (territoryCountries b) t) (territoryCountries a)
         in if \<not> territoryOverlap then conflicts_inner agreements i (j + 1) conflicts
            else
              (let productOverlap =
                     list_ex (\<lambda>p. array_includes (productCategories b) p) (productCategories a)
               in if \<not> productOverlap then conflicts_inner agreements i (j + 1) conflicts
                  else
                    (let hasConflict =
                           ((exclusivityStatus a = JStr ''Exclusive''
                               \<and> exclusivityStatus b = JStr ''Exclusive'')
                            \<or> (exclusivityStatus a = JStr ''Exclusive''
                               \<and> exclusivityStatus b \<noteq> JStr ''Exclusive'')
                            \<or> (exclusivityStatus b = JStr ''Exclusive''
                               \<and> exclusivityStatus a \<noteq> JStr ''Exclusive''))
                     in if hasConflict then
                          conflicts_inner agreements i (j + 1)
                            (conflicts @
                               [\<lparr>conflict_type = ''Territory/Product Conflict'',
                                 severity =
                                   (if exclusivityStatus a = JStr ''Exclusive''
                                       \<and> exclusivityStatus b = JStr ''Exclusive''
                                    then ''High'' else ''Medium''),
                                 agreement1 =
                                   \<lparr>party_id = agr_id a, party_title = title a,
                                    exclusivity = exclusivityStatus a\<rparr>,
                                 agreement2 =
                                   \<lparr>party_id = agr_id b, party_title = title b,
                                    exclusivity = exclusivityStatus b\<rparr>,
                                 overlappingTerritories =
                                   filter (\<lambda>t. array_includes (territoryCountries b) t)
                                     (territoryCountries a),
                                 overlappingProducts =
                                   filter (\<lambda>p. array_includes (productCategories b) p)
                                     (productCategories a)\<rparr>])
                        else conflicts_inner agreements i (j + 1) conflicts)))
      else conflicts)"
  by pat_completeness auto
termination
  by (relation "measure (\<lambda>(agreements, i, j, conflicts). length agreements - j)") auto

function conflicts_outer :: "agreement list \<Rightarrow> nat \<Rightarrow> conflict list \<Rightarrow> conflict list" where
  "conflicts_outer agreements i conflicts =
     (if i < length agreements
      then conflicts_outer agreements (i + 1) (conflicts_inner agreements i (i + 1) conflicts)
      else conflicts)"
  by pat_completeness auto
termination
  by (relation "measure (\<lambda>(agreements, i, conflicts). length agreements - i)") auto

declare conflicts_inner.simps [simp del] conflicts_outer.simps [simp del]

definition detectConflicts :: "agreement list \<Rightarrow> conflict list" where
  "detectConflicts agreements = conflicts_outer agreements 0 []"

text \<open>
  The body of the inner loop, for the statements about it: the three tests a pair
  passes before a record is pushed, and the record.
\<close>

definition flags_conflict :: "agreement \<Rightarrow> agreement \<Rightarrow> bool" where
  "flags_conflict a b =
     (list_ex (\<lambda>t. array_includes (territoryCountries b) t) (territoryCountries a)
      \<and> list_ex (\<lambda>p. array_includes (productCategories b) p) (productCategories a)
      \<and> ((exclusivityStatus a = JStr ''Exclusive'' \<and> exclusivityStatus b = JStr ''Exclusive'')
         \<or> (exclusivityStatus a = JStr ''Exclusive'' \<and> exclusivityStatus b \<noteq> JStr ''Exclusive'')
         \<or> (exclusivityStatus b = JStr ''Exclusive'' \<and> exclusivityStatus a \<noteq> JStr ''Exclusive'')))"

definition conflict_record :: "agreement \<Rightarrow> agreement \<Rightarrow> conflict" where
  "conflict_record a b =
     \<lparr>conflict_type = ''Territory/Product Conflict'',
      severity =
        (if exclusivityStatus a = JStr ''Exclusive'' \<and> exclusivityStatus b = JStr ''Exclusive''
         then ''High'' else ''Medium''),
      agreement1 =
        \<lparr>party_id = agr_id a, party_title = title a, exclusivity = exclusivityStatus a\<rparr>,
      agreement2 =
        \<lparr>party_id = agr_id b, party_title = title b, exclusivity = exclusivityStatus b\<rparr>,
      overlappingTerritories =
        filter (\<lambda>t. array_includes (territoryCountries b) t) (territoryCountries a),
      overlappingProducts =
        filter (\<lambda>p. array_includes (productCategories b) p) (productCategories a)\<rparr>"

section \<open>The service and its synchronisation\<close>

text \<open>
  The item \<open>nav_token\<close> of the session storage: the object \<open>storeToken\<close> writes,
  or a text on which the \<open>try\<close> block of \<open>loadToken\<close> throws.
\<close>

datatype stored_token = Unreadable | TokenData jsval int int

text \<open>
  The state of \<open>NavigatorAPIServiceImplicit\<close>: its fields, the cache (a map with the
  keys \<open>agreements\<close> and \<open>conflicts\<close>), and the items it keeps in the session and
  local storage. The stored lists stand for their JSON texts.
\<close>

record service =
  accessToken :: jsval
  accountId :: jsval
  cache_agreements :: "agreement list option"
  cache_conflicts :: "conflict list option"
  lastSyncTime :: "string option"
  session_nav_token :: "stored_token option"
  session_oauth_state :: "string option"
  local_nav_agreements :: "agreement list option"
  local_nav_conflicts :: "conflict list option"
  local_nav_last_sync :: "string option"

text \<open>
  What the network answers: \<open>fetch\<close> rejects, or gives a response with its \<open>ok\<close>
  flag and the value \<open>response.json()\<close> decodes (\<open>None\<close> when that rejects).
\<close>

datatype response = Response bool "jsval option"

datatype fetch_result = NetworkError | Responded response

record network =
  userinfo :: fetch_result
  agreementsList :: fetch_result
  agreementDetail :: "jsval \<Rightarrow> fetch_result"

definition disconnect :: "service \<Rightarrow> service" where
  "disconnect st =
     st\<lparr>accessToken := JNull, accountId := JNull,
        cache_agreements := None, cache_conflicts := None, lastSyncTime := None,
        session_nav_token := None, session_oauth_state := None,
        local_nav_agreements := None, local_nav_conflicts := None,
        local_nav_last_sync := None\<rparr>"

definition loadToken :: "env \<Rightarrow> service \<Rightarrow> bool \<times> service" where
  "loadToken env st =
     (case session_nav_token st of
        None \<Rightarrow> (False, st)
      | Some Unreadable \<Rightarrow> (False, st)
      | Some (TokenData access_token expires_in stored_at) \<Rightarrow>
          (let expiresAt = stored_at + expires_in * 1000
           in if now env \<ge> expiresAt then (False, disconnect st)
              else (True, st\<lparr>accessToken := access_token\<rparr>)))"

definition isAuthenticated :: "env \<Rightarrow> service \<Rightarrow> bool \<times> service" where
  "isAuthenticated env st = (if truthy (accessToken st) then (True, st) else loadToken env st)"

text \<open>\<open>v[0]\<close> for a value that is neither null nor undefined.\<close>

fun index0 :: "jsval \<Rightarrow> jsval" where
  "index0 (JArr (x # xs)) = x"
| "index0 (JStr (c # cs)) = JStr [c]"
| "index0 (JObj kvs) = getProp (JObj kvs) ''0''"
| "index0 _ = JUndefined"

definition getUserInfo :: "network \<Rightarrow> service \<Rightarrow> error + service" where
  "getUserInfo net st =
     (if \<not> truthy (accessToken st) then Inl (Error ''Not authenticated'')
      else
        (case userinfo net of
           NetworkError \<Rightarrow> Inl TypeError
         | Responded (Response ok body) \<Rightarrow>
             if \<not> ok then Inl (Error ''Failed to get user info'')
             else
               (case body of
                  None \<Rightarrow> Inl SyntaxError
                | Some userInfo \<Rightarrow>
                    if nullish userInfo then Inl TypeError
                    else if nullish (getProp userInfo ''accounts'') then Inl TypeError
                    else if nullish (index0 (getProp userInfo ''accounts'')) then Inl TypeError
                    else Inr (st\<lparr>accountId :=
                                  getProp (index0 (getProp userInfo ''accounts'')) ''account_id''\<rparr>))))"

text \<open>
  \<open>fetchAgreementDetails\<close>: one request per agreement, in order; a record without
  id is skipped, a failed request keeps the basic record. \<open>detailedAgreements\<close> is
  the array being filled.
\<close>

fun fetchAgreementDetails :: "network \<Rightarrow> jsval list \<Rightarrow> jsval list \<Rightarrow> error + jsval list" where
  "fetchAgreementDetails net [] detailedAgreements = Inr detailedAgreements"
| "fetchAgreementDetails net (basicAgreement # rest) detailedAgreements =
     (if nullish basicAgreement then Inl TypeError
      else
        (let agreementId = jor (getProp basicAgreement ''id'') (getProp basicAgreement ''agreementId'')
         in if \<not> truthy agreementId then fetchAgreementDetails net rest detailedAgreements
            else
              (case agreementDetail net agreementId of
                 NetworkError \<Rightarrow>
                   fetchAgreementDetails net rest (detailedAgreements @ [basicAgreement])
               | Responded (Response ok body) \<Rightarrow>
                   if ok then
                     (case body of
                        None \<Rightarrow>
                          fetchAgreementDetails net rest (detailedAgreements @ [basicAgreement])
                      | Some detailedAgreement \<Rightarrow>
                          fetchAgreementDetails net rest (detailedAgreements @ [detailedAgreement]))
                   else fetchAgreementDetails net rest (detailedAgreements @ [basicAgreement]))))"

text \<open>
  The \<open>try\<close> block of \<open>getAllAgreements\<close>, for an authenticated service: the new
  state (the account id may have been fetched) and the agreements it returns, or the
  exception it ends with.
\<close>

definition getAllAgreements_try ::
  "env \<Rightarrow> network \<Rightarrow> service \<Rightarrow> service \<times> (error + agreement list)" where
  "getAllAgreements_try env net st =
     (case (if \<not> truthy (accountId st) then getUserInfo net st else Inr st) of
        Inl e \<Rightarrow> (st, Inl e)
      | Inr st1 \<Rightarrow>
          (st1,
           (case agreementsList net of
              NetworkError \<Rightarrow> Inl TypeError
            | Responded (Response ok body) \<Rightarrow>
                if \<not> ok then getSampleAgreements env
                else
                  (case body of
                     None \<Rightarrow> Inl SyntaxError
                   | Some data \<Rightarrow>
                       if nullish data then Inl TypeError
                       else
                         (let agreementsList =
                                jor (jor (getProp data ''agreements'') (getProp data ''items'')) data
                          in case agreementsList of
                               JArr xs \<Rightarrow>
                                 if length xs = 0 then getSampleAgreements env
                                 else
                                   (case fetchAgreementDetails net xs [] of
                                      Inl e \<Rightarrow> Inl e
                                    | Inr detailedAgreements \<Rightarrow>
                                        processAgreements env detailedAgreements)
                             | _ \<Rightarrow> getSampleAgreements env)))))"

text \<open>
  \<open>getAllAgreements\<close>: it throws when the service is not authenticated; any
  exception of the \<open>try\<close> block is answered with the demo data set.
\<close>

definition getAllAgreements ::
  "env \<Rightarrow> network \<Rightarrow> service \<Rightarrow> service \<times> (error + agreement list)" where
  "getAllAgreements env net st =
     (case isAuthenticated env st of
        (False, st1) \<Rightarrow> (st1, Inl (Error ''Not authenticated''))
      | (True, st1) \<Rightarrow>
          (case getAllAgreements_try env net st1 of
             (st2, Inl e) \<Rightarrow> (st2, getSampleAgreements env)
           | (st2, Inr agreements) \<Rightarrow> (st2, Inr agreements)))"

definition loadFromCache :: "service \<Rightarrow> bool \<times> service" where
  "loadFromCache st =
     (case local_nav_agreements st of
        Some agreements \<Rightarrow>
          (True, st\<lparr>cache_agreements := Some agreements, lastSyncTime := local_nav_last_sync st\<rparr>)
      | None \<Rightarrow> (False, st))"

text \<open>
  What \<open>syncAgreements\<close> resolves to: the object with \<open>success: true\<close> (\<open>count\<close>,
  \<open>conflicts\<close>, \<open>syncTime\<close>, \<open>lastSyncTime\<close>), or the one with \<open>success: false\<close>
  (\<open>error\<close>, \<open>usingCache\<close>).
\<close>

datatype sync_result =
    SyncSuccess nat nat rat string
  | SyncFailure error bool

text \<open>
  \<open>syncAgreements\<close>: the result, the new state, and the stages reported to the
  progress callback (taken as given and not throwing). The clock is read once for a
  run, so \<open>syncTime\<close> is 0; writes to the storage succeed.
\<close>

definition syncAgreements ::
  "env \<Rightarrow> network \<Rightarrow> service \<Rightarrow> sync_result \<times> service \<times> (string \<times> nat) list" where
  "syncAgreements env net st =
     (let failed = (\<lambda>e st' progress.
            (case loadFromCache st' of
               (usingCache, st'') \<Rightarrow>
                 (SyncFailure e usingCache, st'', progress @ [(''error'', 0)])))
      in case isAuthenticated env st of
           (False, st1) \<Rightarrow> failed (Error ''Not authenticated'') st1 [(''authenticating'', 0)]
         | (True, st1) \<Rightarrow>
             (case getAllAgreements env net st1 of
                (st2, Inl e) \<Rightarrow> failed e st2 [(''authenticating'', 0), (''fetching'', 20)]
              | (st2, Inr agreements) \<Rightarrow>
                  (let conflicts = detectConflicts agreements;
                       lastSync = iso_string (now env);
                       st3 = st2\<lparr>cache_agreements := Some agreements,
                                cache_conflicts := Some conflicts,
                                lastSyncTime := Some lastSync,
                                local_nav_agreements := Some agreements,
                                local_nav_conflicts := Some conflicts,
                                local_nav_last_sync := Some lastSync\<rparr>
                   in (SyncSuccess (length agreements) (length conflicts) 0 lastSync, st3,
                       [(''authenticating'', 0), (''fetching'', 20), (''processing'', 60),
                        (''caching'', 80), (''complete'', 100)]))))"

section \<open>Hosts and records for the examples\<close>

text \<open>
  A host in UTC with the clock at \<open>clock\<close>, whose date parser knows the standard
  format only.
\<close>

definition utc_env :: "int \<Rightarrow> env" where
  "utc_env clock =
     \<lparr>now = clock, tzaUTC = (\<lambda>t. 0), tzaLocal = (\<lambda>t. 0),
      legacyDateParse = (\<lambda>s. None), numberToString = (\<lambda>q. [])\<rparr>"

text \<open>
  A host on US Eastern time in 2025: five hours behind UTC, four between
  2025-03-09T07:00Z (1741503600000) and 2025-11-02T06:00Z (1762063200000). A local
  time that is skipped or repeated at a change counts with the offset before it.
\<close>

definition eastern_env :: "int \<Rightarrow> env" where
  "eastern_env clock =
     \<lparr>now = clock,
      tzaUTC = (\<lambda>t. if 1741503600000 \<le> t \<and> t < 1762063200000 then - 14400000 else - 18000000),
      tzaLocal = (\<lambda>t. if 1741503600000 - 14400000 \<le> t \<and> t < 1762063200000 - 14400000
                      then - 14400000 else - 18000000),
      legacyDateParse = (\<lambda>s. None), numberToString = (\<lambda>q. [])\<rparr>"

text \<open>
  Two agreements that share the territory Germany and the product MRI Systems, the
  first exclusive, the second not, and a third one elsewhere: records of the demo data
  set with these fields replaced, after \<open>calculateDerivedFields\<close> on 2025-01-01.
\<close>

definition overlap_example :: "processed list" where
  "overlap_example =
     [sample1,
      sample4\<lparr>territoryCountries := [JStr ''France'', JStr ''Germany''],
              productCategories := [JStr ''MRI Systems'']\<rparr>,
      sample3]"

text \<open>
  Raw agreements: one whose custom fields give the strings \<open>0\<close> for the performance
  threshold and for the days of notice; one without custom fields; one whose
  expiration date has month 13. And an agreement that expires on 2025-12-15, in winter,
  with 90 days of notice.
\<close>

definition zero_raw :: jsval where
  "zero_raw =
     JObj [(''customFields'',
            JObj [(''expirationDate'', JStr ''2025-06-30''),
                  (''minimumPerformanceThreshold'', JStr ''0''),
                  (''nonRenewalNoticeDays'', JStr ''0'')])]"

definition bare_raw :: jsval where
  "bare_raw = JObj [(''id'', JStr ''A-1''), (''expirationDate'', JStr ''2027-01-31'')]"


definition winter_example :: processed where
  "winter_example = sample1\<lparr>expirationDate := JStr ''2025-12-15''\<rparr>"

text \<open>
  A service that holds an access token and nothing else, and a network on which every
  request fails.
\<close>

definition example_service :: service where
  "example_service =
     \<lparr>accessToken = JStr ''token'', accountId = JNull,
      cache_agreements = None, cache_conflicts = None, lastSyncTime = None,
      session_nav_token = None, session_oauth_state = None,
      local_nav_agreements = None, local_nav_conflicts = None, local_nav_last_sync = None\<rparr>"

definition offline_network :: network where
  "offline_network =
     \<lparr>userinfo = NetworkError, agreementsList = NetworkError,
      agreementDetail = (\<lambda>agreementId. NetworkError)\<rparr>"

definition overlap_agreements :: "agreement list" where
  "overlap_agreements =
     map (\<lambda>p. projr (calculateDerivedFields (utc_env 1735689600000) p)) overlap_example"

text \<open>
  Record AGR-002 of the demo data set, made exclusive, as derived in UTC on 2025-02-15,
  45 days before its deadline; and the record itself as derived on 2025-03-02, 30 days
  before its deadline.
\<close>

definition risk_example :: agreement where
  "risk_example =
     projr (calculateDerivedFields (utc_env 1739577600000)
              (sample2\<lparr>exclusivityStatus := JStr ''Exclusive''\<rparr>))"

definition urgency_example :: agreement where
  "urgency_example = projr (calculateDerivedFields (utc_env 1740873600000) sample2)"


definition rounding_example :: agreement where
  "rounding_example =
     risk_example
       \<lparr>minimumPerformanceThreshold := Fin (8306326562731261 / 140737488355328),
        currentPerformance := Fin (2252503501126975 / 35184372088832)\<rparr>"

section \<open>Properties\<close>

subsection \<open>Numbers and dates\<close>

lemma num_le_Fin [simp]: "num_le (Fin a) (Fin b) = (a \<le> b)"
  by (simp add: not_less)

lemma num_gt_Fin [simp]: "num_gt (Fin a) (Fin b) = (b < a)"
  by (simp add: num_gt_def)

lemma div_bounds: "0 < (b::int) \<Longrightarrow> b * (a div b) \<le> a \<and> a < b * (a div b) + b"
  using mult_div_mod_eq [of b a] pos_mod_sign [of b a] pos_mod_bound [of b a] by linarith

text \<open>The year of a day number is the year the day lies in.\<close>

lemma YearFromDay_bounds:
  "DayFromYear (YearFromDay d) \<le> d \<and> d < DayFromYear (YearFromDay d + 1)"
proof -
  define k where "k = (d * 400) div 146097"
  have k: "146097 * k \<le> d * 400" "d * 400 < 146097 * k + 146097"
    unfolding k_def using div_bounds [of 146097 "d * 400"] by simp_all
  have lo: "DayFromYear (1970 + k - 1) \<le> d"
  proof -
    define a b c where "a = k div 4" and "b = (k + 68) div 100" and "c = (k + 368) div 400"
    have "4 * a \<le> k" and "k + 68 < 100 * b + 100" and "400 * c \<le> k + 368"
      unfolding a_def b_def c_def
      using div_bounds [of 4 k] div_bounds [of 100 "k + 68"] div_bounds [of 400 "k + 368"]
      by simp_all
    then have "400 * a \<le> 100 * k" and "4 * k - 128 < 400 * b" and "400 * c \<le> k + 368"
      by linarith+
    then have "400 * (365 * (k - 1) + a - b + c) < 146097 * k"
      by (simp add: algebra_simps)
    with k(1) have "400 * (365 * (k - 1) + a - b + c) < 400 * d"
      by linarith
    then have "365 * (k - 1) + a - b + c < d"
      by simp
    moreover have "DayFromYear (1970 + k - 1) = 365 * (k - 1) + a - b + c"
      by (simp add: DayFromYear_def a_def b_def c_def add.commute)
    ultimately show ?thesis by simp
  qed
  have hi: "d < DayFromYear (1970 + k + 2)"
  proof -
    define a b c where "a = (k + 3) div 4" and "b = (k + 71) div 100" and "c = (k + 371) div 400"
    have "k + 3 < 4 * a + 4" and "100 * b \<le> k + 71" and "k + 371 < 400 * c + 400"
      unfolding a_def b_def c_def
      using div_bounds [of 4 "k + 3"] div_bounds [of 100 "k + 71"] div_bounds [of 400 "k + 371"]
      by simp_all
    then have "100 * k - 100 < 400 * a" and "400 * b \<le> 4 * k + 284" and "k - 29 < 400 * c"
      by linarith+
    then have "146097 * k + 146097 < 400 * (365 * (k + 2) + a - b + c)"
      by (simp add: algebra_simps)
    with k(2) have "400 * d < 400 * (365 * (k + 2) + a - b + c)"
      by linarith
    then have "d < 365 * (k + 2) + a - b + c"
      by simp
    moreover have "DayFromYear (1970 + k + 2) = 365 * (k + 2) + a - b + c"
      by (simp add: DayFromYear_def a_def b_def c_def add.commute)
    ultimately show ?thesis by simp
  qed
  have y: "YearFromDay d =
      (if DayFromYear (1970 + k + 1) \<le> d then 1970 + k + 1
       else if DayFromYear (1970 + k) \<le> d then 1970 + k else 1970 + k - 1)"
    by (simp add: YearFromDay_def Let_def k_def)
  show ?thesis
  proof (cases "DayFromYear (1970 + k + 1) \<le> d")
    case True
    with hi show ?thesis by (simp add: y add.commute add.left_commute)
  next
    case False
    show ?thesis
    proof (cases "DayFromYear (1970 + k) \<le> d")
      case True
      with False show ?thesis by (simp add: y add.commute add.left_commute)
    next
      case f: False
      with False lo show ?thesis by (simp add: y add.commute add.left_commute)
    qed
  qed
qed

lemma MonthFromDay_range: "0 \<le> MonthFromDay D \<and> MonthFromDay D \<le> 11"
  by (simp add: MonthFromDay_def Let_def)

text \<open>An integer up to \<open>2^53\<close> in magnitude is not rounded.\<close>

lemma fl_of_int: "\<bar>i\<bar> \<le> 2 ^ 53 \<Longrightarrow> fl (of_int i) = Fin (of_int i)"
proof -
  assume "\<bar>i\<bar> \<le> 2 ^ 53"
  then have "(of_int \<bar>i\<bar> :: rat) \<le> of_int (2 ^ 53)"
    by (simp only: of_int_le_iff)
  then have "\<bar>(of_int i :: rat)\<bar> \<le> 2 ^ 53"
    by simp
  then show ?thesis by (simp add: fl_def)
qed

lemma div_step: "0 < (k::int) \<Longrightarrow> n div k - (n - 1) div k = (if n mod k = 0 then 1 else 0)"
proof -
  assume k: "0 < k"
  define q r where "q = n div k" and "r = n mod k"
  have n: "n = k * q + r" and r: "0 \<le> r" "r < k"
    using k by (simp_all add: q_def r_def)
  show ?thesis
  proof (cases "r = 0")
    case True
    have "n - 1 = k * (q - 1) + (k - 1)"
      using n True by (simp add: algebra_simps)
    then have "(n - 1) div k = q - 1"
      using k by (intro int_div_pos_eq [where r = "k - 1"]) simp_all
    then show ?thesis using True by (simp add: q_def r_def)
  next
    case False
    have "n - 1 = k * q + (r - 1)"
      using n by simp
    then have "(n - 1) div k = q"
      using k r False by (intro int_div_pos_eq [where r = "r - 1"]) simp_all
    then show ?thesis using False by (simp add: q_def r_def)
  qed
qed

text \<open>A year has 365 days, a leap year 366.\<close>

lemma DayFromYear_Suc:
  "DayFromYear (y + 1) = DayFromYear y + (if InLeapYear y then 366 else 365)"
proof -
  have a: "(y - 1968) div 4 - (y - 1969) div 4 = (if y mod 4 = 0 then 1 else 0)"
    using div_step [of 4 "y - 1968"] mod_diff_right_eq [of y 1968 4] by simp
  have b: "(y - 1900) div 100 - (y - 1901) div 100 = (if y mod 100 = 0 then 1 else 0)"
    using div_step [of 100 "y - 1900"] mod_diff_right_eq [of y 1900 100] by simp
  have c: "(y - 1600) div 400 - (y - 1601) div 400 = (if y mod 400 = 0 then 1 else 0)"
    using div_step [of 400 "y - 1600"] mod_diff_right_eq [of y 1600 400] by simp
  have d: "y mod 400 = 0 \<Longrightarrow> y mod 100 = 0" and e: "y mod 100 = 0 \<Longrightarrow> y mod 4 = 0"
    by (simp_all add: mod_eq_0_iff_dvd) (auto simp: dvd_def)
  have "DayFromYear (y + 1) - DayFromYear y =
          365 + ((y - 1968) div 4 - (y - 1969) div 4) - ((y - 1900) div 100 - (y - 1901) div 100)
              + ((y - 1600) div 400 - (y - 1601) div 400)"
    by (simp add: DayFromYear_def)
  also have "\<dots> = (if InLeapYear y then 366 else 365)"
    unfolding a b c using d e by (auto simp: InLeapYear_def)
  finally show ?thesis by simp
qed

lemma DayWithinYear_range:
  "0 \<le> DayWithinYear D \<and> DayWithinYear D < (if InLeapYear (YearFromDay D) then 366 else 365)"
  using YearFromDay_bounds [of D] DayFromYear_Suc [of "YearFromDay D"]
  by (simp add: DayWithinYear_def)

text \<open>The day of the month is between 1 and 31.\<close>

lemma DateFromDay_range: "1 \<le> DateFromDay D \<and> DateFromDay D \<le> 31"
  using DayWithinYear_range [of D]
  by (cases "InLeapYear (YearFromDay D)")
    (simp_all add: DateFromDay_def MonthFromDay_def daysBeforeMonth_def Let_def)

text \<open>
  The day of a given date of the month a day lies in: what \<open>setDate\<close> computes
  when it is given \<open>getDate()\<close> plus or minus some days.
\<close>

lemma MakeDay_own_month: "MakeDay (YearFromDay D) (MonthFromDay D) x = D - DateFromDay D + x"
proof -
  have "MonthFromDay D div 12 = 0" and "MonthFromDay D mod 12 = MonthFromDay D"
    using MonthFromDay_range [of D] by simp_all
  then show ?thesis
    by (simp add: MakeDay_def DateFromDay_def DayWithinYear_def Let_def)
qed

lemma trunc_of_int [simp]: "trunc (of_int k) = k"
  by (simp add: trunc_def)

lemma trunc_of_int_diff [simp]: "trunc (of_int a - of_int b) = a - b"
  by (simp flip: of_int_diff)

lemma Day_TimeWithinDay: "MakeDate (Day t - k) (TimeWithinDay t) = t - k * msPerDay"
  by (simp add: MakeDate_def Day_def TimeWithinDay_def algebra_simps)

text \<open>
  \<open>d.setDate(d.getDate() - n)\<close> for a whole number \<open>n\<close> of days, small enough
  for the difference not to be rounded: the local time moves back by \<open>n\<close> days and
  is then read in the offset of the new local time.
\<close>

lemma getDate_sub_days:
  assumes "\<bar>d\<bar> \<le> 2 ^ 52"
  shows "num_sub (getDate env (Some t)) (Fin (of_int d))
           = Fin (of_int (DateFromTime (LocalTime env t) - d))"
proof -
  let ?x = "DateFromTime (LocalTime env t)"
  have "1 \<le> ?x \<and> ?x \<le> 31"
    by (simp add: DateFromTime_def DateFromDay_range)
  with assms have "\<bar>?x - d\<bar> \<le> 2 ^ 53"
    by (simp add: abs_le_iff)
  from fl_of_int [OF this] show ?thesis
    by (simp add: getDate_def num_sub_def)
qed

lemma setDate_sub_days:
  assumes "\<bar>d\<bar> \<le> 2 ^ 52"
  shows "setDate env (Some t) (num_sub (getDate env (Some t)) (Fin (of_int d)))
           = TimeClip (UTC env (LocalTime env t - d * msPerDay))"
proof -
  let ?lt = "LocalTime env t"
  have "MakeDay (YearFromTime ?lt) (MonthFromTime ?lt) (DateFromTime ?lt - d) = Day ?lt - d"
    by (simp add: YearFromTime_def MonthFromTime_def DateFromTime_def MakeDay_own_month)
  then show ?thesis
    unfolding getDate_sub_days [OF assms]
    by (simp add: setDate_def Let_def Day_TimeWithinDay)
qed

lemma ceilDays_int: "\<exists>k. ceilDays (Some x) (Some y) = Fin (of_int k)"
  by (simp add: ceilDays_def)

lemmas date_parse_simps =
  Date_parse_def iso_year_def read_digits_def iso_dash2_def starts_with_def
  is_digit_def digits_val_def digit_val_def InLeapYear_def
  MakeDay_def MakeDate_def DayFromYear_def daysBeforeMonth_def TimeClip_def msPerDay_def

subsection \<open>Derived fields\<close>

text \<open>What \<open>calculateDerivedFields\<close> has computed when it returns.\<close>

lemma calculateDerivedFields_Inr:
  assumes "calculateDerivedFields env p = Inr a"
  shows "\<exists>dl. setDate env (newDate env (expirationDate p))
                 (num_sub (getDate env (newDate env (expirationDate p))) (nonRenewalNoticeDays p))
               = Some dl
            \<and> nonRenewalDeadline a = date_part (iso_string dl)
            \<and> daysUntilDeadline a = ceilDays (Some dl) (Some (now env))
            \<and> daysUntilExpiration a = ceilDays (newDate env (expirationDate p)) (Some (now env))
            \<and> renewalUrgency a =
                (if num_le (daysUntilDeadline a) (Fin 30) \<and> num_gt (daysUntilDeadline a) (Fin 0)
                 then ''Urgent''
                 else if num_le (daysUntilDeadline a) (Fin 90) \<and> num_gt (daysUntilDeadline a) (Fin 0)
                 then ''Warning'' else ''On Track'')
            \<and> processed.truncate a = p"
proof -
  let ?e = "newDate env (expirationDate p)"
  let ?d = "setDate env ?e (num_sub (getDate env ?e) (nonRenewalNoticeDays p))"
  let ?y = "annualMinimums_find (annualMinimums p) (YearFromTime (LocalTime env (now env)))"
  from assms obtain isoString where iso: "toISOString ?d = Inr isoString"
    by (cases "toISOString ?d") (simp_all add: calculateDerivedFields_def Let_def)
  then obtain dl where dl: "?d = Some dl" and str: "isoString = iso_string dl"
    by (auto simp: toISOString_def split: option.splits)
  from assms iso obtain yc where yc: "?y = Inr yc"
    by (cases ?y) (simp_all add: calculateDerivedFields_def Let_def)
  from assms iso yc have
    "a = (processed.extend p
            (agreement.fields (date_part isoString) (ceilDays ?e (Some (now env)))
               (ceilDays ?d (Some (now env)))
               (if num_le (ceilDays ?d (Some (now env))) (Fin 30)
                   \<and> num_gt (ceilDays ?d (Some (now env))) (Fin 0) then ''Urgent''
                else if num_le (ceilDays ?d (Some (now env))) (Fin 90)
                   \<and> num_gt (ceilDays ?d (Some (now env))) (Fin 0) then ''Warning''
                else ''On Track'')
               (jor (if nullish yc then JUndefined else getProp yc ''amount'') (JNum (Fin 0)))
               [] []))
          \<lparr>aiRiskScore :=
             calculateRiskScore
               (processed.extend p
                  (agreement.fields (date_part isoString) (ceilDays ?e (Some (now env)))
                     (ceilDays ?d (Some (now env)))
                     (if num_le (ceilDays ?d (Some (now env))) (Fin 30)
                         \<and> num_gt (ceilDays ?d (Some (now env))) (Fin 0) then ''Urgent''
                      else if num_le (ceilDays ?d (Some (now env))) (Fin 90)
                         \<and> num_gt (ceilDays ?d (Some (now env))) (Fin 0) then ''Warning''
                      else ''On Track'')
                     (jor (if nullish yc then JUndefined else getProp yc ''amount'') (JNum (Fin 0)))
                     [] [])),
           lastSyncedFromNavigator := iso_string (now env)\<rparr>"
    by (simp add: calculateDerivedFields_def Let_def)
  then show ?thesis
    using dl str
    by (simp add: processed.truncate_def processed.extend_def agreement.fields_def)
qed

text \<open>The fields of the input are carried over unchanged.\<close>

lemma calculateDerivedFields_fields:
  assumes "calculateDerivedFields env p = Inr a"
  shows "territoryCountries a = territoryCountries p"
    and "productCategories a = productCategories p"
    and "exclusivityStatus a = exclusivityStatus p"
    and "minimumPerformanceThreshold a = minimumPerformanceThreshold p"
    and "currentPerformance a = currentPerformance p"
    and "nonRenewalNoticeDays a = nonRenewalNoticeDays p"
proof -
  from calculateDerivedFields_Inr [OF assms] have "processed.truncate a = p" by blast
  then have "p = processed.truncate a" by simp
  then show "territoryCountries a = territoryCountries p"
    and "productCategories a = productCategories p"
    and "exclusivityStatus a = exclusivityStatus p"
    and "minimumPerformanceThreshold a = minimumPerformanceThreshold p"
    and "currentPerformance a = currentPerformance p"
    and "nonRenewalNoticeDays a = nonRenewalNoticeDays p"
    by (simp_all add: processed.truncate_def)
qed


text \<open>
  It returns when the expiration date is valid, the notice is a whole number of days
  (up to \<open>2^52\<close>, so that the day it is subtracted from does not round it), the
  deadline is in the range of dates, and the annual minimums are an array without
  null or undefined.
\<close>

lemma find_year_returns: "list_all (\<lambda>m. \<not> nullish m) ms \<Longrightarrow> \<exists>v. find_year ms y = Inr v"
  by (induction ms) auto

lemma calculateDerivedFields_returns:
  assumes "newDate env (expirationDate p) = Some t"
    and "nonRenewalNoticeDays p = Fin (of_int d)"
    and "TimeClip (UTC env (LocalTime env t - d * msPerDay)) = Some dl"
    and "annualMinimums p = JArr ms" and "list_all (\<lambda>m. \<not> nullish m) ms"
    and "\<bar>d\<bar> \<le> 2 ^ 52"
  shows "\<exists>a. calculateDerivedFields env p = Inr a"
proof -
  from find_year_returns [OF assms(5)] obtain yc
    where "find_year ms (YearFromTime (LocalTime env (now env))) = Inr yc" by blast
  with assms(1-4) show ?thesis
    by (simp add: calculateDerivedFields_def Let_def setDate_sub_days [OF assms(6)]
        toISOString_def annualMinimums_find_def)
qed

text \<open>
  In a zone with one fixed offset the deadline is the expiration instant moved back by
  the days of notice.
\<close>

lemma calculateDerivedFields_fixed_offset:
  assumes "tzaUTC env = (\<lambda>t. off)" and "tzaLocal env = (\<lambda>t. off)"
    and "newDate env (expirationDate p) = Some t"
    and "nonRenewalNoticeDays p = Fin (of_int d)"
    and "\<bar>t - d * msPerDay\<bar> \<le> 8640000000000000"
    and "annualMinimums p = JArr ms" and "list_all (\<lambda>m. \<not> nullish m) ms"
    and "\<bar>d\<bar> \<le> 2 ^ 52"
  shows "\<exists>a. calculateDerivedFields env p = Inr a
            \<and> nonRenewalDeadline a = date_part (iso_string (t - d * msPerDay))
            \<and> daysUntilDeadline a = ceilDays (Some (t - d * msPerDay)) (Some (now env))"
proof -
  have clip: "TimeClip (UTC env (LocalTime env t - d * msPerDay)) = Some (t - d * msPerDay)"
    using assms(1,2,5) by (simp add: TimeClip_def UTC_def LocalTime_def)
  from calculateDerivedFields_returns [OF assms(3,4) clip assms(6,7,8)]
  obtain a where a: "calculateDerivedFields env p = Inr a" by blast
  from calculateDerivedFields_Inr [OF a] assms(3,4) clip
  have "nonRenewalDeadline a = date_part (iso_string (t - d * msPerDay))"
    and "daysUntilDeadline a = ceilDays (Some (t - d * msPerDay)) (Some (now env))"
    by (auto simp: setDate_sub_days [OF assms(8)])
  with a show ?thesis by blast
qed

text \<open>
  Record AGR-002 (or one with its dates and minimums) on a host in UTC: the deadline
  is 2025-04-01.
\<close>

lemma sample2_derived:
  assumes "expirationDate p = JStr ''2025-06-30''" and "nonRenewalNoticeDays p = Fin 90"
    and "annualMinimums p = annualMinimums sample2"
  shows "\<exists>a. calculateDerivedFields (utc_env c) p = Inr a
            \<and> nonRenewalDeadline a = date_part (iso_string 1743465600000)
            \<and> daysUntilDeadline a = ceilDays (Some 1743465600000) (Some c)"
proof -
  have e: "newDate (utc_env c) (expirationDate p) = Some 1751241600000"
    by (simp add: assms(1) date_parse_simps)
  have n: "nonRenewalNoticeDays p = Fin (of_int 90)"
    by (simp add: assms(2))
  have r: "\<bar>1751241600000 - 90 * msPerDay\<bar> \<le> 8640000000000000"
    by (simp add: msPerDay_def)
  have m: "annualMinimums p =
             JArr [JObj [(''year'', JNum (Fin 2023)), (''amount'', JNum (Fin 800000))],
                   JObj [(''year'', JNum (Fin 2024)), (''amount'', JNum (Fin 1000000))],
                   JObj [(''year'', JNum (Fin 2025)), (''amount'', JNum (Fin 1200000))]]"
    by (simp add: assms(3) sample2_def)
  have "tzaUTC (utc_env c) = (\<lambda>t. 0)" and "tzaLocal (utc_env c) = (\<lambda>t. 0)"
    by (simp_all add: utc_env_def)
  from calculateDerivedFields_fixed_offset [OF this e n r m]
  show ?thesis by (simp add: nullish_def msPerDay_def utc_env_def)
qed

subsection \<open>Risk score\<close>


lemma risk_example_fields:
  "calculateDerivedFields (utc_env 1739577600000)
     (sample2\<lparr>exclusivityStatus := JStr ''Exclusive''\<rparr>) = Inr risk_example"
  "currentPerformance risk_example = Fin 78"
  "minimumPerformanceThreshold risk_example = Fin 85"
  "daysUntilDeadline risk_example = Fin (of_int 45)"
  "exclusivityStatus risk_example = JStr ''Exclusive''"
proof -
  let ?p = "sample2\<lparr>exclusivityStatus := JStr ''Exclusive''\<rparr>"
  have "\<exists>a. calculateDerivedFields (utc_env 1739577600000) ?p = Inr a
            \<and> nonRenewalDeadline a = date_part (iso_string 1743465600000)
            \<and> daysUntilDeadline a = ceilDays (Some 1743465600000) (Some 1739577600000)"
    by (rule sample2_derived) (simp_all add: sample2_def)
  then obtain a where a: "calculateDerivedFields (utc_env 1739577600000) ?p = Inr a"
    and d: "daysUntilDeadline a = ceilDays (Some 1743465600000) (Some 1739577600000)"
    by blast
  from a have ex: "risk_example = a" by (simp add: risk_example_def)
  from a show "calculateDerivedFields (utc_env 1739577600000) ?p = Inr risk_example"
    by (simp add: ex)
  show "currentPerformance risk_example = Fin 78"
    and "minimumPerformanceThreshold risk_example = Fin 85"
    and "exclusivityStatus risk_example = JStr ''Exclusive''"
    using calculateDerivedFields_fields [OF a] by (simp_all add: sample2_def ex)
  show "daysUntilDeadline risk_example = Fin (of_int 45)"
    by (simp add: d ceilDays_def ex)
qed




text \<open>
  The sum of the second rule is rounded. The threshold 59.019999999998596 plus 5 is
  above the performance 64.01999999999859 by \<open>2^-47\<close>, and rounds to it: the rule
  gives no point, and with 45 days to the deadline the tier is Low. The strings
  \<open>59.02\<close> and \<open>64.02\<close> are read as doubles whose sum with 5 is above the second:
  the rule gives its point.
\<close>

lemma riskPoints_rounding:
  "(2252503501126975 / 35184372088832 :: rat) < 8306326562731261 / 140737488355328 + 5"
  "fl (8306326562731261 / 140737488355328 + 5) = Fin (2252503501126975 / 35184372088832)"
  "riskPoints rounding_example = 1"
  "calculateRiskScore rounding_example = ''Low''"
proof -
  show lt: "(2252503501126975 / 35184372088832 :: rat) < 8306326562731261 / 140737488355328 + 5"
    by simp
  show r: "fl (8306326562731261 / 140737488355328 + 5) = Fin (2252503501126975 / 35184372088832)"
    by code_simp
  have "fl (9010014004507901 / 140737488355328) = Fin (2252503501126975 / 35184372088832)"
    by code_simp
  then show p: "riskPoints rounding_example = 1"
    using risk_example_fields(4,5)
    by (simp add: rounding_example_def riskPoints_def Let_def)
  then show "calculateRiskScore rounding_example = ''Low''"
    by (simp add: calculateRiskScore_def)
qed

lemma parseFloat_rounding:
  "parseFloat ''59.02'' = Fin (8306326562731459 / 140737488355328)"
  "parseFloat ''64.02'' = Fin (4505007002254049 / 70368744177664)"
  "num_lt (parseFloat ''64.02'') (num_add (parseFloat ''59.02'') (Fin 5))"
  by code_simp+


subsection \<open>Renewal urgency\<close>

text \<open>
  Claim C3. Whenever \<open>calculateDerivedFields\<close> returns, the days to the deadline are
  a whole number \<open>k\<close>, and the urgency is Urgent exactly when \<open>k\<close> is in (0, 30],
  Warning exactly when it is in (0, 90] but not in (0, 30], and On Track in every
  other case: 30 is Urgent, 31 and 90 are Warning, 91 is On Track, and 0 and every
  negative number (a deadline that has passed) are On Track.
\<close>

theorem renewalUrgency_bands:
  assumes "calculateDerivedFields env p = Inr a"
  shows "\<exists>k. daysUntilDeadline a = Fin (of_int k)
           \<and> (renewalUrgency a = ''Urgent'' \<longleftrightarrow> 0 < k \<and> k \<le> 30)
           \<and> (renewalUrgency a = ''Warning'' \<longleftrightarrow> (0 < k \<and> k \<le> 90) \<and> \<not> (0 < k \<and> k \<le> 30))
           \<and> (renewalUrgency a = ''On Track'' \<longleftrightarrow> \<not> (0 < k \<and> k \<le> 90))
           \<and> (k = 30 \<longrightarrow> renewalUrgency a = ''Urgent'')
           \<and> (k = 31 \<longrightarrow> renewalUrgency a = ''Warning'')
           \<and> (k = 90 \<longrightarrow> renewalUrgency a = ''Warning'')
           \<and> (k = 91 \<longrightarrow> renewalUrgency a = ''On Track'')
           \<and> (k \<le> 0 \<longrightarrow> renewalUrgency a = ''On Track'')"
proof -
  from calculateDerivedFields_Inr [OF assms] obtain dl
    where d: "daysUntilDeadline a = ceilDays (Some dl) (Some (now env))"
      and u: "renewalUrgency a =
                (if num_le (daysUntilDeadline a) (Fin 30) \<and> num_gt (daysUntilDeadline a) (Fin 0)
                 then ''Urgent''
                 else if num_le (daysUntilDeadline a) (Fin 90) \<and> num_gt (daysUntilDeadline a) (Fin 0)
                 then ''Warning'' else ''On Track'')"
    by blast
  from d ceilDays_int obtain k where k: "daysUntilDeadline a = Fin (of_int k)" by metis
  have "renewalUrgency a =
          (if 0 < k \<and> k \<le> 30 then ''Urgent''
           else if 0 < k \<and> k \<le> 90 then ''Warning'' else ''On Track'')"
    by (simp add: u k)
  then have "(renewalUrgency a = ''Urgent'' \<longleftrightarrow> 0 < k \<and> k \<le> 30)
           \<and> (renewalUrgency a = ''Warning'' \<longleftrightarrow> (0 < k \<and> k \<le> 90) \<and> \<not> (0 < k \<and> k \<le> 30))
           \<and> (renewalUrgency a = ''On Track'' \<longleftrightarrow> \<not> (0 < k \<and> k \<le> 90))
           \<and> (k = 30 \<longrightarrow> renewalUrgency a = ''Urgent'')
           \<and> (k = 31 \<longrightarrow> renewalUrgency a = ''Warning'')
           \<and> (k = 90 \<longrightarrow> renewalUrgency a = ''Warning'')
           \<and> (k = 91 \<longrightarrow> renewalUrgency a = ''On Track'')
           \<and> (k \<le> 0 \<longrightarrow> renewalUrgency a = ''On Track'')"
    by auto
  with k show ?thesis by blast
qed

theorem renewalUrgency_bands_witness:
  "calculateDerivedFields (utc_env 1740873600000) sample2 = Inr urgency_example
   \<and> daysUntilDeadline urgency_example = Fin (of_int 30)
   \<and> renewalUrgency urgency_example = ''Urgent''"
proof -
  have "\<exists>a. calculateDerivedFields (utc_env 1740873600000) sample2 = Inr a
            \<and> nonRenewalDeadline a = date_part (iso_string 1743465600000)
            \<and> daysUntilDeadline a = ceilDays (Some 1743465600000) (Some 1740873600000)"
    by (rule sample2_derived) (simp_all add: sample2_def)
  then obtain a where a: "calculateDerivedFields (utc_env 1740873600000) sample2 = Inr a"
    and d: "daysUntilDeadline a = ceilDays (Some 1743465600000) (Some 1740873600000)"
    by blast
  from a have ex: "urgency_example = a" by (simp add: urgency_example_def)
  have k: "daysUntilDeadline a = Fin (of_int 30)"
    by (simp add: d ceilDays_def)
  from renewalUrgency_bands [OF a] k have "renewalUrgency a = ''Urgent''"
    by auto
  with a k show ?thesis by (simp add: ex)
qed


subsection \<open>Conflict detection\<close>

text \<open>One round of the inner loop, and the two loops as comprehensions.\<close>

lemma conflicts_inner_step:
  "conflicts_inner ags i j c =
     (if j < length ags
      then conflicts_inner ags i (j + 1)
             (c @ (if flags_conflict (ags ! i) (ags ! j)
                   then [conflict_record (ags ! i) (ags ! j)] else []))
      else c)"
proof -
  let ?a = "ags ! i" and ?b = "ags ! j"
  let ?T = "list_ex (\<lambda>t. array_includes (territoryCountries ?b) t) (territoryCountries ?a)"
  let ?P = "list_ex (\<lambda>p. array_includes (productCategories ?b) p) (productCategories ?a)"
  let ?H = "(exclusivityStatus ?a = JStr ''Exclusive'' \<and> exclusivityStatus ?b = JStr ''Exclusive'')
            \<or> (exclusivityStatus ?a = JStr ''Exclusive'' \<and> exclusivityStatus ?b \<noteq> JStr ''Exclusive'')
            \<or> (exclusivityStatus ?b = JStr ''Exclusive'' \<and> exclusivityStatus ?a \<noteq> JStr ''Exclusive'')"
  have flags: "flags_conflict ?a ?b \<longleftrightarrow> ?T \<and> ?P \<and> ?H"
    by (simp only: flags_conflict_def)
  consider (stop) "\<not> j < length ags"
    | (noT) "j < length ags" "\<not> ?T"
    | (noP) "j < length ags" "?T" "\<not> ?P"
    | (noH) "j < length ags" "?T" "?P" "\<not> ?H"
    | (push) "j < length ags" "?T" "?P" "?H"
    by blast
  then show ?thesis
  proof cases
    case stop
    then show ?thesis
      by (subst conflicts_inner.simps) (simp only: if_False)
  next
    case noT
    with flags have "\<not> flags_conflict ?a ?b" by blast
    with noT show ?thesis
      by (subst conflicts_inner.simps)
         (simp only: Let_def if_True if_False simp_thms append_Nil2)
  next
    case noP
    with flags have "\<not> flags_conflict ?a ?b" by blast
    with noP show ?thesis
      by (subst conflicts_inner.simps)
         (simp only: Let_def if_True if_False simp_thms append_Nil2)
  next
    case noH
    with flags have "\<not> flags_conflict ?a ?b" by blast
    with noH show ?thesis
      by (subst conflicts_inner.simps)
         (simp only: Let_def if_True if_False simp_thms append_Nil2)
  next
    case push
    with flags have "flags_conflict ?a ?b" by blast
    with push show ?thesis
      by (subst conflicts_inner.simps)
         (simp only: Let_def if_True if_False simp_thms conflict_record_def)
  qed
qed

lemma conflicts_inner_eq:
  "conflicts_inner ags i j c =
     c @ concat (map (\<lambda>j. if flags_conflict (ags ! i) (ags ! j)
                          then [conflict_record (ags ! i) (ags ! j)] else [])
                   [j..<length ags])"
proof (induction "length ags - j" arbitrary: j c)
  case 0
  then show ?case by (subst conflicts_inner_step) simp
next
  case (Suc n)
  then have "j < length ags" and "n = length ags - (j + 1)" by simp_all
  with Suc.hyps(1) [of "j + 1"] show ?case
    by (subst conflicts_inner_step) (simp add: upt_conv_Cons)
qed

lemma conflicts_outer_eq:
  "conflicts_outer ags i c =
     c @ concat (map (\<lambda>i. concat (map (\<lambda>j. if flags_conflict (ags ! i) (ags ! j)
                          then [conflict_record (ags ! i) (ags ! j)] else [])
                   [Suc i..<length ags])) [i..<length ags])"
proof (induction "length ags - i" arbitrary: i c)
  case 0
  then show ?case by (subst conflicts_outer.simps) simp
next
  case (Suc n)
  then have "i < length ags" and "n = length ags - (i + 1)" by simp_all
  with Suc.hyps(1) [of "i + 1"] show ?case
    by (subst conflicts_outer.simps) (simp add: upt_conv_Cons conflicts_inner_eq)
qed

lemma detectConflicts_eq:
  "detectConflicts ags =
     [conflict_record (ags ! i) (ags ! j).
        i \<leftarrow> [0..<length ags], j \<leftarrow> [Suc i..<length ags], flags_conflict (ags ! i) (ags ! j)]"
  by (simp add: detectConflicts_def conflicts_outer_eq)


lemma array_includes_strings:
  assumes "\<forall>y\<in>set ys. \<exists>s. y = JStr s"
  shows "array_includes ys t \<longleftrightarrow> t \<in> set ys"
proof -
  have "sameValueZero y t \<longleftrightarrow> y = t" if "y \<in> set ys" for y
    using assms that by auto
  then show ?thesis
    by (auto simp: array_includes_def list_ex_iff)
qed

lemma filter_list_ex: "list_ex P xs \<Longrightarrow> filter P xs \<noteq> []"
  by (simp add: filter_empty_conv list_ex_iff)

lemma list_ex_inter: "list_ex (\<lambda>t. t \<in> set ys) xs \<longleftrightarrow> set xs \<inter> set ys \<noteq> {}"
  by (auto simp: list_ex_iff)

text \<open>
  Claim C1. For agreements whose territories and product categories are strings,
  \<open>detectConflicts\<close> returns, in the order of the pairs \<open>(i, j)\<close> with \<open>i < j\<close>, one
  record for exactly the pairs whose territories share an element, whose product
  categories share an element, and of which at least one is Exclusive. The severity of
  a record is High when both are Exclusive and Medium otherwise, and its overlapping
  territories and products are the elements of the first agreement's lists that occur
  in the second's; they are never empty.
\<close>

theorem detectConflicts_pairs:
  assumes "\<forall>a\<in>set ags. (\<forall>t\<in>set (territoryCountries a). \<exists>s. t = JStr s)
                      \<and> (\<forall>p\<in>set (productCategories a). \<exists>s. p = JStr s)"
  shows "detectConflicts ags =
           [\<lparr>conflict_type = ''Territory/Product Conflict'',
             severity =
               (if exclusivityStatus (ags ! i) = JStr ''Exclusive''
                   \<and> exclusivityStatus (ags ! j) = JStr ''Exclusive''
                then ''High'' else ''Medium''),
             agreement1 =
               \<lparr>party_id = agr_id (ags ! i), party_title = title (ags ! i),
                exclusivity = exclusivityStatus (ags ! i)\<rparr>,
             agreement2 =
               \<lparr>party_id = agr_id (ags ! j), party_title = title (ags ! j),
                exclusivity = exclusivityStatus (ags ! j)\<rparr>,
             overlappingTerritories =
               filter (\<lambda>t. t \<in> set (territoryCountries (ags ! j))) (territoryCountries (ags ! i)),
             overlappingProducts =
               filter (\<lambda>p. p \<in> set (productCategories (ags ! j))) (productCategories (ags ! i))\<rparr>.
            i \<leftarrow> [0..<length ags], j \<leftarrow> [Suc i..<length ags],
            set (territoryCountries (ags ! i)) \<inter> set (territoryCountries (ags ! j)) \<noteq> {}
            \<and> set (productCategories (ags ! i)) \<inter> set (productCategories (ags ! j)) \<noteq> {}
            \<and> (exclusivityStatus (ags ! i) = JStr ''Exclusive''
               \<or> exclusivityStatus (ags ! j) = JStr ''Exclusive'')]
       \<and> (\<forall>c\<in>set (detectConflicts ags).
             overlappingTerritories c \<noteq> [] \<and> overlappingProducts c \<noteq> []
             \<and> (severity c = ''High'' \<longleftrightarrow>
                  exclusivity (agreement1 c) = JStr ''Exclusive''
                  \<and> exclusivity (agreement2 c) = JStr ''Exclusive'')
             \<and> (severity c = ''Medium'' \<longleftrightarrow>
                  \<not> (exclusivity (agreement1 c) = JStr ''Exclusive''
                     \<and> exclusivity (agreement2 c) = JStr ''Exclusive'')))"
proof
  let ?n = "length ags"
  let ?cond = "\<lambda>i j. set (territoryCountries (ags ! i)) \<inter> set (territoryCountries (ags ! j)) \<noteq> {}
            \<and> set (productCategories (ags ! i)) \<inter> set (productCategories (ags ! j)) \<noteq> {}
            \<and> (exclusivityStatus (ags ! i) = JStr ''Exclusive''
               \<or> exclusivityStatus (ags ! j) = JStr ''Exclusive'')"
  let ?rec = "\<lambda>i j. \<lparr>conflict_type = ''Territory/Product Conflict'',
             severity =
               (if exclusivityStatus (ags ! i) = JStr ''Exclusive''
                   \<and> exclusivityStatus (ags ! j) = JStr ''Exclusive''
                then ''High'' else ''Medium''),
             agreement1 =
               \<lparr>party_id = agr_id (ags ! i), party_title = title (ags ! i),
                exclusivity = exclusivityStatus (ags ! i)\<rparr>,
             agreement2 =
               \<lparr>party_id = agr_id (ags ! j), party_title = title (ags ! j),
                exclusivity = exclusivityStatus (ags ! j)\<rparr>,
             overlappingTerritories =
               filter (\<lambda>t. t \<in> set (territoryCountries (ags ! j))) (territoryCountries (ags ! i)),
             overlappingProducts =
               filter (\<lambda>p. p \<in> set (productCategories (ags ! j))) (productCategories (ags ! i))\<rparr>"
  have inc: "array_includes (territoryCountries (ags ! j)) = (\<lambda>t. t \<in> set (territoryCountries (ags ! j)))"
            "array_includes (productCategories (ags ! j)) = (\<lambda>t. t \<in> set (productCategories (ags ! j)))"
    if "j < ?n" for j
  proof -
    from that have "ags ! j \<in> set ags" by simp
    with assms have "\<forall>t\<in>set (territoryCountries (ags ! j)). \<exists>s. t = JStr s"
      and "\<forall>p\<in>set (productCategories (ags ! j)). \<exists>s. p = JStr s"
      by blast+
    then show "array_includes (territoryCountries (ags ! j)) = (\<lambda>t. t \<in> set (territoryCountries (ags ! j)))"
      and "array_includes (productCategories (ags ! j)) = (\<lambda>t. t \<in> set (productCategories (ags ! j)))"
      by (simp_all add: array_includes_strings fun_eq_iff)
  qed
  have flags: "flags_conflict (ags ! i) (ags ! j) \<longleftrightarrow> ?cond i j" if "j < ?n" for i j
    unfolding flags_conflict_def inc [OF that] list_ex_inter by blast
  have recd: "conflict_record (ags ! i) (ags ! j) = ?rec i j" if "j < ?n" for i j
    unfolding conflict_record_def inc [OF that] by (rule refl)
  have "(if flags_conflict (ags ! i) (ags ! j) then [conflict_record (ags ! i) (ags ! j)] else [])
        = (if ?cond i j then [?rec i j] else [])" if "j < ?n" for i j
    using flags [OF that] recd [OF that] by simp
  then have "map (\<lambda>j. if flags_conflict (ags ! i) (ags ! j)
                     then [conflict_record (ags ! i) (ags ! j)] else []) [Suc i..<?n]
           = map (\<lambda>j. if ?cond i j then [?rec i j] else []) [Suc i..<?n]" for i
    by (intro map_cong refl) simp
  then show "detectConflicts ags =
      [?rec i j. i \<leftarrow> [0..<?n], j \<leftarrow> [Suc i..<?n], ?cond i j]"
    unfolding detectConflicts_eq by (simp only:)
next
  show "\<forall>c\<in>set (detectConflicts ags).
             overlappingTerritories c \<noteq> [] \<and> overlappingProducts c \<noteq> []
             \<and> (severity c = ''High'' \<longleftrightarrow>
                  exclusivity (agreement1 c) = JStr ''Exclusive''
                  \<and> exclusivity (agreement2 c) = JStr ''Exclusive'')
             \<and> (severity c = ''Medium'' \<longleftrightarrow>
                  \<not> (exclusivity (agreement1 c) = JStr ''Exclusive''
                     \<and> exclusivity (agreement2 c) = JStr ''Exclusive''))"
  proof
    fix c assume "c \<in> set (detectConflicts ags)"
    then obtain a b where f: "flags_conflict a b" and c: "c = conflict_record a b"
      by (auto simp: detectConflicts_eq split: if_splits)
    from f have "list_ex (\<lambda>t. array_includes (territoryCountries b) t) (territoryCountries a)"
      and "list_ex (\<lambda>p. array_includes (productCategories b) p) (productCategories a)"
      unfolding flags_conflict_def by blast+
    then have "overlappingTerritories c \<noteq> []" and "overlappingProducts c \<noteq> []"
      unfolding c conflict_record_def by (simp_all add: filter_list_ex)
    moreover have "severity c = ''High'' \<longleftrightarrow>
                  exclusivity (agreement1 c) = JStr ''Exclusive''
                  \<and> exclusivity (agreement2 c) = JStr ''Exclusive''"
      and "severity c = ''Medium'' \<longleftrightarrow>
                  \<not> (exclusivity (agreement1 c) = JStr ''Exclusive''
                     \<and> exclusivity (agreement2 c) = JStr ''Exclusive'')"
      unfolding c conflict_record_def by simp_all
    ultimately show "overlappingTerritories c \<noteq> [] \<and> overlappingProducts c \<noteq> []
             \<and> (severity c = ''High'' \<longleftrightarrow>
                  exclusivity (agreement1 c) = JStr ''Exclusive''
                  \<and> exclusivity (agreement2 c) = JStr ''Exclusive'')
             \<and> (severity c = ''Medium'' \<longleftrightarrow>
                  \<not> (exclusivity (agreement1 c) = JStr ''Exclusive''
                     \<and> exclusivity (agreement2 c) = JStr ''Exclusive''))"
      by blast
  qed
qed


subsection \<open>The demo data set\<close>

text \<open>
  In a zone whose offsets stay within a day, a record with a valid expiration date
  well inside the range of dates is derived without exception; so are the five records
  of the demo data set.
\<close>

lemma calculateDerivedFields_returns_bounded:
  assumes "\<forall>t. \<bar>tzaUTC env t\<bar> \<le> msPerDay \<and> \<bar>tzaLocal env t\<bar> \<le> msPerDay"
    and "newDate env (expirationDate p) = Some t"
    and "nonRenewalNoticeDays p = Fin (of_int d)"
    and "\<bar>t - d * msPerDay\<bar> \<le> 8640000000000000 - 2 * msPerDay"
    and "annualMinimums p = JArr ms" and "list_all (\<lambda>m. \<not> nullish m) ms"
    and "\<bar>d\<bar> \<le> 2 ^ 52"
  shows "\<exists>a. calculateDerivedFields env p = Inr a"
proof -
  let ?l = "LocalTime env t - d * msPerDay"
  have "\<bar>tzaUTC env t\<bar> \<le> msPerDay" and "\<bar>tzaLocal env ?l\<bar> \<le> msPerDay"
    using assms(1) by blast+
  with assms(4) have "\<bar>UTC env ?l\<bar> \<le> 8640000000000000"
    by (simp add: UTC_def LocalTime_def)
  then have "TimeClip (UTC env ?l) = Some (UTC env ?l)"
    by (simp add: TimeClip_def)
  from calculateDerivedFields_returns [OF assms(2,3) this assms(5,6,7)] show ?thesis .
qed

lemma sample_returns:
  assumes "\<forall>t. \<bar>tzaUTC env t\<bar> \<le> msPerDay \<and> \<bar>tzaLocal env t\<bar> \<le> msPerDay"
    and "expirationDate p \<in> JStr ` {''2027-01-31'', ''2025-06-30'', ''2028-09-30'', ''2025-03-31'', ''2027-11-30''}"
    and "nonRenewalNoticeDays p \<in> {Fin 90, Fin 120, Fin 60}"
    and "annualMinimums p = JArr ms" and "list_all (\<lambda>m. \<not> nullish m) ms"
  shows "\<exists>a. calculateDerivedFields env p = Inr a"
proof -
  from assms(2) obtain t where t: "newDate env (expirationDate p) = Some t"
    and tb: "0 \<le> t \<and> t \<le> 2000000000000"
    by (auto simp: date_parse_simps)
  from assms(3) obtain d where d: "nonRenewalNoticeDays p = Fin (of_int d)"
    and db: "0 \<le> d \<and> d \<le> 120"
  proof -
    have "nonRenewalNoticeDays p = Fin (of_int 90) \<or> nonRenewalNoticeDays p = Fin (of_int 120)
          \<or> nonRenewalNoticeDays p = Fin (of_int 60)"
      using assms(3) by auto
    then show ?thesis using that by fastforce
  qed
  from tb db have "\<bar>t - d * msPerDay\<bar> \<le> 8640000000000000 - 2 * msPerDay"
    by (simp add: msPerDay_def abs_le_iff)
  moreover from db have "\<bar>d\<bar> \<le> 2 ^ 52"
    by simp
  ultimately show ?thesis
    by (rule calculateDerivedFields_returns_bounded [OF assms(1) t d _ assms(4,5)])
qed


lemma mapE_returns:
  assumes "\<forall>x\<in>set xs. \<exists>y. f x = Inr y"
  shows "mapE f xs = Inr (map (\<lambda>x. projr (f x)) xs)"
  using assms by (induction xs) auto

lemma getSampleAgreements_returns:
  assumes "\<forall>t. \<bar>tzaUTC env t\<bar> \<le> msPerDay \<and> \<bar>tzaLocal env t\<bar> \<le> msPerDay"
  shows "getSampleAgreements env = Inr (map (\<lambda>p. projr (calculateDerivedFields env p)) sampleData)"
    and "\<forall>p\<in>set sampleData.
           calculateDerivedFields env p = Inr (projr (calculateDerivedFields env p))"
proof -
  have r: "\<exists>a. calculateDerivedFields env p = Inr a" if "p \<in> set sampleData" for p
  proof -
    from that consider "p = sample1" | "p = sample2" | "p = sample3" | "p = sample4" | "p = sample5"
      by (auto simp: sampleData_def)
    then show ?thesis
    proof cases
      case 1
      show ?thesis
        by (rule sample_returns [OF assms]) (simp_all add: 1 sample1_def nullish_def)+
    next
      case 2
      show ?thesis
        by (rule sample_returns [OF assms]) (simp_all add: 2 sample2_def nullish_def)+
    next
      case 3
      show ?thesis
        by (rule sample_returns [OF assms]) (simp_all add: 3 sample3_def nullish_def)+
    next
      case 4
      show ?thesis
        by (rule sample_returns [OF assms]) (simp_all add: 4 sample4_def nullish_def)+
    next
      case 5
      show ?thesis
        by (rule sample_returns [OF assms]) (simp_all add: 5 sample5_def nullish_def)+
    qed
  qed
  then show "getSampleAgreements env = Inr (map (\<lambda>p. projr (calculateDerivedFields env p)) sampleData)"
    unfolding getSampleAgreements_def by (intro mapE_returns) blast
  from r show "\<forall>p\<in>set sampleData.
           calculateDerivedFields env p = Inr (projr (calculateDerivedFields env p))"
    by fastforce
qed


text \<open>No pair with disjoint territories is reported; the demo data set has none.\<close>

lemma detectConflicts_no_territory_overlap:
  assumes "\<And>i j. i < j \<Longrightarrow> j < length ags \<Longrightarrow>
             \<not> list_ex (\<lambda>t. array_includes (territoryCountries (ags ! j)) t)
                  (territoryCountries (ags ! i))"
  shows "detectConflicts ags = []"
proof -
  have "\<not> flags_conflict (ags ! i) (ags ! j)" if "i < j" "j < length ags" for i j
    using assms [OF that] unfolding flags_conflict_def by blast
  then have "(if flags_conflict (ags ! i) (ags ! j) then [conflict_record (ags ! i) (ags ! j)] else []) = []"
    if "j \<in> set [Suc i..<length ags]" for i j
    using that by simp
  then have "concat (map (\<lambda>j. if flags_conflict (ags ! i) (ags ! j)
                               then [conflict_record (ags ! i) (ags ! j)] else [])
                       [Suc i..<length ags]) = []" for i
    unfolding concat_eq_Nil_conv by (auto simp del: set_upt)
  then show ?thesis
    unfolding detectConflicts_eq by (simp only: map_replicate_const concat_replicate_trivial)
qed

lemma territories_disjoint:
  assumes "map territoryCountries ags =
     [[JStr ''Germany'', JStr ''Austria''], [JStr ''United Kingdom'', JStr ''Ireland''],
      [JStr ''Japan''], [JStr ''Brazil''], [JStr ''Australia'', JStr ''New Zealand'']]"
    and "i < j" and "j < length ags"
  shows "\<not> list_ex (\<lambda>t. array_includes (territoryCountries (ags ! j)) t)
            (territoryCountries (ags ! i))"
proof -
  from assms(1) have "length (map territoryCountries ags) = 5" by simp
  then have len: "length ags = 5" by simp
  have t: "territoryCountries (ags ! k) = map territoryCountries ags ! k" if "k < 5" for k
    using that len by simp
  have t0: "territoryCountries (ags ! 0) = [JStr ''Germany'', JStr ''Austria'']"
    and t1: "territoryCountries (ags ! Suc 0) = [JStr ''United Kingdom'', JStr ''Ireland'']"
    and t2: "territoryCountries (ags ! 2) = [JStr ''Japan'']"
    and t3: "territoryCountries (ags ! 3) = [JStr ''Brazil'']"
    and t4: "territoryCountries (ags ! 4) = [JStr ''Australia'', JStr ''New Zealand'']"
    by (simp_all add: t assms(1))
  from assms(3) len consider "j = 1" "i < 1" | "j = 2" "i < 2" | "j = 3" "i < 3" | "j = 4" "i < 4"
    using assms(2) by arith
  then show ?thesis
  proof cases
    case 1
    then have "i = 0" by simp
    with 1 show ?thesis by (simp add: t0 t1 array_includes_def)
  next
    case 2
    then consider "i = 0" | "i = 1" by arith
    then show ?thesis
      by cases (simp_all add: 2 t0 t1 t2 array_includes_def)
  next
    case 3
    then consider "i = 0" | "i = 1" | "i = 2" by arith
    then show ?thesis
      by cases (simp_all add: 3 t0 t1 t2 t3 array_includes_def)
  next
    case 4
    then consider "i = 0" | "i = 1" | "i = 2" | "i = 3" by arith
    then show ?thesis
      by cases (simp_all add: 4 t0 t1 t2 t3 t4 array_includes_def)
  qed
qed


lemma sample_agreements_no_conflict:
  assumes "\<forall>t. \<bar>tzaUTC env t\<bar> \<le> msPerDay \<and> \<bar>tzaLocal env t\<bar> \<le> msPerDay"
  shows "detectConflicts (map (\<lambda>p. projr (calculateDerivedFields env p)) sampleData) = []"
proof -
  let ?ags = "map (\<lambda>p. projr (calculateDerivedFields env p)) sampleData"
  have "territoryCountries (projr (calculateDerivedFields env p)) = territoryCountries p"
    if "p \<in> set sampleData" for p
    using getSampleAgreements_returns(2) [OF assms] that calculateDerivedFields_fields(1) by blast
  then have "map territoryCountries ?ags = map territoryCountries sampleData"
    by simp
  also have "\<dots> =
     [[JStr ''Germany'', JStr ''Austria''], [JStr ''United Kingdom'', JStr ''Ireland''],
      [JStr ''Japan''], [JStr ''Brazil''], [JStr ''Australia'', JStr ''New Zealand'']]"
    by (simp add: sampleData_def sample1_def sample2_def sample3_def sample4_def sample5_def)
  finally show ?thesis
    by (intro detectConflicts_no_territory_overlap territories_disjoint)
qed

text \<open>The example of two agreements that overlap in Germany and MRI systems.\<close>

theorem detectConflicts_pairs_witness:
  "map territoryCountries overlap_agreements =
     [[JStr ''Germany'', JStr ''Austria''], [JStr ''France'', JStr ''Germany''], [JStr ''Japan'']]
   \<and> map productCategories overlap_agreements =
     [[JStr ''MRI Systems'', JStr ''CT Scanners'', JStr ''Ultrasound Systems''],
      [JStr ''MRI Systems''],
      [JStr ''MRI Systems'', JStr ''CT Scanners'', JStr ''AI Software'']]
   \<and> map exclusivityStatus overlap_agreements =
     [JStr ''Exclusive'', JStr ''Non-Exclusive'', JStr ''Exclusive'']
   \<and> map severity (detectConflicts overlap_agreements) = [''Medium'']
   \<and> map overlappingTerritories (detectConflicts overlap_agreements) = [[JStr ''Germany'']]
   \<and> map overlappingProducts (detectConflicts overlap_agreements) = [[JStr ''MRI Systems'']]"
proof -
  let ?env = "utc_env 1735689600000"
  let ?p1 = "sample4\<lparr>territoryCountries := [JStr ''France'', JStr ''Germany''],
                      productCategories := [JStr ''MRI Systems'']\<rparr>"
  define a0 where "a0 = projr (calculateDerivedFields ?env sample1)"
  define a1 where "a1 = projr (calculateDerivedFields ?env ?p1)"
  define a2 where "a2 = projr (calculateDerivedFields ?env sample3)"
  have ov: "overlap_agreements = [a0, a1, a2]"
    by (simp add: overlap_agreements_def overlap_example_def a0_def a1_def a2_def)
  have z: "\<forall>t. \<bar>tzaUTC ?env t\<bar> \<le> msPerDay \<and> \<bar>tzaLocal ?env t\<bar> \<le> msPerDay"
    by (simp add: utc_env_def msPerDay_def)
  have "\<exists>a. calculateDerivedFields ?env sample1 = Inr a"
    by (rule sample_returns [OF z]) (simp_all add: sample1_def nullish_def)+
  then have r0: "calculateDerivedFields ?env sample1 = Inr a0"
    by (auto simp: a0_def)
  have "\<exists>a. calculateDerivedFields ?env ?p1 = Inr a"
    by (rule sample_returns [OF z]) (simp_all add: sample4_def nullish_def)+
  then have r1: "calculateDerivedFields ?env ?p1 = Inr a1"
    by (auto simp: a1_def)
  have "\<exists>a. calculateDerivedFields ?env sample3 = Inr a"
    by (rule sample_returns [OF z]) (simp_all add: sample3_def nullish_def)+
  then have r2: "calculateDerivedFields ?env sample3 = Inr a2"
    by (auto simp: a2_def)
  have t: "territoryCountries a0 = [JStr ''Germany'', JStr ''Austria'']"
    "territoryCountries a1 = [JStr ''France'', JStr ''Germany'']"
    "territoryCountries a2 = [JStr ''Japan'']"
    by (simp_all add: calculateDerivedFields_fields(1) [OF r0] calculateDerivedFields_fields(1) [OF r1]
        calculateDerivedFields_fields(1) [OF r2] sample1_def sample3_def)
  have p: "productCategories a0 = [JStr ''MRI Systems'', JStr ''CT Scanners'', JStr ''Ultrasound Systems'']"
    "productCategories a1 = [JStr ''MRI Systems'']"
    "productCategories a2 = [JStr ''MRI Systems'', JStr ''CT Scanners'', JStr ''AI Software'']"
    by (simp_all add: calculateDerivedFields_fields(2) [OF r0] calculateDerivedFields_fields(2) [OF r1]
        calculateDerivedFields_fields(2) [OF r2] sample1_def sample3_def)
  have x: "exclusivityStatus a0 = JStr ''Exclusive''"
    "exclusivityStatus a1 = JStr ''Non-Exclusive''"
    "exclusivityStatus a2 = JStr ''Exclusive''"
    by (simp_all add: calculateDerivedFields_fields(3) [OF r0] calculateDerivedFields_fields(3) [OF r1]
        calculateDerivedFields_fields(3) [OF r2] sample1_def sample3_def sample4_def)
  have canonical: "\<forall>a\<in>set overlap_agreements.
            (\<forall>t\<in>set (territoryCountries a). \<exists>s. t = JStr s)
            \<and> (\<forall>p\<in>set (productCategories a). \<exists>s. p = JStr s)"
    by (simp add: ov t p)
  from detectConflicts_pairs [OF canonical]
  have "map severity (detectConflicts overlap_agreements) = [''Medium'']
   \<and> map overlappingTerritories (detectConflicts overlap_agreements) = [[JStr ''Germany'']]
   \<and> map overlappingProducts (detectConflicts overlap_agreements) = [[JStr ''MRI Systems'']]"
    by (simp add: ov t p x upt_rec_numeral)
  then show ?thesis
    by (simp add: ov t p x)
qed

subsection \<open>Synchronisation\<close>

lemma isAuthenticated_again:
  assumes "isAuthenticated env st = (True, st1)"
  shows "isAuthenticated env st1 = (True, st1)"
proof (cases "truthy (accessToken st)")
  case True
  with assms show ?thesis by (simp add: isAuthenticated_def)
next
  case False
  with assms have l: "loadToken env st = (True, st1)" by (simp add: isAuthenticated_def)
  then obtain tok ein sat where s: "session_nav_token st = Some (TokenData tok ein sat)"
    and n: "\<not> now env \<ge> sat + ein * 1000" and st1: "st1 = st\<lparr>accessToken := tok\<rparr>"
    by (auto simp: loadToken_def Let_def split: option.splits stored_token.splits if_splits)
  then have "loadToken env st1 = (True, st1)"
    by (simp add: loadToken_def Let_def)
  then show ?thesis by (simp add: isAuthenticated_def)
qed

lemma getAllAgreements_try_fetch_failure:
  assumes "agreementsList net = NetworkError
           \<or> (\<exists>body. agreementsList net = Responded (Response False body))"
  shows "snd (getAllAgreements_try env net st) = getSampleAgreements env
         \<or> (\<exists>e. snd (getAllAgreements_try env net st) = Inl e)"
  using assms
  by (cases "if \<not> truthy (accountId st) then getUserInfo net st else Inr st")
     (auto simp: getAllAgreements_try_def)

lemma getAllAgreements_fetch_failure:
  assumes "isAuthenticated env st = (True, st1)"
    and "agreementsList net = NetworkError
         \<or> (\<exists>body. agreementsList net = Responded (Response False body))"
    and "getSampleAgreements env = Inr ags"
  shows "snd (getAllAgreements env net st) = Inr ags"
proof -
  obtain st2 r where t: "getAllAgreements_try env net st1 = (st2, r)"
    by (cases "getAllAgreements_try env net st1")
  with getAllAgreements_try_fetch_failure [OF assms(2), of env st1]
  have "r = Inr ags \<or> (\<exists>e. r = Inl e)" using assms(3) by auto
  with assms(1,3) t show ?thesis
    by (auto simp: getAllAgreements_def)
qed


text \<open>
  Claim C8. When the service is authenticated and the request for the list of
  agreements fails (the network fails, or the response is not ok), the
  synchronisation of \<open>NavigatorAPIServiceImplicit\<close> succeeds all the same: the five
  records of the demo data set go through \<open>calculateDerivedFields\<close> and
  \<open>detectConflicts\<close>, the result reports 5 agreements and no conflict, and both lists
  replace the cache and the stored items. (The zone offsets of the host stay within a
  day.)
\<close>

theorem syncAgreements_fetch_failure:
  assumes "fst (isAuthenticated env st)"
    and "agreementsList net = NetworkError
         \<or> (\<exists>body. agreementsList net = Responded (Response False body))"
    and "\<forall>t. \<bar>tzaUTC env t\<bar> \<le> msPerDay \<and> \<bar>tzaLocal env t\<bar> \<le> msPerDay"
  shows "\<exists>st'. syncAgreements env net st =
                 (SyncSuccess 5 0 0 (iso_string (now env)), st',
                  [(''authenticating'', 0), (''fetching'', 20), (''processing'', 60),
                   (''caching'', 80), (''complete'', 100)])
             \<and> getSampleAgreements env = Inr (map (\<lambda>p. projr (calculateDerivedFields env p)) sampleData)
             \<and> cache_agreements st'
                 = Some (map (\<lambda>p. projr (calculateDerivedFields env p)) sampleData)
             \<and> cache_conflicts st'
                 = Some (detectConflicts (map (\<lambda>p. projr (calculateDerivedFields env p)) sampleData))
             \<and> local_nav_agreements st' = cache_agreements st'
             \<and> local_nav_conflicts st' = cache_conflicts st'"
proof -
  let ?ags = "map (\<lambda>p. projr (calculateDerivedFields env p)) sampleData"
  have sample: "getSampleAgreements env = Inr ?ags"
    by (rule getSampleAgreements_returns(1) [OF assms(3)])
  have none: "detectConflicts ?ags = []"
    by (rule sample_agreements_no_conflict [OF assms(3)])
  have five: "length ?ags = 5"
    by (simp add: sampleData_def)
  obtain st1 where a: "isAuthenticated env st = (True, st1)"
    using assms(1) by (cases "isAuthenticated env st") auto
  then have a1: "isAuthenticated env st1 = (True, st1)"
    by (rule isAuthenticated_again)
  obtain st2 r where g: "getAllAgreements env net st1 = (st2, r)"
    by (cases "getAllAgreements env net st1")
  with getAllAgreements_fetch_failure [OF a1 assms(2) sample] have r: "r = Inr ?ags"
    by simp
  show ?thesis
    using a g r none five sample
    by (simp add: syncAgreements_def Let_def)
qed

theorem syncAgreements_fetch_failure_witness:
  "fst (isAuthenticated (utc_env 1735689600000) example_service)
   \<and> agreementsList offline_network = NetworkError
   \<and> fst (syncAgreements (utc_env 1735689600000) offline_network example_service)
       = SyncSuccess 5 0 0 ''2025-01-01T00:00:00.000Z''"
proof -
  have a: "fst (isAuthenticated (utc_env 1735689600000) example_service)"
    by (simp add: isAuthenticated_def example_service_def)
  have n: "agreementsList offline_network = NetworkError
         \<or> (\<exists>body. agreementsList offline_network = Responded (Response False body))"
    by (simp add: offline_network_def)
  have z: "\<forall>t. \<bar>tzaUTC (utc_env 1735689600000) t\<bar> \<le> msPerDay
              \<and> \<bar>tzaLocal (utc_env 1735689600000) t\<bar> \<le> msPerDay"
    by (simp add: utc_env_def msPerDay_def)
  have i: "iso_string (now (utc_env 1735689600000)) = ''2025-01-01T00:00:00.000Z''"
    by code_simp
  from syncAgreements_fetch_failure [OF a n z] i a
  show ?thesis by (auto simp: offline_network_def)
qed


subsection \<open>The bound of the JSON parser\<close>

text \<open>
  Every parser of the descent consumes at least one character when it succeeds, so the
  nesting it meets is bounded by the length of the text, and a bound of twice the
  length is never reached.
\<close>

lemma skip_ws_le: "length (skip_ws s) \<le> length s"
  by (simp add: skip_ws_def length_dropWhile_le)

lemma map_option_rest:
  "map_option (\<lambda>(s, t). (f s, t)) x = Some (str, r) \<Longrightarrow> \<exists>s'. x = Some (s', r)"
  by (cases x) auto

lemma case_map_option_rest:
  "(case d of None \<Rightarrow> None | Some x \<Rightarrow> map_option (\<lambda>(s, t). (g x s, t)) y) = Some (str, r)
   \<Longrightarrow> \<exists>s'. y = Some (s', r)"
  by (cases d; cases y) auto

lemma json_chars_escape:
  "json_chars (CHR 0x5C # CHR ''u'' # r2) = Some (str, r) \<Longrightarrow>
   \<exists>t s'. json_chars t = Some (s', r) \<and> length t \<le> length r2"
  apply (subst (asm) json_chars.simps)
  apply (simp del: json_chars.simps split: list.splits option.splits if_splits)
  apply (safe dest!: map_option_rest)
  apply (rule exI, rule conjI, rule exI, assumption, simp del: json_chars.simps)+
  done


lemma json_chars_shorter: "json_chars s = Some (str, r) \<Longrightarrow> length r < length s"
proof (induction s arbitrary: str r rule: length_induct)
  case (1 s)
  then have IH: "\<And>ys str r. json_chars ys = Some (str, r) \<Longrightarrow> length ys < length s \<Longrightarrow> length r < length ys"
    by blast
  show ?case
  proof (cases s)
    case Nil
    with 1(2) show ?thesis by simp
  next
    case (Cons c r0)
    consider (quote) "c = CHR 0x22"
      | (escape) "c = CHR 0x5C"
      | (plain) "c \<noteq> CHR 0x22" "c \<noteq> CHR 0x5C"
      by blast
    then show ?thesis
    proof cases
      case quote
      with 1(2) Cons show ?thesis by simp
    next
      case plain
      with 1(2) Cons obtain s' where "json_chars r0 = Some (s', r)"
        by (auto simp del: json_chars.simps simp add: json_chars.simps(2) [of c r0]
            split: if_splits dest!: map_option_rest)
      from IH [OF this] Cons show ?thesis by simp
    next
      case escape
      show ?thesis
      proof (cases r0)
        case Nil
        with 1(2) Cons escape show ?thesis by simp
      next
        case e: (Cons e r2)
        show ?thesis
        proof (cases "e = CHR ''u''")
          case True
          with 1(2) Cons escape e
          have "json_chars (CHR 0x5C # CHR ''u'' # r2) = Some (str, r)"
            by (simp only:)
          from json_chars_escape [OF this] obtain t s'
            where t: "json_chars t = Some (s', r)" "length t \<le> length r2"
            by blast
          from IH [OF t(1)] t(2) Cons e show ?thesis by simp
        next
          case False
          have "json_chars s = 
            (case (if e = CHR 0x22 then Some (CHR 0x22)
                         else if e = CHR 0x5C then Some (CHR 0x5C)
                         else if e = CHR ''/'' then Some (CHR ''/'')
                         else if e = CHR ''b'' then Some (CHR 0x08)
                         else if e = CHR ''f'' then Some (CHR 0x0C)
                         else if e = CHR ''n'' then Some (CHR 0x0A)
                         else if e = CHR ''r'' then Some (CHR 0x0D)
                         else if e = CHR ''t'' then Some (CHR 0x09)
                         else None) of
                     None \<Rightarrow> None
                   | Some x \<Rightarrow> map_option (\<lambda>(s, t). (x # s, t)) (json_chars r2))"
            unfolding Cons e escape
            by (subst json_chars.simps) (simp del: json_chars.simps add: False Let_def)
          with 1(2) obtain s' where "json_chars r2 = Some (s', r)"
            using case_map_option_rest [where g = "(#)" and y = "json_chars r2" and str = str and r = r]
            by metis
          from IH [OF this] Cons e show ?thesis by simp
        qed
      qed
    qed
  qed
qed

lemma exponent_part_shorter: "exponent_part s = Some (e, r) \<Longrightarrow> length r < length s"
proof (cases s)
  case Nil
  assume "exponent_part s = Some (e, r)"
  with Nil show ?thesis by (simp add: exponent_part_def)
next
  case (Cons c r0)
  assume "exponent_part s = Some (e, r)"
  with Cons have "r = dropWhile is_digit r0 \<or> r = dropWhile is_digit (tl r0)"
    by (auto simp add: exponent_part_def Let_def split: if_splits)
  moreover have "length (dropWhile is_digit r0) \<le> length r0"
    and "length (dropWhile is_digit (tl r0)) \<le> length r0"
    using length_dropWhile_le [of is_digit r0] length_dropWhile_le [of is_digit "tl r0"]
    by simp_all
  ultimately show ?thesis using Cons by auto
qed

lemma json_number_shorter: "json_number s = Some (x, r) \<Longrightarrow> length r < length s"
proof -
  assume a: "json_number s = Some (x, r)"
  define s1 where "s1 = (if s \<noteq> [] \<and> hd s = CHR ''-'' then tl s else s)"
  define ds where "ds = (if s1 \<noteq> [] \<and> hd s1 = CHR ''0'' then ''0'' else takeWhile is_digit s1)"
  define r1 where "r1 = drop (length ds) s1"
  define r2 where "r2 = (if r1 \<noteq> [] \<and> hd r1 = CHR ''.'' then dropWhile is_digit (tl r1) else r1)"
  have s1: "length s1 \<le> length s"
    by (simp add: s1_def)
  note a' = a [unfolded json_number_def Let_def, folded s1_def, folded ds_def, folded r1_def,
      folded r2_def]
  from a' have ds: "ds \<noteq> []"
    by (simp split: if_splits)
  have "length ds \<le> length s1"
    using length_takeWhile_le [of is_digit s1] by (cases s1) (simp_all add: ds_def)
  with ds have r1: "length r1 < length s1"
    by (cases ds) (simp_all add: r1_def)
  have r2: "length r2 \<le> length r1"
    using length_dropWhile_le [of is_digit "tl r1"] by (auto simp add: r2_def)
  from a' have "r = r2 \<or> (\<exists>e. exponent_part r2 = Some (e, r))"
    by (auto split: if_splits option.splits)
  then have "length r \<le> length r2"
    using exponent_part_shorter by fastforce
  with r2 r1 s1 show ?thesis by simp
qed

lemma starts_with_length: "starts_with p t \<Longrightarrow> length p \<le> length t"
proof -
  assume "starts_with p t"
  then have "length (take (length p) t) = length p"
    by (simp add: starts_with_def)
  then show ?thesis by simp
qed

lemma skip_ws_Cons: "skip_ws s = c # r \<Longrightarrow> length r < length s"
  using skip_ws_le [of s] by simp

lemma json_value_shorter_step:
  assumes "json_value (Suc n) s = Some (v, r)"
    and el: "\<And>s vs r. json_elements n s = Some (vs, r) \<Longrightarrow> length r < length s"
    and mem: "\<And>s kvs r. json_members n s = Some (kvs, r) \<Longrightarrow> length r < length s"
  shows "length r < length s"
proof -
  define t where "t = skip_ws s"
  have t: "length t \<le> length s"
    by (simp add: t_def skip_ws_le)
  have "length r < length t"
  proof (cases "starts_with ''null'' t \<or> starts_with ''true'' t \<or> starts_with ''false'' t")
    case True
    with assms(1) have "(r = drop 4 t \<and> 4 \<le> length t) \<or> (r = drop 5 t \<and> 5 \<le> length t)"
      using starts_with_length [of "''null''" t] starts_with_length [of "''true''" t]
        starts_with_length [of "''false''" t]
      by (auto simp add: t_def Let_def split: if_splits)
    then show ?thesis by auto
  next
    case False
    show ?thesis
    proof (cases t)
      case Nil
      with assms(1) False show ?thesis by (simp add: t_def Let_def)
    next
      case (Cons c r0)
      from assms(1) False Cons
      have "(\<exists>str. json_chars r0 = Some (str, r))
          \<or> (r = drop 1 (skip_ws r0))
          \<or> (\<exists>vs. json_elements n r0 = Some (vs, r))
          \<or> (\<exists>kvs. json_members n r0 = Some (kvs, r))
          \<or> (\<exists>x. json_number t = Some (x, r))"
        unfolding json_value.simps Let_def t_def [symmetric]
        by (auto simp del: json_chars.simps split: if_splits)
      then show ?thesis
        using json_chars_shorter [of r0 _ r] el [of r0 _ r] mem [of r0 _ r]
          json_number_shorter [of t _ r] skip_ws_le [of r0] Cons
        by (auto simp del: json_chars.simps)
    qed
  qed
  with t show ?thesis by simp
qed

lemma json_elements_shorter_step:
  assumes "json_elements (Suc n) s = Some (vs, r)"
    and val: "\<And>s v r. json_value n s = Some (v, r) \<Longrightarrow> length r < length s"
    and el: "\<And>s vs r. json_elements n s = Some (vs, r) \<Longrightarrow> length r < length s"
  shows "length r < length s"
proof -
  from assms(1) obtain v r1 c r2 where v: "json_value n s = Some (v, r1)"
    and c: "skip_ws r1 = c # r2"
    and r: "r = r2 \<or> (\<exists>vs'. json_elements n r2 = Some (vs', r))"
    by (auto split: option.splits list.splits if_splits)
  from r el have "length r \<le> length r2" by fastforce
  with val [OF v] skip_ws_Cons [OF c] show ?thesis by simp
qed

lemma json_members_shorter_step:
  assumes "json_members (Suc n) s = Some (kvs, r)"
    and val: "\<And>s v r. json_value n s = Some (v, r) \<Longrightarrow> length r < length s"
    and mem: "\<And>s kvs r. json_members n s = Some (kvs, r) \<Longrightarrow> length r < length s"
  shows "length r < length s"
proof -
  from assms(1) obtain q r0 k r1 c r2 v r3 d r4 where q: "skip_ws s = q # r0"
    and k: "json_chars r0 = Some (k, r1)"
    and c: "skip_ws r1 = c # r2"
    and v: "json_value n r2 = Some (v, r3)"
    and d: "skip_ws r3 = d # r4"
    and r: "r = r4 \<or> (\<exists>kvs'. json_members n r4 = Some (kvs', r))"
    by (auto simp del: json_chars.simps split: option.splits list.splits if_splits)
  from r mem have "length r \<le> length r4" by fastforce
  with skip_ws_Cons [OF q] json_chars_shorter [OF k] skip_ws_Cons [OF c] val [OF v]
    skip_ws_Cons [OF d]
  show ?thesis by simp
qed

lemma json_shorter:
  "(\<forall>s v r. json_value n s = Some (v, r) \<longrightarrow> length r < length s) \<and>
   (\<forall>s vs r. json_elements n s = Some (vs, r) \<longrightarrow> length r < length s) \<and>
   (\<forall>s kvs r. json_members n s = Some (kvs, r) \<longrightarrow> length r < length s)"
proof (induction n)
  case 0
  show ?case by simp
next
  case (Suc n)
  show ?case
    using json_value_shorter_step [of n] json_elements_shorter_step [of n]
      json_members_shorter_step [of n] Suc
    by blast
qed

lemma json_value_Nil: "json_value n [] = None"
  by (cases n) (simp_all add: Let_def skip_ws_def starts_with_def)

lemma json_value_fuel_step:
  assumes "json_elements n (tl (skip_ws s)) = json_elements m (tl (skip_ws s))"
    and "json_members n (tl (skip_ws s)) = json_members m (tl (skip_ws s))"
  shows "json_value (Suc n) s = json_value (Suc m) s"
proof (cases "skip_ws s")
  case Nil
  then show ?thesis by (simp add: Let_def)
next
  case (Cons c r)
  with assms have "json_elements n r = json_elements m r" "json_members n r = json_members m r"
    by simp_all
  with Cons show ?thesis by (simp del: json_chars.simps add: Let_def)
qed

lemma json_elements_fuel_step:
  assumes "json_value n s = json_value m s"
    and "\<And>v r c r2. json_value n s = Some (v, r) \<Longrightarrow> skip_ws r = c # r2 \<Longrightarrow>
           json_elements n r2 = json_elements m r2"
  shows "json_elements (Suc n) s = json_elements (Suc m) s"
proof (cases "json_value n s")
  case None
  with assms(1) have "json_value m s = None" by simp
  with None show ?thesis by simp
next
  case (Some p)
  obtain v r where p: "p = (v, r)" by (cases p)
  from Some p have vn: "json_value n s = Some (v, r)" by simp
  with assms(1) have vm: "json_value m s = Some (v, r)" by simp
  show ?thesis
  proof (cases "skip_ws r")
    case Nil
    with vn vm show ?thesis by simp
  next
    case (Cons c r2)
    from assms(2) [OF vn Cons] vn vm Cons show ?thesis by simp
  qed
qed

lemma json_members_fuel_step:
  assumes "\<And>q r0 k r1 c r2. skip_ws s = q # r0 \<Longrightarrow> json_chars r0 = Some (k, r1) \<Longrightarrow>
             skip_ws r1 = c # r2 \<Longrightarrow> json_value n r2 = json_value m r2"
    and "\<And>q r0 k r1 c r2 v r3 d r4. skip_ws s = q # r0 \<Longrightarrow> json_chars r0 = Some (k, r1) \<Longrightarrow>
             skip_ws r1 = c # r2 \<Longrightarrow> json_value n r2 = Some (v, r3) \<Longrightarrow>
             skip_ws r3 = d # r4 \<Longrightarrow> json_members n r4 = json_members m r4"
  shows "json_members (Suc n) s = json_members (Suc m) s"
proof (cases "skip_ws s")
  case Nil
  then show ?thesis by simp
next
  case q: (Cons q r0)
  show ?thesis
  proof (cases "json_chars r0")
    case None
    with q show ?thesis by (simp del: json_chars.simps)
  next
    case (Some p)
    obtain k r1 where p: "p = (k, r1)" by (cases p)
    show ?thesis
    proof (cases "skip_ws r1")
      case Nil
      with q Some p show ?thesis by (simp del: json_chars.simps)
    next
      case c: (Cons c r2)
      note v = assms(1) [OF q Some [unfolded p] c]
      show ?thesis
      proof (cases "json_value n r2")
        case None
        with v have "json_value m r2 = None" by simp
        with q Some p c None show ?thesis by (simp del: json_chars.simps)
      next
        case sv: (Some pv)
        obtain v' r3 where pv: "pv = (v', r3)" by (cases pv)
        from sv pv have vn: "json_value n r2 = Some (v', r3)" by simp
        with v have vm: "json_value m r2 = Some (v', r3)" by simp
        show ?thesis
        proof (cases "skip_ws r3")
          case Nil
          with q Some p c vn vm show ?thesis by (simp del: json_chars.simps)
        next
          case d: (Cons d r4)
          from assms(2) [OF q Some [unfolded p] c vn d] q Some p c vn vm d
          show ?thesis by (simp del: json_chars.simps)
        qed
      qed
    qed
  qed
qed

lemma tl_skip_ws_length: "s \<noteq> [] \<Longrightarrow> length (tl (skip_ws s)) < length s"
  using skip_ws_le [of s] by (cases "skip_ws s") simp_all

lemma json_fuel:
  "(\<forall>m s. 2 * length s \<le> n \<longrightarrow> 2 * length s \<le> m \<longrightarrow> json_value n s = json_value m s) \<and>
   (\<forall>m s. 2 * length s + 1 \<le> n \<longrightarrow> 2 * length s + 1 \<le> m \<longrightarrow>
      json_elements n s = json_elements m s) \<and>
   (\<forall>m s. 2 * length s + 1 \<le> n \<longrightarrow> 2 * length s + 1 \<le> m \<longrightarrow>
      json_members n s = json_members m s)"
proof (induction n)
  case 0
  show ?case by (simp add: json_value_Nil)
next
  case (Suc n)
  then have val: "\<And>m s. 2 * length s \<le> n \<Longrightarrow> 2 * length s \<le> m \<Longrightarrow>
      json_value n s = json_value m s"
    and el: "\<And>m s. 2 * length s + 1 \<le> n \<Longrightarrow> 2 * length s + 1 \<le> m \<Longrightarrow>
      json_elements n s = json_elements m s"
    and mem: "\<And>m s. 2 * length s + 1 \<le> n \<Longrightarrow> 2 * length s + 1 \<le> m \<Longrightarrow>
      json_members n s = json_members m s"
    by blast+
  have shorter: "\<And>s v r. json_value n s = Some (v, r) \<Longrightarrow> length r < length s"
    using json_shorter [of n] by blast
  have "json_value (Suc n) s = json_value m s"
    if "2 * length s \<le> Suc n" and "2 * length s \<le> m" for m s
  proof (cases "s = []")
    case True
    then show ?thesis by (simp only: json_value_Nil)
  next
    case False
    with that obtain m' where m: "m = Suc m'"
      by (cases m) simp_all
    from False have "length (tl (skip_ws s)) < length s"
      by (rule tl_skip_ws_length)
    with that m have "2 * length (tl (skip_ws s)) + 1 \<le> n" "2 * length (tl (skip_ws s)) + 1 \<le> m'"
      by simp_all
    then show ?thesis
      unfolding m by (intro json_value_fuel_step el mem)
  qed
  moreover have "json_elements (Suc n) s = json_elements m s"
    if "2 * length s + 1 \<le> Suc n" and "2 * length s + 1 \<le> m" for m s
  proof -
    from that obtain m' where m: "m = Suc m'"
      by (cases m) simp_all
    from that m have b: "2 * length s \<le> n" "2 * length s \<le> m'"
      by simp_all
    show ?thesis
      unfolding m
    proof (rule json_elements_fuel_step)
      show "json_value n s = json_value m' s"
        using b by (rule val)
    next
      fix v r c r2
      assume "json_value n s = Some (v, r)" and "skip_ws r = c # r2"
      then have "length r2 < length r" "length r < length s"
        using skip_ws_Cons shorter by blast+
      with b show "json_elements n r2 = json_elements m' r2"
        by (intro el) simp_all
    qed
  qed
  moreover have "json_members (Suc n) s = json_members m s"
    if "2 * length s + 1 \<le> Suc n" and "2 * length s + 1 \<le> m" for m s
  proof -
    from that obtain m' where m: "m = Suc m'"
      by (cases m) simp_all
    from that m have b: "2 * length s \<le> n" "2 * length s \<le> m'"
      by simp_all
    show ?thesis
      unfolding m
    proof (rule json_members_fuel_step)
      fix q r0 k r1 c r2
      assume "skip_ws s = q # r0" and "json_chars r0 = Some (k, r1)" and "skip_ws r1 = c # r2"
      then have "length r2 < length s"
        using skip_ws_Cons [of s q r0] json_chars_shorter [of r0 k r1] skip_ws_Cons [of r1 c r2]
        by simp
      with b show "json_value n r2 = json_value m' r2"
        by (intro val) simp_all
    next
      fix q r0 k r1 c r2 v r3 d r4
      assume "skip_ws s = q # r0" and "json_chars r0 = Some (k, r1)" and "skip_ws r1 = c # r2"
        and "json_value n r2 = Some (v, r3)" and "skip_ws r3 = d # r4"
      then have "length r4 < length s"
        using skip_ws_Cons [of s q r0] json_chars_shorter [of r0 k r1] skip_ws_Cons [of r1 c r2]
          shorter [of r2 v r3] skip_ws_Cons [of r3 d r4]
        by simp
      with b show "json_members n r4 = json_members m' r4"
        by (intro mem) simp_all
    qed
  qed
  ultimately show ?case by blast
qed

text \<open>
  The bound \<open>JSON_parse\<close> starts from is enough: a larger one gives the same result, so
  \<open>None\<close> is a syntax error of the text and never the bound running out.
\<close>

lemma JSON_parse_fuel:
  "2 * length s \<le> n \<Longrightarrow>
   JSON_parse s = (case json_value n s of
                     None \<Rightarrow> None
                   | Some (v, r) \<Rightarrow> if skip_ws r = [] then Some v else None)"
proof -
  assume "2 * length s \<le> n"
  then have "json_value (2 * length s + 2) s = json_value n s"
    using json_fuel [of "2 * length s + 2"] by simp
  then show ?thesis
    by (simp only: JSON_parse_def)
qed


subsection \<open>Field parsers\<close>

lemma JSON_parse_empty: "JSON_parse [] = None"
  by (simp add: JSON_parse_def skip_ws_def starts_with_def)

lemma JSON_parse_42: "JSON_parse ''42'' = Some (JNum (Fin 42))"
  by code_simp

lemma JSON_parse_quoted:
  "JSON_parse [CHR 0x22, CHR ''G'', CHR ''e'', CHR ''r'', CHR ''m'', CHR ''a'', CHR ''n'',
               CHR ''y'', CHR 0x22] = Some (JStr ''Germany'')"
  by code_simp

lemma JSON_parse_fails:
  "JSON_parse ''Germany, Austria;  France'' = None"
  "JSON_parse ''[abc'' = None"
  "JSON_parse ''Germany|Austria'' = None"
  by code_simp+

lemma JSON_parse_array:
  "JSON_parse [CHR ''['', CHR 0x22, CHR ''A'', CHR 0x22, CHR '','', CHR 0x22, CHR ''B'',
               CHR 0x22, CHR '']''] = Some (JArr [JStr ''A'', JStr ''B''])"
  by code_simp

text \<open>
  \<open>parseMultiValue\<close> of \<open>NavigatorAPIServiceImplicit\<close>, case by case: an array is
  returned as it is; a string that decodes to an array gives that array; a string that
  does not decode is split on comma, semicolon and bar, each piece trimmed and the
  empty ones dropped; anything that is neither array nor string gives the empty array.
\<close>

lemma trim_Nil: "trim [] = []"
  by (simp add: trim_def drop_ws.simps [of "[]"] drop_ws_end.simps [of "[]"] ws_len_def)

lemma trim_examples:
  "trim ''Germany'' = ''Germany''"
  "trim ''Austria'' = ''Austria''"
  "trim '' Austria'' = ''Austria''"
  "trim ''  France'' = ''France''"
  "trim ''Germany|Austria'' = ''Germany|Austria''"
  by code_simp+

lemma parseMultiValue_cases:
  "parseMultiValue (JArr xs) = xs"
  "JSON_parse s = Some (JArr ys) \<Longrightarrow> parseMultiValue (JStr s) = ys"
  "JSON_parse s = None \<Longrightarrow>
     parseMultiValue (JStr s) =
       map JStr (filter (\<lambda>t. t \<noteq> [])
         (map trim (split_on (\<lambda>c. c = CHR '','' \<or> c = CHR '';'' \<or> c = CHR ''|'') s)))"
  "\<not> isArray v \<Longrightarrow> (\<forall>s. v \<noteq> JStr s) \<Longrightarrow> parseMultiValue v = []"
proof -
  show "parseMultiValue (JArr xs) = xs" by (simp add: parseMultiValue_def)
  show "parseMultiValue (JStr s) = ys" if "JSON_parse s = Some (JArr ys)"
    using that JSON_parse_empty by (cases "s = []") (simp_all add: parseMultiValue_def)
  show "parseMultiValue (JStr s) =
       map JStr (filter (\<lambda>t. t \<noteq> [])
         (map trim (split_on (\<lambda>c. c = CHR '','' \<or> c = CHR '';'' \<or> c = CHR ''|'') s)))"
    if "JSON_parse s = None"
    using that by (cases "s = []") (simp_all add: parseMultiValue_def trim_Nil)
  show "parseMultiValue v = []" if "\<not> isArray v" "\<forall>s. v \<noteq> JStr s"
    using that by (cases v) (simp_all add: parseMultiValue_def)
qed

lemma parseMultiValue_examples:
  "parseMultiValue (JStr ''Germany, Austria;  France'')
     = [JStr ''Germany'', JStr ''Austria'', JStr ''France'']"
  "parseMultiValue (JArr [JStr ''A'', JStr ''B'']) = [JStr ''A'', JStr ''B'']"
  "parseMultiValue (JStr ''[abc'') = [JStr ''[abc'']"
  by code_simp+

text \<open>
  Claim C5. The claim holds for \<open>parseMultiValue\<close> of
  \<open>NavigatorAPIServiceImplicit\<close> (the two lemmas above), but \<open>parseMultiValue\<close> of
  \<open>NavigatorAPIServicePKCE\<close> splits on comma and semicolon only: it leaves
  \<open>Germany|Austria\<close> in one piece, where the other service returns two.
\<close>

theorem parseMultiValue_pkce_bar:
  "parseMultiValue_pkce (JStr ''Germany|Austria'') = [JStr ''Germany|Austria'']
   \<and> parseMultiValue (JStr ''Germany|Austria'') = [JStr ''Germany'', JStr ''Austria'']"
  by (simp add: parseMultiValue_cases parseMultiValue_pkce_def JSON_parse_fails trim_examples)

text \<open>
  Claim C10. A string that \<open>JSON.parse\<close> decodes to something that is no array (a
  number, a string, an object, a boolean, null) makes \<open>parseMultiValue\<close> return the
  array of that one string itself, undecoded and unsplit, in both services.
\<close>

theorem parseMultiValue_json_scalar:
  assumes "JSON_parse s = Some v" and "\<not> isArray v"
  shows "parseMultiValue (JStr s) = [JStr s] \<and> parseMultiValue_pkce (JStr s) = [JStr s]"
proof -
  from assms(1) have "s \<noteq> []" using JSON_parse_empty by auto
  with assms show ?thesis
    by (cases v) (simp_all add: parseMultiValue_def parseMultiValue_pkce_def)
qed

theorem parseMultiValue_json_scalar_witness:
  "JSON_parse ''42'' = Some (JNum (Fin 42)) \<and> \<not> isArray (JNum (Fin 42))
   \<and> parseMultiValue (JStr ''42'') = [JStr ''42'']
   \<and> parseMultiValue_pkce (JStr ''42'') = [JStr ''42'']
   \<and> parseMultiValue
        (JStr [CHR 0x22, CHR ''G'', CHR ''e'', CHR ''r'', CHR ''m'', CHR ''a'', CHR ''n'',
               CHR ''y'', CHR 0x22])
      = [JStr [CHR 0x22, CHR ''G'', CHR ''e'', CHR ''r'', CHR ''m'', CHR ''a'', CHR ''n'',
               CHR ''y'', CHR 0x22]]"
  using parseMultiValue_json_scalar [OF JSON_parse_42]
    parseMultiValue_json_scalar [OF JSON_parse_quoted]
  by (simp add: JSON_parse_42)

text \<open>
  \<open>parseAnnualMinimums\<close>, case by case: an array is returned as it is, a string
  that decodes gives the decoded value whatever it is, a string that does not decode
  and anything else give the empty array.
\<close>

lemma parseAnnualMinimums_cases:
  "parseAnnualMinimums (JArr xs) = JArr xs"
  "JSON_parse s = Some v \<Longrightarrow> parseAnnualMinimums (JStr s) = v"
  "JSON_parse s = None \<Longrightarrow> parseAnnualMinimums (JStr s) = JArr []"
  "\<not> isArray v \<Longrightarrow> (\<forall>s. v \<noteq> JStr s) \<Longrightarrow> parseAnnualMinimums v = JArr []"
proof -
  show "parseAnnualMinimums (JArr xs) = JArr xs" by (simp add: parseAnnualMinimums_def)
  show "parseAnnualMinimums (JStr s) = v" if "JSON_parse s = Some v"
    using that JSON_parse_empty by (cases "s = []") (simp_all add: parseAnnualMinimums_def)
  show "parseAnnualMinimums (JStr s) = JArr []" if "JSON_parse s = None"
    using that by (simp add: parseAnnualMinimums_def)
  show "parseAnnualMinimums v = JArr []" if "\<not> isArray v" "\<forall>s. v \<noteq> JStr s"
    using that by (cases v) (simp_all add: parseAnnualMinimums_def)
qed

text \<open>
  Claim C6. The string \<open>42\<close> decodes to the number 42, and both services return
  that number, which is no sequence; the claim asks for the empty sequence.
\<close>

theorem parseAnnualMinimums_json_scalar:
  "parseAnnualMinimums (JStr ''42'') = JNum (Fin 42)
   \<and> parseAnnualMinimums_pkce (JStr ''42'') = JNum (Fin 42)
   \<and> \<not> isArray (JNum (Fin 42))"
  by (simp add: parseAnnualMinimums_cases JSON_parse_42 parseAnnualMinimums_pkce_def)


subsection \<open>Normalisation\<close>

text \<open>What \<open>processAgreement\<close> has done when it returns.\<close>

lemma processAgreement_Inr:
  assumes "processAgreement env raw = Inr a"
  shows "\<not> nullish raw"
    and "\<exists>e. calculateDerivedFields env (processed_object env raw e) = Inr a"
proof -
  show n: "\<not> nullish raw"
    using assms by (auto simp: processAgreement_def split: if_splits)
  let ?cf = "jor (getProp raw ''customFields'') (JObj [])"
  let ?e = "jor (getProp ?cf ''expirationDate'') (getProp raw ''expirationDate'')"
  let ?x = "if truthy ?e then Inr ?e else map_sum (\<lambda>e. e) JStr (calculateExpirationDate env raw)"
  from assms n obtain e where "?x = Inr e"
    by (cases ?x) (simp_all add: processAgreement_def Let_def)
  with assms n show "\<exists>e. calculateDerivedFields env (processed_object env raw e) = Inr a"
    by (auto simp: processAgreement_def Let_def)
qed

lemma processed_object_fields:
  "territoryCountries (processed_object env raw e) =
     parseMultiValue
       (jor (jor (getProp (jor (getProp raw ''customFields'') (JObj [])) ''territoryCountries'')
                 (getProp (jor (getProp raw ''customFields'') (JObj [])) ''territories''))
            (getProp (jor (getProp raw ''customFields'') (JObj [])) ''territory''))"
  "productCategories (processed_object env raw e) =
     parseMultiValue
       (jor (jor (getProp (jor (getProp raw ''customFields'') (JObj [])) ''productCategories'')
                 (getProp (jor (getProp raw ''customFields'') (JObj [])) ''products''))
            (getProp (jor (getProp raw ''customFields'') (JObj [])) ''product''))"
  "minimumPerformanceThreshold (processed_object env raw e) =
     num_or (parseNumber
               (jor (getProp (jor (getProp raw ''customFields'') (JObj [])) ''minimumPerformanceThreshold'')
                    (getProp (jor (getProp raw ''customFields'') (JObj [])) ''performanceThreshold'')))
       (Fin 85)"
  "nonRenewalNoticeDays (processed_object env raw e) =
     num_or (parseNumber
               (jor (getProp (jor (getProp raw ''customFields'') (JObj [])) ''nonRenewalNoticeDays'')
                    (getProp (jor (getProp raw ''customFields'') (JObj [])) ''noticeDays'')))
       (Fin 90)"
  "expirationDate (processed_object env raw e) = e"
  "annualMinimums (processed_object env raw e) =
     parseAnnualMinimums
       (jor (getProp (jor (getProp raw ''customFields'') (JObj [])) ''annualMinimums'')
            (getProp (jor (getProp raw ''customFields'') (JObj [])) ''minimums''))"
  by (simp_all add: processed_object_def Let_def)


lemma parseNumber_zero: "parseNumber (JStr ''0'') = Some (Fin 0)"
  by code_simp

text \<open>
  Claim C9. Whenever \<open>processAgreement\<close> returns: if the value found for the
  performance threshold (the first truthy one of \<open>minimumPerformanceThreshold\<close> and
  \<open>performanceThreshold\<close> in the custom fields) parses to the number 0, the threshold
  of the agreement is the default 85, the same as when the value is absent or does not
  parse; likewise the days of notice are the default 90.
\<close>

theorem zero_replaced_by_default:
  assumes "processAgreement env raw = Inr a"
  shows "(parseNumber
            (jor (getProp (jor (getProp raw ''customFields'') (JObj [])) ''minimumPerformanceThreshold'')
                 (getProp (jor (getProp raw ''customFields'') (JObj [])) ''performanceThreshold''))
          \<in> {Some (Fin 0), None}
          \<longrightarrow> minimumPerformanceThreshold a = Fin 85)
       \<and> (parseNumber
            (jor (getProp (jor (getProp raw ''customFields'') (JObj [])) ''nonRenewalNoticeDays'')
                 (getProp (jor (getProp raw ''customFields'') (JObj [])) ''noticeDays''))
          \<in> {Some (Fin 0), None}
          \<longrightarrow> nonRenewalNoticeDays a = Fin 90)"
proof -
  from processAgreement_Inr(2) [OF assms] obtain e
    where d: "calculateDerivedFields env (processed_object env raw e) = Inr a" by blast
  show ?thesis
    unfolding calculateDerivedFields_fields(4) [OF d] calculateDerivedFields_fields(6) [OF d]
      processed_object_fields
    by (auto simp: num_or_def num_truthy_def)
qed

lemma zero_raw_processed:
  "processAgreement (utc_env c) zero_raw
     = calculateDerivedFields (utc_env c) (processed_object (utc_env c) zero_raw (JStr ''2025-06-30''))"
  by (simp add: processAgreement_def zero_raw_def nullish_def jor_def Let_def)

lemma zero_raw_returns: "\<exists>a. processAgreement (utc_env c) zero_raw = Inr a"
proof -
  have z: "\<forall>t. \<bar>tzaUTC (utc_env c) t\<bar> \<le> msPerDay \<and> \<bar>tzaLocal (utc_env c) t\<bar> \<le> msPerDay"
    by (simp add: utc_env_def msPerDay_def)
  have m: "annualMinimums (processed_object (utc_env c) zero_raw (JStr ''2025-06-30'')) = JArr []"
    by (simp add: processed_object_fields zero_raw_def jor_def parseAnnualMinimums_def)
  have n: "nonRenewalNoticeDays (processed_object (utc_env c) zero_raw (JStr ''2025-06-30'')) = Fin 90"
    by (simp add: processed_object_fields zero_raw_def jor_def parseNumber_zero num_or_def
        num_truthy_def)
  have "\<exists>a. calculateDerivedFields (utc_env c)
              (processed_object (utc_env c) zero_raw (JStr ''2025-06-30'')) = Inr a"
    by (rule sample_returns [OF z _ _ m]) (simp_all add: n processed_object_fields(5))
  then show ?thesis by (simp add: zero_raw_processed)
qed

theorem zero_replaced_by_default_witness:
  "processAgreement (utc_env 1735689600000) zero_raw
     = Inr (projr (processAgreement (utc_env 1735689600000) zero_raw))
   \<and> parseNumber (JStr ''0'') = Some (Fin 0)
   \<and> minimumPerformanceThreshold (projr (processAgreement (utc_env 1735689600000) zero_raw)) = Fin 85
   \<and> nonRenewalNoticeDays (projr (processAgreement (utc_env 1735689600000) zero_raw)) = Fin 90"
proof -
  let ?a = "projr (processAgreement (utc_env 1735689600000) zero_raw)"
  from zero_raw_returns [of 1735689600000]
  have r: "processAgreement (utc_env 1735689600000) zero_raw = Inr ?a" by auto
  have "jor (getProp (jor (getProp zero_raw ''customFields'') (JObj [])) ''minimumPerformanceThreshold'')
            (getProp (jor (getProp zero_raw ''customFields'') (JObj [])) ''performanceThreshold'')
        = JStr ''0''"
    and "jor (getProp (jor (getProp zero_raw ''customFields'') (JObj [])) ''nonRenewalNoticeDays'')
            (getProp (jor (getProp zero_raw ''customFields'') (JObj [])) ''noticeDays'')
        = JStr ''0''"
    by (simp_all add: zero_raw_def jor_def)
  with zero_replaced_by_default [OF r] parseNumber_zero r show ?thesis
    by simp
qed


text \<open>
  Whenever \<open>processAgreement\<close> returns, the territories and the product categories
  of the agreement are sequences: the ones \<open>parseMultiValue\<close> makes of the first
  truthy candidate in the custom fields, and empty when the record has no custom fields.
\<close>

lemma processAgreement_fields:
  assumes "processAgreement env raw = Inr a"
  shows "territoryCountries a =
           parseMultiValue
             (jor (jor (getProp (jor (getProp raw ''customFields'') (JObj [])) ''territoryCountries'')
                       (getProp (jor (getProp raw ''customFields'') (JObj [])) ''territories''))
                  (getProp (jor (getProp raw ''customFields'') (JObj [])) ''territory''))
       \<and> productCategories a =
           parseMultiValue
             (jor (jor (getProp (jor (getProp raw ''customFields'') (JObj [])) ''productCategories'')
                       (getProp (jor (getProp raw ''customFields'') (JObj [])) ''products''))
                  (getProp (jor (getProp raw ''customFields'') (JObj [])) ''product''))
       \<and> (\<not> truthy (getProp raw ''customFields'')
            \<longrightarrow> territoryCountries a = [] \<and> productCategories a = [])"
proof -
  from processAgreement_Inr(2) [OF assms] obtain e
    where d: "calculateDerivedFields env (processed_object env raw e) = Inr a" by blast
  show ?thesis
    unfolding calculateDerivedFields_fields(1) [OF d] calculateDerivedFields_fields(2) [OF d]
      processed_object_fields
    by (simp add: jor_def parseMultiValue_def)
qed

text \<open>With an expiration date in the record, the fallback is not evaluated.\<close>

lemma processAgreement_given_date:
  assumes "\<not> nullish raw"
    and "jor (getProp (jor (getProp raw ''customFields'') (JObj [])) ''expirationDate'')
             (getProp raw ''expirationDate'') = e"
    and "truthy e"
  shows "processAgreement env raw = calculateDerivedFields env (processed_object env raw e)"
  using assms by (simp add: processAgreement_def Let_def)



text \<open>
  The same for a record that gives its date only, at any time of the clock, and for
  the empty record on 2025-01-01, whose expiration date is estimated a year ahead.
\<close>

lemma bare_raw_returns: "\<exists>a. processAgreement (utc_env c) bare_raw = Inr a"
proof -
  have z: "\<forall>t. \<bar>tzaUTC (utc_env c) t\<bar> \<le> msPerDay \<and> \<bar>tzaLocal (utc_env c) t\<bar> \<le> msPerDay"
    by (simp add: utc_env_def msPerDay_def)
  have p: "processAgreement (utc_env c) bare_raw
     = calculateDerivedFields (utc_env c) (processed_object (utc_env c) bare_raw (JStr ''2027-01-31''))"
    by (simp add: processAgreement_def bare_raw_def nullish_def jor_def Let_def)
  have m: "annualMinimums (processed_object (utc_env c) bare_raw (JStr ''2027-01-31'')) = JArr []"
    by (simp add: processed_object_fields bare_raw_def jor_def parseAnnualMinimums_def)
  have n: "nonRenewalNoticeDays (processed_object (utc_env c) bare_raw (JStr ''2027-01-31'')) = Fin 90"
    by (simp add: processed_object_fields bare_raw_def jor_def parseNumber_def num_or_def)
  have "\<exists>a. calculateDerivedFields (utc_env c)
              (processed_object (utc_env c) bare_raw (JStr ''2027-01-31'')) = Inr a"
    by (rule sample_returns [OF z _ _ m]) (simp_all add: n processed_object_fields(5))
  then show ?thesis by (simp add: p)
qed

lemma empty_raw_returns:
  "processAgreement (utc_env 1735689600000) (JObj [])
     = Inr (projr (processAgreement (utc_env 1735689600000) (JObj [])))"
  "territoryCountries (projr (processAgreement (utc_env 1735689600000) (JObj []))) = []"
  "productCategories (projr (processAgreement (utc_env 1735689600000) (JObj []))) = []"
  "nonRenewalDeadline (projr (processAgreement (utc_env 1735689600000) (JObj []))) = ''2025-10-03''"
proof -
  let ?env = "utc_env 1735689600000"
  let ?p = "processed_object ?env (JObj []) (JStr ''2026-01-01'')"
  have x: "calculateExpirationDate ?env (JObj []) = Inr ''2026-01-01''"
    by code_simp
  then have p: "processAgreement ?env (JObj []) = calculateDerivedFields ?env ?p"
    by (simp add: processAgreement_def nullish_def jor_def Let_def)
  have t: "newDate ?env (expirationDate ?p) = Some 1767225600000"
    by (simp add: processed_object_fields(5) date_parse_simps)
  have d: "nonRenewalNoticeDays ?p = Fin (of_int 90)"
    by (simp add: processed_object_fields jor_def parseNumber_def num_or_def)
  have c: "TimeClip (UTC ?env (LocalTime ?env 1767225600000 - 90 * msPerDay)) = Some 1759449600000"
    by (simp add: TimeClip_def UTC_def LocalTime_def utc_env_def msPerDay_def)
  have m: "annualMinimums ?p = JArr []"
    by (simp add: processed_object_fields jor_def parseAnnualMinimums_def)
  have "\<exists>a. calculateDerivedFields ?env ?p = Inr a"
    by (rule calculateDerivedFields_returns [OF t d c m]) simp_all
  with p show r: "processAgreement ?env (JObj [])
     = Inr (projr (processAgreement ?env (JObj [])))"
    by auto
  with p have a: "calculateDerivedFields ?env ?p = Inr (projr (processAgreement ?env (JObj [])))"
    by simp
  show "territoryCountries (projr (processAgreement ?env (JObj []))) = []"
    and "productCategories (projr (processAgreement ?env (JObj []))) = []"
    unfolding calculateDerivedFields_fields(1) [OF a] calculateDerivedFields_fields(2) [OF a]
      processed_object_fields
    by (simp_all add: jor_def parseMultiValue_def)
  have s: "setDate ?env (Some 1767225600000)
              (num_sub (getDate ?env (Some 1767225600000)) (Fin (of_int 90)))
           = Some 1759449600000"
    using setDate_sub_days [of 90 ?env 1767225600000] c by simp
  from calculateDerivedFields_Inr [OF a] obtain dl
    where "setDate ?env (newDate ?env (expirationDate ?p))
             (num_sub (getDate ?env (newDate ?env (expirationDate ?p)))
                (nonRenewalNoticeDays ?p)) = Some dl"
      and "nonRenewalDeadline (projr (processAgreement ?env (JObj [])))
             = date_part (iso_string dl)"
    by blast
  then have "nonRenewalDeadline (projr (processAgreement ?env (JObj [])))
          = date_part (iso_string 1759449600000)"
    unfolding t d s by simp
  also have "date_part (iso_string 1759449600000) = ''2025-10-03''"
    by code_simp
  finally show "nonRenewalDeadline (projr (processAgreement ?env (JObj []))) = ''2025-10-03''" .
qed

text \<open>
  What it throws is a TypeError or a RangeError. \<open>calculateDerivedFields\<close> throws
  exactly when the deadline is no valid date (RangeError), or when the annual minimums
  are no array or hold null or undefined before the entry of the current year
  (TypeError).
\<close>

lemma find_year_error: "find_year ms y = Inl err \<Longrightarrow> err = TypeError"
  by (induction ms) (auto split: if_splits)

lemma calculateDerivedFields_error:
  assumes "calculateDerivedFields env p = Inl err"
  shows "err = TypeError \<or> err = RangeError"
proof -
  let ?e = "newDate env (expirationDate p)"
  let ?d = "setDate env ?e (num_sub (getDate env ?e) (nonRenewalNoticeDays p))"
  let ?y = "annualMinimums_find (annualMinimums p) (YearFromTime (LocalTime env (now env)))"
  show ?thesis
  proof (cases "toISOString ?d")
    case (Inl x)
    then have "x = RangeError"
      by (auto simp: toISOString_def split: option.splits)
    with assms Inl show ?thesis
      by (simp add: calculateDerivedFields_def Let_def)
  next
    case (Inr isoString)
    show ?thesis
    proof (cases ?y)
      case (Inl x)
      then have "x = TypeError"
        by (cases "annualMinimums p") (auto simp: annualMinimums_find_def dest: find_year_error)
      with assms Inr Inl show ?thesis
        by (simp add: calculateDerivedFields_def Let_def)
    next
      case yc: (Inr yc)
      with assms Inr show ?thesis
        by (simp add: calculateDerivedFields_def Let_def)
    qed
  qed
qed

lemma calculateExpirationDate_error:
  "calculateExpirationDate env raw = Inl err \<Longrightarrow> err = RangeError"
  by (auto simp: calculateExpirationDate_def Let_def toISOString_def map_sum_def
      split: if_splits option.splits sum.splits)

lemma processAgreement_error:
  assumes "processAgreement env raw = Inl err"
  shows "err = TypeError \<or> err = RangeError"
proof (cases "nullish raw")
  case True
  with assms show ?thesis by (simp add: processAgreement_def)
next
  case False
  let ?cf = "jor (getProp raw ''customFields'') (JObj [])"
  let ?e = "jor (getProp ?cf ''expirationDate'') (getProp raw ''expirationDate'')"
  let ?x = "if truthy ?e then Inr ?e else map_sum (\<lambda>e. e) JStr (calculateExpirationDate env raw)"
  show ?thesis
  proof (cases ?x)
    case (Inl x)
    then have "calculateExpirationDate env raw = Inl x"
      by (cases "calculateExpirationDate env raw") (auto split: if_splits)
    then have "x = RangeError"
      by (rule calculateExpirationDate_error)
    moreover from assms False Inl have "err = x"
      by (simp add: processAgreement_def Let_def)
    ultimately show ?thesis by simp
  next
    case (Inr v)
    with assms False have "calculateDerivedFields env (processed_object env raw v) = Inl err"
      by (simp add: processAgreement_def Let_def)
    then show ?thesis by (rule calculateDerivedFields_error)
  qed
qed

lemma find_year_raises:
  "find_year ms y = Inl err \<longleftrightarrow>
     err = TypeError
     \<and> (\<exists>i < length ms. nullish (ms ! i)
            \<and> (\<forall>j < i. getProp (ms ! j) ''year'' \<noteq> JNum (Fin (of_int y))))"
proof (induction ms)
  case Nil
  show ?case by simp
next
  case (Cons m ms)
  show ?case
  proof (cases "nullish m")
    case True
    then have "\<exists>i < length (m # ms). nullish ((m # ms) ! i)
            \<and> (\<forall>j < i. getProp ((m # ms) ! j) ''year'' \<noteq> JNum (Fin (of_int y)))"
      by (intro exI [of _ 0]) simp
    with True show ?thesis by auto
  next
    case False
    show ?thesis
    proof (cases "getProp m ''year'' = JNum (Fin (of_int y))")
      case True
      have "\<not> (\<exists>i < length (m # ms). nullish ((m # ms) ! i)
            \<and> (\<forall>j < i. getProp ((m # ms) ! j) ''year'' \<noteq> JNum (Fin (of_int y))))"
      proof
        assume "\<exists>i < length (m # ms). nullish ((m # ms) ! i)
            \<and> (\<forall>j < i. getProp ((m # ms) ! j) ''year'' \<noteq> JNum (Fin (of_int y)))"
        then obtain i where i: "nullish ((m # ms) ! i)"
          and j: "\<forall>j < i. getProp ((m # ms) ! j) ''year'' \<noteq> JNum (Fin (of_int y))"
          by blast
        from i False have "0 < i" by (cases i) simp_all
        with j True show False by auto
      qed
      with False True show ?thesis by simp
    next
      case ny: False
      have "(\<exists>i < length (m # ms). nullish ((m # ms) ! i)
              \<and> (\<forall>j < i. getProp ((m # ms) ! j) ''year'' \<noteq> JNum (Fin (of_int y))))
          \<longleftrightarrow> (\<exists>i < length ms. nullish (ms ! i)
              \<and> (\<forall>j < i. getProp (ms ! j) ''year'' \<noteq> JNum (Fin (of_int y))))"
        (is "?l \<longleftrightarrow> ?r")
      proof
        assume ?l
        then obtain i where i: "i < length (m # ms)" "nullish ((m # ms) ! i)"
          and j: "\<forall>j < i. getProp ((m # ms) ! j) ''year'' \<noteq> JNum (Fin (of_int y))"
          by blast
        from i False obtain k where k: "i = Suc k" by (cases i) simp_all
        from j k have "\<forall>j < k. getProp (ms ! j) ''year'' \<noteq> JNum (Fin (of_int y))"
          by auto
        with i k show ?r by auto
      next
        assume ?r
        then obtain i where i: "i < length ms" "nullish (ms ! i)"
          and j: "\<forall>j < i. getProp (ms ! j) ''year'' \<noteq> JNum (Fin (of_int y))"
          by blast
        have "\<forall>j < Suc i. getProp ((m # ms) ! j) ''year'' \<noteq> JNum (Fin (of_int y))"
        proof (intro allI impI)
          fix j assume "j < Suc i"
          then show "getProp ((m # ms) ! j) ''year'' \<noteq> JNum (Fin (of_int y))"
            using j ny by (cases j) simp_all
        qed
        with i show ?l by (intro exI [of _ "Suc i"]) simp
      qed
      with False ny Cons.IH show ?thesis by simp
    qed
  qed
qed

lemma calculateDerivedFields_raises:
  "calculateDerivedFields env p = Inl err \<longleftrightarrow>
     (case setDate env (newDate env (expirationDate p))
             (num_sub (getDate env (newDate env (expirationDate p))) (nonRenewalNoticeDays p)) of
        None \<Rightarrow> err = RangeError
      | Some dl \<Rightarrow>
          annualMinimums_find (annualMinimums p) (YearFromTime (LocalTime env (now env)))
            = Inl err)"
proof -
  let ?e = "newDate env (expirationDate p)"
  let ?d = "setDate env ?e (num_sub (getDate env ?e) (nonRenewalNoticeDays p))"
  let ?y = "annualMinimums_find (annualMinimums p) (YearFromTime (LocalTime env (now env)))"
  show ?thesis
  proof (cases ?d)
    case None
    then show ?thesis
      by (auto simp: calculateDerivedFields_def Let_def toISOString_def)
  next
    case (Some dl)
    then show ?thesis
      by (cases ?y) (simp_all add: calculateDerivedFields_def Let_def toISOString_def)
  qed
qed

text \<open>Annual minimums that hold null make \<open>find\<close> throw TypeError.\<close>

lemma null_minimum_raises:
  "processAgreement (utc_env 1735689600000)
     (JObj [(''expirationDate'', JStr ''2027-01-31''),
            (''customFields'', JObj [(''annualMinimums'', JArr [JNull])])])
   = Inl TypeError"
proof -
  let ?env = "utc_env 1735689600000"
  let ?raw = "JObj [(''expirationDate'', JStr ''2027-01-31''),
                    (''customFields'', JObj [(''annualMinimums'', JArr [JNull])])]"
  let ?p = "processed_object ?env ?raw (JStr ''2027-01-31'')"
  have p: "processAgreement ?env ?raw = calculateDerivedFields ?env ?p"
    by (rule processAgreement_given_date) (simp_all add: nullish_def jor_def)
  have t: "newDate ?env (expirationDate ?p) = Some 1801353600000"
    by (simp add: processed_object_fields(5) date_parse_simps)
  have d: "nonRenewalNoticeDays ?p = Fin (of_int 90)"
    by (simp add: processed_object_fields jor_def parseNumber_def num_or_def)
  have s: "setDate ?env (Some 1801353600000)
              (num_sub (getDate ?env (Some 1801353600000)) (Fin (of_int 90)))
           = Some 1793577600000"
    using setDate_sub_days [of 90 ?env 1801353600000]
    by (simp add: TimeClip_def UTC_def LocalTime_def utc_env_def msPerDay_def)
  have m: "annualMinimums ?p = JArr [JNull]"
    by (simp add: processed_object_fields jor_def parseAnnualMinimums_def)
  show ?thesis
    unfolding p calculateDerivedFields_raises t d s
    by (simp add: m annualMinimums_find_def nullish_def)
qed


lemma calculateDerivedFields_invalid:
  "newDate env (expirationDate p) = None \<Longrightarrow> calculateDerivedFields env p = Inl RangeError"
  by (simp add: calculateDerivedFields_def setDate_def toISOString_def Let_def)



subsection \<open>The non-renewal deadline\<close>

lemma iso_date_examples:
  "date_part (iso_string 1757977200000) = ''2025-09-15''"
  "date_part (iso_string (1765756800000 - 90 * msPerDay)) = ''2025-09-16''"
  "date_part (iso_string (1736899200000 - 31 * msPerDay)) = ''2024-12-15''"
  by code_simp+

text \<open>
  The example of the specification on a host in UTC: the expiration date 2025-01-15
  with 31 days of notice gives the deadline 2024-12-15. On such a host, and on any
  host with one fixed offset, the deadline is the expiration date moved back by the
  days of notice (lemma \<open>calculateDerivedFields_fixed_offset\<close>).
\<close>

lemma nonRenewalDeadline_example_utc:
  assumes "expirationDate p = JStr ''2025-01-15''" and "nonRenewalNoticeDays p = Fin 31"
    and "annualMinimums p = JArr []"
  shows "\<exists>a. calculateDerivedFields (utc_env c) p = Inr a \<and> nonRenewalDeadline a = ''2024-12-15''"
proof -
  have e: "newDate (utc_env c) (expirationDate p) = Some 1736899200000"
    by (simp add: assms(1) date_parse_simps)
  have n: "nonRenewalNoticeDays p = Fin (of_int 31)"
    by (simp add: assms(2))
  have r: "\<bar>1736899200000 - 31 * msPerDay\<bar> \<le> 8640000000000000"
    by (simp add: msPerDay_def)
  have "tzaUTC (utc_env c) = (\<lambda>t. 0)" and "tzaLocal (utc_env c) = (\<lambda>t. 0)"
    by (simp_all add: utc_env_def)
  from calculateDerivedFields_fixed_offset [OF this e n r assms(3)]
  show ?thesis by (auto simp: iso_date_examples(3))
qed

text \<open>
  Claim C4. On a host on US Eastern time, the agreement that expires on 2025-12-15
  with 90 days of notice gets the deadline 2025-09-15, while 90 days before
  2025-12-15 is 2025-09-16: \<open>setDate\<close> moves the date in local time, from winter
  time into summer time, and \<open>toISOString\<close> prints the result, now 23:00 of the day
  before, in UTC.
\<close>

theorem nonRenewalDeadline_eastern:
  "expirationDate winter_example = JStr ''2025-12-15''
   \<and> nonRenewalNoticeDays winter_example = Fin 90
   \<and> newDate (eastern_env 1735689600000) (JStr ''2025-12-15'') = Some 1765756800000
   \<and> date_part (iso_string (1765756800000 - 90 * msPerDay)) = ''2025-09-16''
   \<and> calculateDerivedFields (eastern_env 1735689600000) winter_example
       = Inr (projr (calculateDerivedFields (eastern_env 1735689600000) winter_example))
   \<and> nonRenewalDeadline (projr (calculateDerivedFields (eastern_env 1735689600000) winter_example))
       = ''2025-09-15''"
proof -
  let ?env = "eastern_env 1735689600000"
  have x: "expirationDate winter_example = JStr ''2025-12-15''"
    and n: "nonRenewalNoticeDays winter_example = Fin (of_int 90)"
    and m: "annualMinimums winter_example = JArr
         [JObj [(''year'', JNum (Fin 2024)), (''amount'', JNum (Fin 2000000))],
          JObj [(''year'', JNum (Fin 2025)), (''amount'', JNum (Fin 2500000))],
          JObj [(''year'', JNum (Fin 2026)), (''amount'', JNum (Fin 3000000))]]"
    by (simp_all add: winter_example_def sample1_def)
  have e: "newDate ?env (JStr ''2025-12-15'') = Some 1765756800000"
    by (simp add: date_parse_simps)
  then have e': "newDate ?env (expirationDate winter_example) = Some 1765756800000"
    by (simp add: x)
  have c: "TimeClip (UTC ?env (LocalTime ?env 1765756800000 - 90 * msPerDay)) = Some 1757977200000"
    by (simp add: TimeClip_def UTC_def LocalTime_def eastern_env_def msPerDay_def)
  have "\<exists>a. calculateDerivedFields ?env winter_example = Inr a"
    by (rule calculateDerivedFields_returns [OF e' n c m]) (simp_all add: nullish_def)
  then have r: "calculateDerivedFields ?env winter_example
       = Inr (projr (calculateDerivedFields ?env winter_example))"
    by auto
  have s: "setDate ?env (Some 1765756800000)
              (num_sub (getDate ?env (Some 1765756800000)) (Fin (of_int 90)))
           = Some 1757977200000"
    using setDate_sub_days [of 90 ?env 1765756800000] c by simp
  from calculateDerivedFields_Inr [OF r] obtain dl
    where "setDate ?env (newDate ?env (expirationDate winter_example))
             (num_sub (getDate ?env (newDate ?env (expirationDate winter_example)))
                (nonRenewalNoticeDays winter_example)) = Some dl"
      and "nonRenewalDeadline (projr (calculateDerivedFields ?env winter_example))
             = date_part (iso_string dl)"
    by blast
  then have "nonRenewalDeadline (projr (calculateDerivedFields ?env winter_example))
          = date_part (iso_string 1757977200000)"
    unfolding e' n s by simp
  then have d: "nonRenewalDeadline (projr (calculateDerivedFields ?env winter_example)) = ''2025-09-15''"
    by (simp add: iso_date_examples(1))
  from n have n': "nonRenewalNoticeDays winter_example = Fin 90"
    by simp
  from x n' e r d iso_date_examples(2) show ?thesis
    by blast
qed


subsection \<open>The PKCE service\<close>

text \<open>
  \<open>processAgreement\<close> of \<open>NavigatorAPIServicePKCE\<close>: a record without
  expiration date makes it throw; when it returns, the territories and product
  categories are what its \<open>parseMultiValue\<close> returns, and a threshold or notice that
  parses to 0 or to null is replaced by 85 or 90.
\<close>

lemma processAgreement_pkce_absent_date:
  "processAgreement_pkce env (JObj []) = Inl RangeError"
  by (simp add: processAgreement_pkce_def nullish_def calculateDerivedFields_invalid
      processed_object_pkce_def jor_def Let_def)

lemma processAgreement_pkce_Inr:
  assumes "processAgreement_pkce env raw = Inr a"
  shows "territoryCountries a =
           parseMultiValue_pkce
             (getProp (jor (getProp raw ''customFields'') (JObj [])) ''territoryCountries'')"
    and "productCategories a =
           parseMultiValue_pkce
             (getProp (jor (getProp raw ''customFields'') (JObj [])) ''productCategories'')"
    and "minimumPerformanceThreshold a =
           num_or (parseNumber
                     (getProp (jor (getProp raw ''customFields'') (JObj []))
                        ''minimumPerformanceThreshold'')) (Fin 85)"
    and "nonRenewalNoticeDays a =
           num_or (parseNumber
                     (getProp (jor (getProp raw ''customFields'') (JObj []))
                        ''nonRenewalNoticeDays'')) (Fin 90)"
proof -
  from assms have d: "calculateDerivedFields env (processed_object_pkce raw) = Inr a"
    by (auto simp: processAgreement_pkce_def split: if_splits)
  show "territoryCountries a =
           parseMultiValue_pkce
             (getProp (jor (getProp raw ''customFields'') (JObj [])) ''territoryCountries'')"
    and "productCategories a =
           parseMultiValue_pkce
             (getProp (jor (getProp raw ''customFields'') (JObj [])) ''productCategories'')"
    and "minimumPerformanceThreshold a =
           num_or (parseNumber
                     (getProp (jor (getProp raw ''customFields'') (JObj []))
                        ''minimumPerformanceThreshold'')) (Fin 85)"
    and "nonRenewalNoticeDays a =
           num_or (parseNumber
                     (getProp (jor (getProp raw ''customFields'') (JObj []))
                        ''nonRenewalNoticeDays'')) (Fin 90)"
    unfolding calculateDerivedFields_fields [OF d]
    by (simp_all add: processed_object_pkce_def Let_def)
qed

text \<open>It returns under the conditions of the other service, read from its own keys.\<close>

lemma processAgreement_pkce_returns:
  assumes "\<not> nullish raw"
    and "newDate env (expirationDate (processed_object_pkce raw)) = Some t"
    and "nonRenewalNoticeDays (processed_object_pkce raw) = Fin (of_int d)"
    and "\<bar>d\<bar> \<le> 2 ^ 52"
    and "TimeClip (UTC env (LocalTime env t - d * msPerDay)) = Some dl"
    and "annualMinimums (processed_object_pkce raw) = JArr ms"
    and "list_all (\<lambda>m. \<not> nullish m) ms"
  shows "\<exists>a. processAgreement_pkce env raw = Inr a"
  using calculateDerivedFields_returns [OF assms(2,3,5,6,7,4)] assms(1)
  by (simp add: processAgreement_pkce_def)

lemma num_or_default:
  "r \<in> {Some (Fin 0), None} \<Longrightarrow> num_or r d = d"
  by (auto simp: num_or_def num_truthy_def)


end
